theory Spec2Isabelle
  imports Main "HOL-Library.AList" "HOL-Library.Sublist" "HOL-Library.List_Lexorder"
    "HOL-Library.Char_ord"
begin

section \<open>Errors and results\<close>

text \<open>
  Byte slices and strings of the Go source are both \<open>string\<close> here.

  A Go \<open>error\<close> value is modelled by its dynamic kind:
  \<^item> \<open>ErrMetaNotFound\<close> is \<open>*store.ErrMetaNotFound\<close>, the remote store's translation of
    HTTP 404, the one kind that \<open>Publish\<close> tests for with a type assertion;
  \<^item> \<open>ErrRepoNotInitialized\<close> is the client's own \<open>*ErrRepoNotInitialized\<close>;
  \<^item> \<open>ErrorsNew msg\<close> is \<open>errors.New(msg)\<close>;
  \<^item> \<open>FmtErrorf fmt e\<close> is \<open>fmt.Errorf(fmt, e)\<close> with a \<open>%v\<close> verb: a fresh string
    error that only quotes the message of \<open>e\<close>;
  \<^item> \<open>ErrExternal tag\<close> is any other error returned by a collaborator (transport,
    JSON, file system, key store, TUF library).
\<close>

type_synonym bytes = string

datatype error =
    ErrMetaNotFound
  | ErrRepoNotInitialized
  | ErrorsNew string
  | FmtErrorf string error
  | ErrExternal string

text \<open>
  A call either returns a value, returns an error, or panics (nil dereference, index out
  of range); a panic unwinds through every caller of the client.
\<close>

datatype 'a result = Ok 'a | Err error | Panic string

section \<open>X509 certificates and the certificate file store\<close>

datatype SignatureAlgorithm =
    UnknownSignatureAlgorithm
  | MD2WithRSA | MD5WithRSA | SHA1WithRSA | SHA256WithRSA | SHA384WithRSA | SHA512WithRSA
  | DSAWithSHA1 | DSAWithSHA256
  | ECDSAWithSHA1 | ECDSAWithSHA256 | ECDSAWithSHA384 | ECDSAWithSHA512

text \<open>
  The fields of \<open>x509.Certificate\<close> that the client and the store read. \<open>SubjectKeyId\<close> is
  a byte slice that may be nil (\<open>None\<close>); \<open>NotAfter\<close> is a point in time; \<open>CommonName\<close> is
  \<open>Subject.CommonName\<close>.
\<close>

record Certificate =
  Raw :: bytes
  RawSubject :: bytes
  SubjectKeyId :: "bytes option"
  IsCA :: bool
  BasicConstraintsValid :: bool
  NotAfter :: int
  SigAlgorithm :: SignatureAlgorithm
  CommonName :: string

text \<open>
  What the store takes from outside its own file: \<open>sha256.Sum256\<close>, the hash behind the
  certificate fingerprint, the constant \<open>certExtension\<close>, \<open>path.Join\<close>, and the outcome
  of writing or removing a file at some path. \<open>stat_result\<close> is a failure of \<open>os.Stat\<close>
  of another kind than the absence of the file (a path component that is not a directory,
  a name that is too long, a directory that may not be searched).
\<close>

record x509prims =
  sha256_Sum256 :: "bytes \<Rightarrow> bytes"
  content_hash :: "bytes \<Rightarrow> string"
  certExtension :: string
  path_Join :: "string \<Rightarrow> string \<Rightarrow> string"
  write_result :: "string \<Rightarrow> error option"
  remove_result :: "string \<Rightarrow> error option"
  stat_result :: "string \<Rightarrow> error option"

text \<open>
  \<open>X509FileStore\<close>: the three Go maps. \<open>fileMap\<close> and \<open>fingerprintMap\<close> are association
  lists with distinct keys (so that the store can be listed), \<open>nameMap\<close> a partial function.
  The validator is a closure that reads the clock (\<open>time.Now()\<close>); the clock reading is
  passed in by the caller of every operation that validates.
\<close>

record X509FileStore =
  baseDir :: string
  validate :: "int \<Rightarrow> Certificate \<Rightarrow> bool"
  fileMap :: "(string \<times> string) list"
  fingerprintMap :: "(string \<times> Certificate) list"
  nameMap :: "string \<rightharpoonup> string list"

text \<open>The files present under the store's directory, by path.\<close>

type_synonym disk = "string set"

text \<open>
  Modelled from the spec: \<open>fingerprintCert\<close> (trustmanager, not in the files at hand) is
  the certificate's content-hash identifier, a hash of its raw encoding.
\<close>

definition fingerprintCert :: "x509prims \<Rightarrow> Certificate \<Rightarrow> string" where
  "fingerprintCert P cert = content_hash P (Raw cert)"

text \<open>
  Modelled from the spec: \<open>saveCertificate\<close> (trustmanager, not in the files at hand)
  writes one PEM file for the certificate at the given path, or fails.
\<close>

definition saveCertificate ::
  "x509prims \<Rightarrow> Certificate \<Rightarrow> string \<Rightarrow> disk \<Rightarrow> error option \<times> disk" where
  "saveCertificate P cert filename d =
     (case write_result P filename of
        Some e \<Rightarrow> (Some e, d)
      | None \<Rightarrow> (None, insert filename d))"

definition os_Remove :: "x509prims \<Rightarrow> string \<Rightarrow> disk \<Rightarrow> error option \<times> disk" where
  "os_Remove P filename d =
     (case remove_result P filename of
        Some e \<Rightarrow> (Some e, d)
      | None \<Rightarrow>
          if filename \<in> d then (None, d - {filename})
          else (Some (ErrExternal ''remove: no such file or directory''), d))"

text \<open>
  \<open>os.IsNotExist\<close> of the error of \<open>os.Stat(filename)\<close>: no file is at the path, and
  \<open>os.Stat\<close> did not fail for another reason.
\<close>

definition stat_IsNotExist :: "x509prims \<Rightarrow> string \<Rightarrow> disk \<Rightarrow> bool" where
  "stat_IsNotExist P filename d \<longleftrightarrow> stat_result P filename = None \<and> filename \<notin> d"

definition emptyStore :: "string \<Rightarrow> (int \<Rightarrow> Certificate \<Rightarrow> bool) \<Rightarrow> X509FileStore" where
  "emptyStore directory v =
     \<lparr> baseDir = directory, validate = v, fileMap = [], fingerprintMap = [],
       nameMap = Map.empty \<rparr>"

text \<open>
  \<open>addNamedCert\<close>. The certificate arrives by pointer (\<open>None\<close> is nil). The order of the
  source is kept: nil check, duplicate check, validation, overwrite of \<open>SubjectKeyId\<close>,
  the three map updates, and the write to disk when \<open>os.Stat\<close> reports that no file of
  that name exists; on any other outcome of \<open>os.Stat\<close> nothing is written and nil is
  returned. A failed write is returned after the maps were updated.
\<close>

definition addNamedCert ::
  "x509prims \<Rightarrow> int \<Rightarrow> X509FileStore \<Rightarrow> disk \<Rightarrow> Certificate option \<Rightarrow> string
     \<Rightarrow> error option \<times> X509FileStore \<times> disk" where
  "addNamedCert P now s d cert filename =
     (case cert of
        None \<Rightarrow> (Some (ErrorsNew ''adding nil Certificate to X509Store''), s, d)
      | Some c \<Rightarrow>
          let fingerprint = fingerprintCert P c in
          if map_of (fingerprintMap s) fingerprint \<noteq> None
          then (Some (ErrorsNew ''certificate already in the store''), s, d)
          else if \<not> validate s now c
          then (Some (ErrorsNew ''certificate validation failed''), s, d)
          else
            let c' = c\<lparr> SubjectKeyId := Some (sha256_Sum256 P (Raw c)) \<rparr>;
                name = RawSubject c';
                s' = s\<lparr> fingerprintMap := AList.update fingerprint c' (fingerprintMap s),
                        fileMap := AList.update fingerprint filename (fileMap s),
                        nameMap := (nameMap s)(name \<mapsto>
                          (case nameMap s name of None \<Rightarrow> [] | Some l \<Rightarrow> l) @ [fingerprint]) \<rparr>
            in if stat_IsNotExist P filename d
               then (case saveCertificate P c' filename d of (r, d') \<Rightarrow> (r, s', d'))
               else (None, s', d))"

definition AddCert ::
  "x509prims \<Rightarrow> int \<Rightarrow> X509FileStore \<Rightarrow> disk \<Rightarrow> Certificate option
     \<Rightarrow> error option \<times> X509FileStore \<times> disk" where
  "AddCert P now s d cert =
     (case cert of
        None \<Rightarrow> (Some (ErrorsNew ''adding nil Certificate to X509Store''), s, d)
      | Some c \<Rightarrow>
          let fingerprint = fingerprintCert P c;
              filename = path_Join P (baseDir s) (fingerprint @ certExtension P)
          in addNamedCert P now s d cert filename)"

text \<open>
  \<open>RemoveCert\<close>. Deleting from a Go map and reading a missing key never fail: a missing
  \<open>fileMap\<close> entry reads as the empty string, which \<open>os.Remove\<close> then rejects.
\<close>

definition RemoveCert ::
  "x509prims \<Rightarrow> X509FileStore \<Rightarrow> disk \<Rightarrow> Certificate option
     \<Rightarrow> error option \<times> X509FileStore \<times> disk" where
  "RemoveCert P s d cert =
     (case cert of
        None \<Rightarrow> (Some (ErrorsNew ''removing nil Certificate from X509Store''), s, d)
      | Some c \<Rightarrow>
          let fingerprint = fingerprintCert P c;
              filename = (case map_of (fileMap s) fingerprint of None \<Rightarrow> [] | Some f \<Rightarrow> f);
              name = RawSubject c;
              fpList = (case nameMap s name of None \<Rightarrow> [] | Some l \<Rightarrow> l);
              newfpList = filter (\<lambda>x. x \<noteq> fingerprint) fpList;
              s' = s\<lparr> fingerprintMap := AList.delete fingerprint (fingerprintMap s),
                      fileMap := AList.delete fingerprint (fileMap s),
                      nameMap := (nameMap s)(name \<mapsto> newfpList) \<rparr>
          in (case os_Remove P filename d of (r, d') \<Rightarrow> (r, s', d')))"

definition GetCertificates :: "X509FileStore \<Rightarrow> Certificate list" where
  "GetCertificates s = map snd (fingerprintMap s)"

text \<open>
  \<open>GetCertificateBySKID\<close>: the identifier must have the length of a hex SHA-256 digest.
\<close>

definition GetCertificateBySKID :: "X509FileStore \<Rightarrow> string \<Rightarrow> error + Certificate" where
  "GetCertificateBySKID s hexSKID =
     (if length hexSKID \<noteq> 64 then Inl (ErrorsNew ''invalid Subject Key Identifier'')
      else case map_of (fingerprintMap s) hexSKID of
             Some cert \<Rightarrow> Inr cert
           | None \<Rightarrow> Inl (ErrorsNew ''certificate not found in Key Store''))"

text \<open>
  A history of the store: every way a certificate enters (\<open>AddCert\<close>, or \<open>addNamedCert\<close>
  under a file name chosen by \<open>AddCertFromFile\<close>, \<open>AddCertFromURL\<close> or the load at
  construction) or leaves it, each add with the clock reading at that moment. Errors of
  the single operations are dropped here, as the load at construction drops them.
\<close>

datatype store_op =
    OpAddCert int "Certificate option"
  | OpAddNamedCert int "Certificate option" string
  | OpRemoveCert "Certificate option"

fun apply_store_op ::
  "x509prims \<Rightarrow> X509FileStore \<times> disk \<Rightarrow> store_op \<Rightarrow> X509FileStore \<times> disk" where
  "apply_store_op P (s, d) (OpAddCert now c) = snd (AddCert P now s d c)"
| "apply_store_op P (s, d) (OpAddNamedCert now c f) = snd (addNamedCert P now s d c f)"
| "apply_store_op P (s, d) (OpRemoveCert c) = snd (RemoveCert P s d c)"

definition run_store_ops ::
  "x509prims \<Rightarrow> X509FileStore \<times> disk \<Rightarrow> store_op list \<Rightarrow> X509FileStore \<times> disk" where
  "run_store_ops P sd ops = foldl (apply_store_op P) sd ops"

text \<open>
  Modelled from the spec: \<open>loadCertsFromDir\<close> (trustmanager, not in the files at hand)
  loads the certificate files found in the directory at construction time, each through
  the store's own add, so that the store's filter applies.
\<close>

definition loadCertsFromDir ::
  "x509prims \<Rightarrow> X509FileStore \<times> disk \<Rightarrow> (int \<times> Certificate \<times> string) list
     \<Rightarrow> X509FileStore \<times> disk" where
  "loadCertsFromDir P sd found =
     run_store_ops P sd (map (\<lambda>(now, c, f). OpAddNamedCert now (Some c) f) found)"

definition NewX509FilteredFileStore ::
  "x509prims \<Rightarrow> string \<Rightarrow> (int \<Rightarrow> Certificate \<Rightarrow> bool) \<Rightarrow> disk
     \<Rightarrow> (int \<times> Certificate \<times> string) list \<Rightarrow> X509FileStore \<times> disk" where
  "NewX509FilteredFileStore P directory v d found =
     loadCertsFromDir P (emptyStore directory v, d) found"

text \<open>The two filters that \<open>loadKeys\<close> hands to its stores.\<close>

definition sha1_signed :: "Certificate \<Rightarrow> bool" where
  "sha1_signed cert \<longleftrightarrow>
     SigAlgorithm cert = SHA1WithRSA \<or> SigAlgorithm cert = DSAWithSHA1
       \<or> SigAlgorithm cert = ECDSAWithSHA1"

definition caStore_filter :: "int \<Rightarrow> Certificate \<Rightarrow> bool" where
  "caStore_filter now cert \<longleftrightarrow>
     IsCA cert \<and> BasicConstraintsValid cert \<and> SubjectKeyId cert \<noteq> None \<and>
     now < NotAfter cert \<and>
     SigAlgorithm cert \<noteq> SHA1WithRSA \<and>
     SigAlgorithm cert \<noteq> DSAWithSHA1 \<and>
     SigAlgorithm cert \<noteq> ECDSAWithSHA1"

definition certificateStore_filter :: "int \<Rightarrow> Certificate \<Rightarrow> bool" where
  "certificateStore_filter now cert \<longleftrightarrow>
     \<not> IsCA cert \<and>
     now < NotAfter cert \<and>
     SigAlgorithm cert \<noteq> SHA1WithRSA \<and>
     SigAlgorithm cert \<noteq> DSAWithSHA1 \<and>
     SigAlgorithm cert \<noteq> ECDSAWithSHA1"

section \<open>TUF data, as far as the client reads it\<close>

text \<open>
  The TUF library (gotuf) is an external collaborator. Its data types are given here with
  the fields the client touches; a Go pointer that may be nil is an \<open>option\<close>. A key's
  \<open>ID()\<close> is a hash of its public material, kept in \<open>kid\<close>.
\<close>

record TUFKey =
  kid :: string
  kcipher :: string
  kpublic :: bytes
  kprivate :: bytes

record Signature =
  sig_KeyID :: string
  sig_Method :: string
  sig_Signature :: bytes

record Signed =
  Signed_bytes :: bytes
  Signatures :: "Signature list"

record Role =
  role_Name :: string
  Threshold :: int
  KeyIDs :: "string list"

record RootBody =
  root_Keys :: "string \<rightharpoonup> TUFKey"
  root_Roles :: "string \<rightharpoonup> Role"
  root_Expires :: int

record SignedRoot =
  sr_Signed :: RootBody
  sr_Dirty :: bool

record FileMeta =
  Length :: int
  Hashes :: "(string \<times> bytes) list"

record SignedTargets =
  st_Targets :: "(string \<times> FileMeta) list"
  st_Dirty :: bool

record KeyDB =
  db_keys :: "(string \<times> TUFKey) list"
  db_roles :: "(string \<times> Role) list"

record TufRepo =
  Root :: "SignedRoot option"
  Targets :: "(string \<times> SignedTargets) list"
  Snapshot :: "(string \<times> bytes) list option"
  keysDB :: KeyDB

record Target =
  Name :: string
  t_Hashes :: "(string \<times> bytes) list"
  t_Length :: int

text \<open>A signer is a crypto service over a key store: its GUN and its passphrase.\<close>

record Signer =
  cs_gun :: string
  cs_passphrase :: string

record UnlockedSigner =
  us_privKey :: TUFKey
  us_signer :: Signer

section \<open>The changelist and the key store\<close>

datatype Action = ActionCreate | ActionUpdate | ActionDelete

record Change =
  c_Action :: Action
  c_Scope :: string
  c_Type :: string
  c_Path :: string
  c_Content :: bytes

definition NewTufChange :: "Action \<Rightarrow> string \<Rightarrow> string \<Rightarrow> string \<Rightarrow> bytes \<Rightarrow> Change" where
  "NewTufChange action scope type path content =
     \<lparr> c_Action = action, c_Scope = scope, c_Type = type, c_Path = path,
       c_Content = content \<rparr>"

text \<open>
  The encrypted key file store: for each key identifier the key and the passphrase it is
  encrypted under, and the links from an alias to a key identifier.
\<close>

record KeyFileStore =
  ks_keys :: "(string \<times> TUFKey \<times> string) list"
  ks_links :: "(string \<times> string) list"

section \<open>The repository, the world around it, and the collaborators\<close>

record NotaryRepository =
  gun :: string
  baseURL :: string
  tufRepoPath :: string
  caStore :: X509FileStore
  certificateStore :: X509FileStore
  signer :: Signer
  tufRepo :: "TufRepo option"
  rootKeyStore :: KeyFileStore

text \<open>
  What a run can observe or change outside the repository value: the events it causes,
  in order, and the durable stores (trusted-certificate files, changelist, local metadata
  cache, the remote's metadata).
\<close>

datatype event =
    EvRemoteGetMeta string
  | EvRemoteGetKey string
  | EvRemoteSetMeta string bytes
  | EvClientUpdate
  | EvGetPass
  | EvMarshal string
  | EvCreateKey string
  | EvSignRoot
  | EvSignTargets string
  | EvSignSnapshot
  | EvCacheSetMeta string bytes

record world =
  repo :: NotaryRepository
  trust_files :: disk
  changelist :: "Change list"
  local_meta :: "(string \<times> bytes) list"
  remote_meta :: "(string \<times> bytes) list"
  trace :: "event list"

text \<open>
  The collaborators, as the outcomes of their calls: the clock, the remote store, the
  JSON, PEM and X509 libraries, the TUF library, key generation, and the I/O of the local
  stores. An operation of the TUF library takes the repository and returns its result
  and the repository as it left it.
\<close>

record ext =
  prims :: x509prims
  clock :: int
  near_expiry_window :: int
  getRemoteStore_result :: "error option"
  remote_GetMeta :: "string \<Rightarrow> error + bytes"
  remote_GetKey :: "string \<Rightarrow> error + bytes"
  remote_SetMeta :: "string \<Rightarrow> bytes \<Rightarrow> error option"
  json_Marshal_Signed :: "Signed option \<Rightarrow> error + bytes"
  json_Unmarshal_Signed :: "bytes \<Rightarrow> error + Signed"
  json_Unmarshal_Root :: "bytes \<Rightarrow> error + RootBody"
  json_Unmarshal_TUFKey :: "bytes \<Rightarrow> error + TUFKey"
  json_Marshal_Hashes :: "(string \<times> bytes) list \<Rightarrow> error + bytes"
  json_Unmarshal_FileMeta :: "bytes \<Rightarrow> error + FileMeta"
  pem_Decode :: "bytes \<Rightarrow> bytes option"
  x509_ParseCertificates :: "bytes \<Rightarrow> error + Certificate list"
  chain_verifies :: "Certificate list \<Rightarrow> string \<Rightarrow> Certificate \<Rightarrow> bool"
  signed_VerifyRoot :: "Signed \<Rightarrow> int \<Rightarrow> (string \<times> TUFKey) list \<Rightarrow> int \<Rightarrow> error option"
  key_ID :: "string \<Rightarrow> bytes \<Rightarrow> string"
  CertToPEM :: "Certificate \<Rightarrow> bytes"
  data_NewRole_result :: "string \<Rightarrow> int \<Rightarrow> string list \<Rightarrow> error option"
  kdb_AddRole_result :: "KeyDB \<Rightarrow> Role \<Rightarrow> error option"
  tuf_SetRoot :: "TufRepo \<Rightarrow> Signed \<Rightarrow> error option \<times> TufRepo"
  tuf_SetTargets :: "TufRepo \<Rightarrow> string \<Rightarrow> Signed \<Rightarrow> error option \<times> TufRepo"
  tuf_SetSnapshot :: "TufRepo \<Rightarrow> Signed \<Rightarrow> error option \<times> TufRepo"
  tuf_InitRepo :: "TufRepo \<Rightarrow> error option \<times> TufRepo"
  tuf_ToSigned :: "SignedRoot \<Rightarrow> error + Signed"
  tuf_SignRoot :: "TufRepo \<Rightarrow> Signer \<Rightarrow> (error + Signed) \<times> TufRepo"
  tuf_SignTargets :: "TufRepo \<Rightarrow> string \<Rightarrow> (error + Signed) \<times> TufRepo"
  tuf_SignSnapshot :: "TufRepo \<Rightarrow> (error + Signed) \<times> TufRepo"
  client_Update :: "TufRepo \<Rightarrow> error option \<times> TufRepo"
  signer_Create :: "string \<Rightarrow> error + TUFKey"
  GenerateRSAKey :: "nat \<Rightarrow> error + TUFKey"
  x509_ParsePKCS1PrivateKey :: "bytes \<Rightarrow> error option"
  NewCertificate_result :: "string \<Rightarrow> error option"
  x509_CreateCertificate :: "string \<Rightarrow> bytes \<Rightarrow> error + bytes"
  x509_ParseCertificate :: "bytes \<Rightarrow> error + Certificate"
  NewFilesystemStore_result :: "error option"
  fs_GetMeta_error :: "string \<Rightarrow> error option"
  fs_SetMeta_result :: "string \<Rightarrow> bytes \<Rightarrow> error option"
  NewX509FilteredFileStore_result :: "nat \<Rightarrow> error option"
  NewKeyFileStore_result :: "string \<Rightarrow> error option"
  NewFileChangelist_result :: "error option"
  cl_Add_result :: "Change \<Rightarrow> error option"
  cl_Close_result :: "error option"
  ks_write_result :: "string \<Rightarrow> error option"

section \<open>JSON\<close>

text \<open>
  The text of a JSON object without white space, its members in the order given, and of
  an integer in decimal.
\<close>

definition json_member :: "string \<times> string \<Rightarrow> string" where
  "json_member m = [CHR 0x22] @ fst m @ [CHR 0x22] @ '':'' @ snd m"

fun json_members :: "(string \<times> string) list \<Rightarrow> string" where
  "json_members [] = []"
| "json_members [m] = json_member m"
| "json_members (m # ms) = json_member m @ '','' @ json_members ms"

definition json_object :: "(string \<times> string) list \<Rightarrow> string" where
  "json_object ms = ''{'' @ json_members ms @ ''}''"

fun decimal :: "nat \<Rightarrow> string" where
  "decimal n =
     (if n < 10 then [''0123456789'' ! n]
      else decimal (n div 10) @ [''0123456789'' ! (n mod 10)])"

declare decimal.simps [simp del]

definition json_int :: "int \<Rightarrow> string" where
  "json_int i = (if i < 0 then ''-'' @ decimal (nat (- i)) else decimal (nat i))"

text \<open>
  \<open>json.Marshal\<close> of the standard library (\<open>encoding/json\<close>, the one the client imports)
  on a \<open>data.FileMeta\<close> whose custom field is nil: a struct is written as an object with
  its fields in the order of their declaration, \<open>length\<close> and then \<open>hashes\<close>. The hashes
  are a map type of the TUF library, whose text, or the error of writing it, is the
  collaborator's.
\<close>

definition json_Marshal_FileMeta :: "ext \<Rightarrow> FileMeta \<Rightarrow> error + bytes" where
  "json_Marshal_FileMeta E meta =
     (case json_Marshal_Hashes E (Hashes meta) of
        Inl err \<Rightarrow> Inl err
      | Inr h \<Rightarrow> Inr (json_object [(''length'', json_int (Length meta)), (''hashes'', h)]))"

text \<open>
  The canonical form that the specification names for the same value: an object's
  members are written in the sorted order of their keys.
\<close>

definition canonical_json_object :: "(string \<times> string) list \<Rightarrow> string" where
  "canonical_json_object ms = json_object (sort_key fst ms)"

definition canonical_json_FileMeta :: "ext \<Rightarrow> FileMeta \<Rightarrow> error + bytes" where
  "canonical_json_FileMeta E meta =
     (case json_Marshal_Hashes E (Hashes meta) of
        Inl err \<Rightarrow> Inl err
      | Inr h \<Rightarrow>
          Inr (canonical_json_object [(''length'', json_int (Length meta)), (''hashes'', h)]))"

section \<open>Sequencing\<close>

text \<open>
  A step of the client takes the world and returns a result and the world as it left it.
  \<open>bind\<close> is Go's \<open>if err != nil { return err }\<close>: an error or a panic of the first step
  ends the run with the world as it is at that point.
\<close>

type_synonym 'a step = "world \<Rightarrow> 'a result \<times> world"

definition bind :: "'a step \<Rightarrow> ('a \<Rightarrow> 'b step) \<Rightarrow> 'b step" where
  "bind m f w =
     (case m w of
        (Ok a, w') \<Rightarrow> f a w'
      | (Err e, w') \<Rightarrow> (Err e, w')
      | (Panic p, w') \<Rightarrow> (Panic p, w'))"

definition ret :: "'a \<Rightarrow> 'a step" where
  "ret a w = (Ok a, w)"

definition fail :: "error \<Rightarrow> 'a step" where
  "fail e w = (Err e, w)"

definition panic :: "string \<Rightarrow> 'a step" where
  "panic p w = (Panic p, w)"

definition lift :: "error + 'a \<Rightarrow> 'a step" where
  "lift x = (case x of Inl e \<Rightarrow> fail e | Inr a \<Rightarrow> ret a)"

definition check :: "error option \<Rightarrow> unit step" where
  "check x = (case x of Some e \<Rightarrow> fail e | None \<Rightarrow> ret ())"

definition emit :: "event \<Rightarrow> unit step" where
  "emit ev w = (Ok (), w\<lparr> trace := trace w @ [ev] \<rparr>)"

text \<open>
  \<open>handle\<close> is Go's \<open>if err != nil { ... } else { ... }\<close> with a branch that looks at the
  error; a panic is not caught.
\<close>

definition handle :: "'a step \<Rightarrow> ('a \<Rightarrow> 'b step) \<Rightarrow> (error \<Rightarrow> 'b step) \<Rightarrow> 'b step" where
  "handle m f h w =
     (case m w of
        (Ok a, w') \<Rightarrow> f a w'
      | (Err e, w') \<Rightarrow> h e w'
      | (Panic p, w') \<Rightarrow> (Panic p, w'))"

text \<open>A call whose error the source drops: the run goes on whatever the outcome.\<close>

definition ignore_error :: "'a step \<Rightarrow> unit step" where
  "ignore_error m = handle m (\<lambda>a. ret ()) (\<lambda>e. ret ())"

definition set_tufRepo :: "TufRepo \<Rightarrow> unit step" where
  "set_tufRepo t w = (Ok (), w\<lparr> repo := (repo w)\<lparr> tufRepo := Some t \<rparr> \<rparr>)"

text \<open>Reading \<open>r.tufRepo\<close> through the pointer: nil panics.\<close>

definition get_tufRepo :: "TufRepo step" where
  "get_tufRepo w =
     (case tufRepo (repo w) of
        None \<Rightarrow> (Panic ''nil pointer dereference: r.tufRepo'', w)
      | Some t \<Rightarrow> (Ok t, w))"

text \<open>
  An operation of the TUF library on \<open>r.tufRepo\<close>: the repository is updated in place
  whatever the outcome.
\<close>

definition tuf_op :: "(TufRepo \<Rightarrow> (error + 'a) \<times> TufRepo) \<Rightarrow> 'a step" where
  "tuf_op f =
     bind get_tufRepo (\<lambda>t.
       case f t of (x, t') \<Rightarrow> bind (set_tufRepo t') (\<lambda>_. lift x))"

definition tuf_cmd :: "(TufRepo \<Rightarrow> error option \<times> TufRepo) \<Rightarrow> unit step" where
  "tuf_cmd f =
     bind get_tufRepo (\<lambda>t.
       case f t of (x, t') \<Rightarrow> bind (set_tufRepo t') (\<lambda>_. check x))"

definition get_repo :: "NotaryRepository step" where
  "get_repo w = (Ok (repo w), w)"

section \<open>Remote store, local metadata cache, changelist, key store\<close>

text \<open>
  \<open>getRemoteStore\<close> builds the HTTP store for the GUN; the three calls of the remote store
  are logged when they are issued, before their outcome is known.
\<close>

definition getRemoteStore :: "ext \<Rightarrow> unit step" where
  "getRemoteStore E = check (getRemoteStore_result E)"

definition remote_GetMeta_call :: "ext \<Rightarrow> string \<Rightarrow> bytes step" where
  "remote_GetMeta_call E role =
     bind (emit (EvRemoteGetMeta role)) (\<lambda>_. lift (remote_GetMeta E role))"

definition remote_GetKey_call :: "ext \<Rightarrow> string \<Rightarrow> bytes step" where
  "remote_GetKey_call E role =
     bind (emit (EvRemoteGetKey role)) (\<lambda>_. lift (remote_GetKey E role))"

definition remote_store :: "string \<Rightarrow> bytes \<Rightarrow> unit step" where
  "remote_store role b w =
     (Ok (), w\<lparr> remote_meta := AList.update role b (remote_meta w) \<rparr>)"

definition remote_SetMeta_call :: "ext \<Rightarrow> string \<Rightarrow> bytes \<Rightarrow> unit step" where
  "remote_SetMeta_call E role b =
     bind (emit (EvRemoteSetMeta role b)) (\<lambda>_.
     bind (check (remote_SetMeta E role b)) (\<lambda>_.
     remote_store role b))"

text \<open>The local metadata cache (the TUF library's file system store).\<close>

definition cache_GetMeta :: "ext \<Rightarrow> string \<Rightarrow> bytes step" where
  "cache_GetMeta E name w =
     (case fs_GetMeta_error E name of
        Some e \<Rightarrow> (Err e, w)
      | None \<Rightarrow>
          (case map_of (local_meta w) name of
             None \<Rightarrow> (Err (ErrExternal ''open: no such file or directory''), w)
           | Some b \<Rightarrow> (Ok b, w)))"

definition cache_store :: "string \<Rightarrow> bytes \<Rightarrow> unit step" where
  "cache_store name b w =
     (Ok (), w\<lparr> local_meta := AList.update name b (local_meta w) \<rparr>)"

definition cache_SetMeta :: "ext \<Rightarrow> string \<Rightarrow> bytes \<Rightarrow> unit step" where
  "cache_SetMeta E name b =
     bind (emit (EvCacheSetMeta name b)) (\<lambda>_.
     bind (check (fs_SetMeta_result E name b)) (\<lambda>_.
     cache_store name b))"

text \<open>
  \<open>json.Marshal\<close> of a signed role, logged. \<open>marshal_dropping\<close> is the call whose error
  the source assigns to \<open>_\<close>: on an error the bytes are nil.
\<close>

definition marshal :: "ext \<Rightarrow> string \<Rightarrow> Signed option \<Rightarrow> bytes step" where
  "marshal E role x =
     bind (emit (EvMarshal role)) (\<lambda>_. lift (json_Marshal_Signed E x))"

definition marshal_dropping :: "ext \<Rightarrow> string \<Rightarrow> Signed option \<Rightarrow> bytes step" where
  "marshal_dropping E role x =
     bind (emit (EvMarshal role)) (\<lambda>_.
       ret (case json_Marshal_Signed E x of Inl e \<Rightarrow> [] | Inr b \<Rightarrow> b))"

text \<open>
  Modelled from the spec: the changelist store (client/changelist, not in the files at
  hand) is a durable, append-only ordered log with append, iterate-in-order, close and
  truncate-all. Opening, appending and closing can fail; an append that succeeds adds the
  entry at the end.
\<close>

definition NewFileChangelist :: "ext \<Rightarrow> unit step" where
  "NewFileChangelist E = check (NewFileChangelist_result E)"

definition cl_append :: "Change \<Rightarrow> unit step" where
  "cl_append c w = (Ok (), w\<lparr> changelist := changelist w @ [c] \<rparr>)"

definition cl_Add :: "ext \<Rightarrow> Change \<Rightarrow> unit step" where
  "cl_Add E c = bind (check (cl_Add_result E c)) (\<lambda>_. cl_append c)"

definition cl_Close :: "ext \<Rightarrow> unit step" where
  "cl_Close E = check (cl_Close_result E)"

definition cl_List :: "Change list step" where
  "cl_List w = (Ok (changelist w), w)"

text \<open>
  Modelled from the spec: the key store (trustmanager.KeyFileStore, not in the files at
  hand) has \<open>AddEncrypted(id, privKey, passphrase)\<close>, \<open>GetDecrypted(id, passphrase)\<close>
  returning the key or a bad-passphrase error, \<open>Link\<close> and \<open>ListKeys\<close>; a link maps a
  certificate identifier to a key identifier.
\<close>

definition ks_AddEncryptedKey ::
  "ext \<Rightarrow> KeyFileStore \<Rightarrow> string \<Rightarrow> TUFKey \<Rightarrow> string \<Rightarrow> error option \<times> KeyFileStore" where
  "ks_AddEncryptedKey E ks name privKey passphrase =
     (case ks_write_result E name of
        Some e \<Rightarrow> (Some e, ks)
      | None \<Rightarrow> (None, ks\<lparr> ks_keys := AList.update name (privKey, passphrase) (ks_keys ks) \<rparr>))"

definition ks_Link ::
  "ext \<Rightarrow> KeyFileStore \<Rightarrow> string \<Rightarrow> string \<Rightarrow> error option \<times> KeyFileStore" where
  "ks_Link E ks src dst =
     (case ks_write_result E dst of
        Some e \<Rightarrow> (Some e, ks)
      | None \<Rightarrow> (None, ks\<lparr> ks_links := AList.update dst src (ks_links ks) \<rparr>))"

definition ks_GetDecryptedKey :: "KeyFileStore \<Rightarrow> string \<Rightarrow> string \<Rightarrow> error + TUFKey" where
  "ks_GetDecryptedKey ks name passphrase =
     (let target = (case map_of (ks_links ks) name of None \<Rightarrow> name | Some i \<Rightarrow> i) in
      case map_of (ks_keys ks) target of
        None \<Rightarrow> Inl (ErrExternal ''key not found'')
      | Some (k, p) \<Rightarrow> if p = passphrase then Inr k else Inl (ErrExternal ''bad passphrase''))"

definition ks_ListKeys :: "KeyFileStore \<Rightarrow> string list" where
  "ks_ListKeys ks = map fst (ks_keys ks)"

definition rootKeyStore_cmd ::
  "(KeyFileStore \<Rightarrow> error option \<times> KeyFileStore) \<Rightarrow> unit step" where
  "rootKeyStore_cmd f w =
     (case f (rootKeyStore (repo w)) of
        (x, ks') \<Rightarrow> check x (w\<lparr> repo := (repo w)\<lparr> rootKeyStore := ks' \<rparr> \<rparr>))"

text \<open>\<open>r.certificateStore.AddCert\<close>, on the store and the files of the trust directory.\<close>

definition certificateStore_AddCert :: "ext \<Rightarrow> Certificate option \<Rightarrow> unit step" where
  "certificateStore_AddCert E cert w =
     (case AddCert (prims E) (clock E) (certificateStore (repo w)) (trust_files w) cert of
        (x, s', d') \<Rightarrow>
          check x (w\<lparr> repo := (repo w)\<lparr> certificateStore := s' \<rparr>, trust_files := d' \<rparr>))"

section \<open>The TUF library's constructors\<close>

definition NewPublicKey :: "ext \<Rightarrow> string \<Rightarrow> bytes \<Rightarrow> TUFKey" where
  "NewPublicKey E cipher public =
     \<lparr> kid = key_ID E cipher public, kcipher = cipher, kpublic = public, kprivate = [] \<rparr>"

definition NewDB :: KeyDB where
  "NewDB = \<lparr> db_keys = [], db_roles = [] \<rparr>"

definition AddKey :: "TUFKey \<Rightarrow> KeyDB \<Rightarrow> KeyDB" where
  "AddKey k db = db\<lparr> db_keys := AList.update (kid k) k (db_keys db) \<rparr>"

definition NewRole :: "ext \<Rightarrow> string \<Rightarrow> int \<Rightarrow> string list \<Rightarrow> error + Role" where
  "NewRole E name threshold keyIDs =
     (case data_NewRole_result E name threshold keyIDs of
        Some e \<Rightarrow> Inl e
      | None \<Rightarrow> Inr \<lparr> role_Name = name, Threshold = threshold, KeyIDs = keyIDs \<rparr>)"

definition AddRole :: "ext \<Rightarrow> Role \<Rightarrow> KeyDB \<Rightarrow> error + KeyDB" where
  "AddRole E role db =
     (case kdb_AddRole_result E db role of
        Some e \<Rightarrow> Inl e
      | None \<Rightarrow> Inr (db\<lparr> db_roles := AList.update (role_Name role) role (db_roles db) \<rparr>))"

definition NewTufRepo :: "KeyDB \<Rightarrow> TufRepo" where
  "NewTufRepo kdb = \<lparr> Root = None, Targets = [], Snapshot = None, keysDB = kdb \<rparr>"

section \<open>The client: construction\<close>

definition rsaKeySize :: nat where
  "rsaKeySize = 2048"

definition rsaRootKeySize :: nat where
  "rsaRootKeySize = 4096"

text \<open>
  \<open>loadKeys\<close>: the CA store and the certificate store are both loaded from the trust
  directory, each under its own filter, then the root key store is opened. \<open>foundCA\<close> and
  \<open>foundCerts\<close> are the certificate files each load finds, with the clock reading at
  each validation; \<open>foundKeys\<close> is the key store as found on disk. \<open>loadKeys\<close> reads an
  error from each call of the store constructor and returns it; the constructor of the
  store file returns none, so the error is an outcome of the call here
  (\<open>NewX509FilteredFileStore_result\<close>, by the number of the call).
\<close>

definition loadKeys ::
  "ext \<Rightarrow> string \<Rightarrow> string \<Rightarrow> (int \<times> Certificate \<times> string) list
     \<Rightarrow> (int \<times> Certificate \<times> string) list \<Rightarrow> KeyFileStore \<Rightarrow> unit step" where
  "loadKeys E trustDir rootKeysDir foundCA foundCerts foundKeys w =
     (case NewX509FilteredFileStore (prims E) trustDir caStore_filter (trust_files w) foundCA of
        (ca, d1) \<Rightarrow>
     (case NewX509FilteredFileStore_result E 0 of
        Some e \<Rightarrow> (Err e, w\<lparr> trust_files := d1 \<rparr>)
      | None \<Rightarrow>
     (case NewX509FilteredFileStore (prims E) trustDir certificateStore_filter d1 foundCerts of
        (cs, d2) \<Rightarrow>
     (case NewX509FilteredFileStore_result E 1 of
        Some e \<Rightarrow> (Err e, w\<lparr> trust_files := d2 \<rparr>)
      | None \<Rightarrow>
     (case NewKeyFileStore_result E rootKeysDir of
        Some e \<Rightarrow> (Err e, w\<lparr> trust_files := d2 \<rparr>)
      | None \<Rightarrow>
          (Ok (), w\<lparr> repo := (repo w)\<lparr> caStore := ca, certificateStore := cs,
                                        rootKeyStore := foundKeys \<rparr>,
                      trust_files := d2 \<rparr>))))))"

section \<open>The client: the root verifier\<close>

text \<open>
  Modelled from the spec: \<open>GetCertificateByFingerprint\<close> (the store interface, not in
  the files at hand) finds the certificate that the store holds under an identifier.
\<close>

definition GetCertificateByFingerprint :: "X509FileStore \<Rightarrow> string \<Rightarrow> error + Certificate" where
  "GetCertificateByFingerprint s fp =
     (case map_of (fingerprintMap s) fp of
        Some cert \<Rightarrow> Inr cert
      | None \<Rightarrow> Inl (ErrorsNew ''certificate not found in Key Store''))"

text \<open>
  Modelled from the spec: \<open>trustmanager.Verify\<close> (not in the files at hand) succeeds when
  the leaf chains to at least one root of the CA store, under a verifier that checks the
  intermediates and that the leaf's name matches the GUN. The chain verifier itself is
  the X509 library's.
\<close>

definition Verify :: "ext \<Rightarrow> X509FileStore \<Rightarrow> string \<Rightarrow> Certificate list \<Rightarrow> error option" where
  "Verify E s g certList =
     (case certList of
        [] \<Rightarrow> Some (ErrorsNew ''no certificates to verify'')
      | leaf # _ \<Rightarrow>
          if chain_verifies E (GetCertificates s) g leaf then None
          else Some (ErrExternal ''x509: certificate signed by unknown authority''))"

text \<open>
  The loop of \<open>validateRoot\<close> over the key identifiers of the root role, with the map
  \<open>certs\<close> as accumulator. A key identifier without an entry in \<open>Keys\<close> is a nil pointer,
  public material that is not PEM makes \<open>pem.Decode\<close> return a nil block, and a parse
  that yields no certificate makes \<open>decodedCerts[0]\<close> an index out of range: each of the
  three panics. A parse error skips the key.
\<close>

fun validateRoot_loop ::
  "ext \<Rightarrow> NotaryRepository \<Rightarrow> RootBody \<Rightarrow> string list \<Rightarrow> (string \<times> TUFKey) list
     \<Rightarrow> (string \<times> TUFKey) list result" where
  "validateRoot_loop E r rootSigned [] certs = Ok certs"
| "validateRoot_loop E r rootSigned (fingerprint # rest) certs =
     (case root_Keys rootSigned fingerprint of
        None \<Rightarrow> Panic ''nil pointer dereference: rootSigned.Keys[fingerprint]''
      | Some key \<Rightarrow>
     (case pem_Decode E (kpublic key) of
        None \<Rightarrow> Panic ''nil pointer dereference: k.Bytes''
      | Some kBytes \<Rightarrow>
     (case x509_ParseCertificates E kBytes of
        Inl err \<Rightarrow> validateRoot_loop E r rootSigned rest certs
      | Inr decodedCerts \<Rightarrow>
     (case decodedCerts of
        [] \<Rightarrow> Panic ''index out of range: decodedCerts[0]''
      | leafCert # _ \<Rightarrow>
          let leafID = fingerprintCert (prims E) leafCert;
              certs1 =
                (if \<not> isl (GetCertificateByFingerprint (certificateStore r) leafID)
                    \<and> CommonName leafCert = gun r
                 then AList.update fingerprint key certs else certs);
              certList = [leafCert];
              certs2 =
                (if Verify E (caStore r) (gun r) certList = None
                 then AList.update fingerprint key certs1 else certs1)
          in validateRoot_loop E r rootSigned rest certs2))))"

definition validateRoot :: "ext \<Rightarrow> NotaryRepository \<Rightarrow> Signed \<Rightarrow> unit result" where
  "validateRoot E r root =
     (case json_Unmarshal_Root E (Signed_bytes root) of
        Inl err \<Rightarrow> Err err
      | Inr rootSigned \<Rightarrow>
     (case root_Roles rootSigned ''root'' of
        None \<Rightarrow> Panic ''nil pointer dereference: rootSigned.Roles[root]''
      | Some role \<Rightarrow>
     (case validateRoot_loop E r rootSigned (KeyIDs role) [] of
        Panic p \<Rightarrow> Panic p
      | Err e \<Rightarrow> Err e
      | Ok certs \<Rightarrow>
          if length certs < 1
          then Err (ErrorsNew ''could not validate the path to a trusted root'')
          else (case signed_VerifyRoot E root 0 certs 1 of
                  Some err \<Rightarrow> Err err
                | None \<Rightarrow> Ok ()))))"

section \<open>The client: bootstrap\<close>

definition bootstrapClient :: "ext \<Rightarrow> unit step" where
  "bootstrapClient E =
     bind (getRemoteStore E) (\<lambda>_.
     bind (remote_GetMeta_call E ''root'') (\<lambda>rootJSON.
     bind (lift (json_Unmarshal_Signed E rootJSON)) (\<lambda>root.
     bind get_repo (\<lambda>r.
     bind (\<lambda>w. (validateRoot E r root, w)) (\<lambda>_.
     bind (set_tufRepo (NewTufRepo NewDB)) (\<lambda>_.
     tuf_cmd (\<lambda>t. tuf_SetRoot E t root)))))))"

text \<open>
  \<open>bootstrapRepo\<close> builds the repository in a local variable from the cached root,
  targets and snapshot, and assigns it to \<open>r.tufRepo\<close> at the end. The results of
  \<open>SetRoot\<close>, \<open>SetTargets\<close> and \<open>SetSnapshot\<close> are not looked at.
\<close>

definition bootstrapRepo :: "ext \<Rightarrow> unit step" where
  "bootstrapRepo E =
     bind (check (NewFilesystemStore_result E)) (\<lambda>_.
     bind (ret (NewTufRepo NewDB)) (\<lambda>t0.
     bind (cache_GetMeta E ''root'') (\<lambda>rootJSON.
     bind (lift (json_Unmarshal_Signed E rootJSON)) (\<lambda>root.
     bind (ret (snd (tuf_SetRoot E t0 root))) (\<lambda>t1.
     bind (cache_GetMeta E ''targets'') (\<lambda>targetsJSON.
     bind (lift (json_Unmarshal_Signed E targetsJSON)) (\<lambda>targets.
     bind (ret (snd (tuf_SetTargets E t1 ''targets'' targets))) (\<lambda>t2.
     bind (cache_GetMeta E ''snapshot'') (\<lambda>snapshotJSON.
     bind (lift (json_Unmarshal_Signed E snapshotJSON)) (\<lambda>snapshot.
     bind (ret (snd (tuf_SetSnapshot E t2 snapshot))) (\<lambda>t3.
     set_tufRepo t3)))))))))))"

section \<open>The client: signing and saving\<close>

definition SignRoot :: "ext \<Rightarrow> Signer \<Rightarrow> Signed step" where
  "SignRoot E sg = bind (emit EvSignRoot) (\<lambda>_. tuf_op (\<lambda>t. tuf_SignRoot E t sg))"

definition SignTargets :: "ext \<Rightarrow> string \<Rightarrow> Signed step" where
  "SignTargets E role =
     bind (emit (EvSignTargets role)) (\<lambda>_. tuf_op (\<lambda>t. tuf_SignTargets E t role))"

definition SignSnapshot :: "ext \<Rightarrow> Signed step" where
  "SignSnapshot E = bind (emit EvSignSnapshot) (\<lambda>_. tuf_op (tuf_SignSnapshot E))"

definition saveMetadata :: "ext \<Rightarrow> Signer \<Rightarrow> unit step" where
  "saveMetadata E rootSigner =
     bind (SignRoot E rootSigner) (\<lambda>signedRoot.
     bind (marshal_dropping E ''root'' (Some signedRoot)) (\<lambda>rootJSON.
     cache_SetMeta E ''root'' rootJSON))"

text \<open>
  The loop of \<open>snapshot\<close> over the target roles of the repository: the marshalling error
  is assigned to \<open>_\<close>, and the results of \<open>os.MkdirAll\<close> and of \<open>r.fileStore.SetMeta\<close> are
  not looked at.
\<close>

fun snapshot_targets :: "ext \<Rightarrow> string list \<Rightarrow> unit step" where
  "snapshot_targets E [] = ret ()"
| "snapshot_targets E (t # ts) =
     bind (SignTargets E t) (\<lambda>signedTargets.
     bind (marshal_dropping E t (Some signedTargets)) (\<lambda>targetsJSON.
     bind (ignore_error (cache_SetMeta E t targetsJSON)) (\<lambda>_.
     snapshot_targets E ts)))"

definition snapshot :: "ext \<Rightarrow> unit step" where
  "snapshot E =
     bind get_tufRepo (\<lambda>t.
     bind (snapshot_targets E (map fst (Targets t))) (\<lambda>_.
     bind (SignSnapshot E) (\<lambda>signedSnapshot.
     bind (marshal_dropping E ''snapshot'' (Some signedSnapshot)) (\<lambda>snapshotJSON.
     cache_SetMeta E ''snapshot'' snapshotJSON))))"

section \<open>The client: root keys\<close>

definition GenRootKey :: "ext \<Rightarrow> string \<Rightarrow> string step" where
  "GenRootKey E passphrase =
     (case GenerateRSAKey E rsaRootKeySize of
        Inl err \<Rightarrow> fail (FmtErrorf ''failed to convert private key: %v'' err)
      | Inr privKey \<Rightarrow>
          bind (ignore_error (rootKeyStore_cmd (\<lambda>ks.
                  ks_AddEncryptedKey E ks (kid privKey) privKey passphrase))) (\<lambda>_.
          ret (kid privKey)))"

definition GetRootSigner :: "ext \<Rightarrow> string \<Rightarrow> string \<Rightarrow> UnlockedSigner step" where
  "GetRootSigner E rootKeyID passphrase =
     bind get_repo (\<lambda>r.
       case ks_GetDecryptedKey (rootKeyStore r) rootKeyID passphrase of
         Inl err \<Rightarrow> fail (FmtErrorf ''could not get decrypted root key: %v'' err)
       | Inr privKey \<Rightarrow>
           ret \<lparr> us_privKey = privKey,
                 us_signer = \<lparr> cs_gun = [], cs_passphrase = passphrase \<rparr> \<rparr>)"

definition ListRootKeys :: "string list step" where
  "ListRootKeys = bind get_repo (\<lambda>r. ret (ks_ListKeys (rootKeyStore r)))"

definition GenerateCertificate :: "ext \<Rightarrow> UnlockedSigner \<Rightarrow> string \<Rightarrow> error + Certificate" where
  "GenerateCertificate E uk g =
     (case x509_ParsePKCS1PrivateKey E (kprivate (us_privKey uk)) of
        Some err \<Rightarrow> Inl (FmtErrorf ''failed to parse root key: %v (%s)'' err)
      | None \<Rightarrow>
     (case NewCertificate_result E g of
        Some err \<Rightarrow> Inl (FmtErrorf ''failed to create the certificate template for: %s (%v)'' err)
      | None \<Rightarrow>
     (case x509_CreateCertificate E g (kprivate (us_privKey uk)) of
        Inl err \<Rightarrow> Inl (FmtErrorf ''failed to create the certificate for: %s (%v)'' err)
      | Inr derBytes \<Rightarrow>
     (case x509_ParseCertificate E derBytes of
        Inl err \<Rightarrow> Inl (FmtErrorf ''failed to parse the certificate for key: %s (%v)'' err)
      | Inr cert \<Rightarrow> Inr cert))))"

section \<open>The client: Initialize\<close>

text \<open>
  \<open>Initialize\<close> is given in three parts, in the order of the source.

  First part: the root certificate and the four keys. The result of
  \<open>r.certificateStore.AddCert\<close> is not looked at. The error of \<open>getRemoteStore\<close> is
  overwritten by the next assignment before it is read; the store it returns with an
  error is nil, and \<open>GetKey\<close> on it panics.
\<close>

definition initialize_keys ::
  "ext \<Rightarrow> UnlockedSigner \<Rightarrow> (TUFKey \<times> TUFKey \<times> TUFKey \<times> TUFKey) step" where
  "initialize_keys E uSigner =
     bind get_repo (\<lambda>r.
     bind (lift (GenerateCertificate E uSigner (gun r))) (\<lambda>rootCert.
     bind (ignore_error (certificateStore_AddCert E (Some rootCert))) (\<lambda>_.
     bind (ret (NewPublicKey E ''RSA'' (CertToPEM E rootCert))) (\<lambda>rootKey.
     bind (rootKeyStore_cmd (\<lambda>ks. ks_Link E ks (kid (us_privKey uSigner)) (kid rootKey))) (\<lambda>_.
     bind (case getRemoteStore_result E of
             Some err \<Rightarrow> panic ''nil pointer dereference: remote.GetKey''
           | None \<Rightarrow> remote_GetKey_call E ''timestamp'') (\<lambda>rawTSKey.
     bind (lift (json_Unmarshal_TUFKey E rawTSKey)) (\<lambda>parsedKey.
     bind (ret (NewPublicKey E (kcipher parsedKey) (kpublic parsedKey))) (\<lambda>timestampKey.
     bind (bind (emit (EvCreateKey ''targets'')) (\<lambda>_. lift (signer_Create E ''targets'')))
       (\<lambda>targetsKey.
     bind (bind (emit (EvCreateKey ''snapshot'')) (\<lambda>_. lift (signer_Create E ''snapshot'')))
       (\<lambda>snapshotKey.
     ret (rootKey, targetsKey, snapshotKey, timestampKey)))))))))))"

text \<open>
  Second part: the key database with the four keys and the four roles, each role with
  threshold 1 and the one key of its name.
\<close>

definition initial_keyDB :: "ext \<Rightarrow> TUFKey \<Rightarrow> TUFKey \<Rightarrow> TUFKey \<Rightarrow> TUFKey \<Rightarrow> error + KeyDB" where
  "initial_keyDB E rootKey targetsKey snapshotKey timestampKey =
     (let kdb = AddKey timestampKey (AddKey snapshotKey (AddKey targetsKey
                  (AddKey rootKey NewDB))) in
      case NewRole E ''root'' 1 [kid rootKey] of Inl err \<Rightarrow> Inl err | Inr rootRole \<Rightarrow>
      case NewRole E ''targets'' 1 [kid targetsKey] of Inl err \<Rightarrow> Inl err | Inr targetsRole \<Rightarrow>
      case NewRole E ''snapshot'' 1 [kid snapshotKey] of Inl err \<Rightarrow> Inl err | Inr snapshotRole \<Rightarrow>
      case NewRole E ''timestamp'' 1 [kid timestampKey] of Inl err \<Rightarrow> Inl err | Inr timestampRole \<Rightarrow>
      case AddRole E rootRole kdb of Inl err \<Rightarrow> Inl err | Inr kdb1 \<Rightarrow>
      case AddRole E targetsRole kdb1 of Inl err \<Rightarrow> Inl err | Inr kdb2 \<Rightarrow>
      case AddRole E snapshotRole kdb2 of Inl err \<Rightarrow> Inl err | Inr kdb3 \<Rightarrow>
      AddRole E timestampRole kdb3)"

text \<open>Third part: the repository, the local file store, and the first signed files.\<close>

definition initialize_repo :: "ext \<Rightarrow> UnlockedSigner \<Rightarrow> KeyDB \<Rightarrow> unit step" where
  "initialize_repo E uSigner kdb =
     bind (set_tufRepo (NewTufRepo kdb)) (\<lambda>_.
     bind (check (NewFilesystemStore_result E)) (\<lambda>_.
     bind (tuf_cmd (tuf_InitRepo E)) (\<lambda>_.
     bind (saveMetadata E (us_signer uSigner)) (\<lambda>_.
     snapshot E))))"

definition Initialize :: "ext \<Rightarrow> UnlockedSigner \<Rightarrow> unit step" where
  "Initialize E uSigner =
     bind (initialize_keys E uSigner) (\<lambda>(rootKey, targetsKey, snapshotKey, timestampKey).
     bind (lift (initial_keyDB E rootKey targetsKey snapshotKey timestampKey)) (\<lambda>kdb.
     initialize_repo E uSigner kdb))"

section \<open>The client: AddTarget\<close>

text \<open>
  \<open>AddTarget\<close>: the target arrives by pointer, and a nil target panics where its name is
  first read, after the changelist was opened. The payload is \<open>json.Marshal\<close>
  (\<open>encoding/json\<close>) of the file meta built from the target's length and hashes. What the source prints to standard
  output, here and elsewhere, is not part of the model.
\<close>

definition AddTarget :: "ext \<Rightarrow> Target option \<Rightarrow> unit step" where
  "AddTarget E target =
     bind (NewFileChangelist E) (\<lambda>_.
       case target of
         None \<Rightarrow> panic ''nil pointer dereference: target.Name''
       | Some tg \<Rightarrow>
           bind (ret \<lparr> Length = t_Length tg, Hashes = t_Hashes tg \<rparr>) (\<lambda>meta.
           bind (lift (json_Marshal_FileMeta E meta)) (\<lambda>metaJSON.
           bind (ret (NewTufChange ActionCreate ''targets'' ''target'' (Name tg) metaJSON)) (\<lambda>c.
           bind (cl_Add E c) (\<lambda>_.
           cl_Close E)))))"

section \<open>The client: applying the changelist\<close>

text \<open>
  Modelled from the spec: \<open>applyChangelist\<close> (client helpers, not in the files at hand)
  replays the entries in insertion order against the in-memory targets body. For scope
  \<open>targets\<close>, create and update insert the target (name to length and hashes),
  overwriting an existing one, and delete removes it (a missing one is not an error);
  each marks targets dirty. Other scopes are reserved. The log itself is only read.
\<close>

definition targets_body :: "TufRepo \<Rightarrow> SignedTargets" where
  "targets_body t =
     (case map_of (Targets t) ''targets'' of
        None \<Rightarrow> \<lparr> st_Targets = [], st_Dirty = False \<rparr>
      | Some b \<Rightarrow> b)"

definition applyTargetsChange :: "ext \<Rightarrow> TufRepo \<Rightarrow> Change \<Rightarrow> error + TufRepo" where
  "applyTargetsChange E t c =
     (case c_Action c of
        ActionDelete \<Rightarrow>
          Inr (t\<lparr> Targets := AList.update ''targets''
                 ((targets_body t)\<lparr> st_Targets := AList.delete (c_Path c) (st_Targets (targets_body t)),
                                    st_Dirty := True \<rparr>) (Targets t) \<rparr>)
      | _ \<Rightarrow>
          (case json_Unmarshal_FileMeta E (c_Content c) of
             Inl err \<Rightarrow> Inl err
           | Inr meta \<Rightarrow>
               Inr (t\<lparr> Targets := AList.update ''targets''
                      ((targets_body t)\<lparr> st_Targets := AList.update (c_Path c) meta (st_Targets (targets_body t)),
                                         st_Dirty := True \<rparr>) (Targets t) \<rparr>)))"

fun applyChanges :: "ext \<Rightarrow> TufRepo \<Rightarrow> Change list \<Rightarrow> error option \<times> TufRepo" where
  "applyChanges E t [] = (None, t)"
| "applyChanges E t (c # cs) =
     (if c_Scope c = ''targets''
      then (case applyTargetsChange E t c of
              Inl err \<Rightarrow> (Some err, t)
            | Inr t' \<Rightarrow> applyChanges E t' cs)
      else applyChanges E t cs)"

definition applyChangelist :: "ext \<Rightarrow> unit step" where
  "applyChangelist E =
     bind cl_List (\<lambda>changes. tuf_cmd (\<lambda>t. applyChanges E t changes))"

text \<open>
  Modelled from the spec: \<open>nearExpiry\<close> (client helpers, not in the files at hand) holds
  when the root's expiry is within the near-expiry threshold of the clock.
\<close>

definition nearExpiry :: "ext \<Rightarrow> SignedRoot \<Rightarrow> bool" where
  "nearExpiry E root \<longleftrightarrow> root_Expires (sr_Signed root) < clock E + near_expiry_window E"

section \<open>The client: Publish\<close>

text \<open>
  \<open>Publish\<close> is given in four parts, in the order of the source. The passphrase callback
  is a parameter: \<open>getPass\<close> is what it returns if it is called, and the call is logged.

  First part: the bootstrap. It yields \<open>updateRoot\<close> and \<open>root\<close> (a pointer, nil at the
  start). The type assertion on the bootstrap error is the test for \<open>ErrMetaNotFound\<close>.
  The update of the TUF client reads the remote and changes the repository only.
\<close>

definition root_needs_signing :: "ext \<Rightarrow> world \<Rightarrow> bool" where
  "root_needs_signing E w \<longleftrightarrow>
     (case tufRepo (repo w) of
        None \<Rightarrow> False
      | Some t \<Rightarrow> (case Root t of None \<Rightarrow> False | Some sr \<Rightarrow> nearExpiry E sr \<or> sr_Dirty sr))"

definition get_Root :: "SignedRoot step" where
  "get_Root =
     bind get_tufRepo (\<lambda>t.
       case Root t of
         None \<Rightarrow> panic ''nil pointer dereference: r.tufRepo.Root''
       | Some sr \<Rightarrow> ret sr)"

definition publish_bootstrap :: "ext \<Rightarrow> (bool \<times> Signed option) step" where
  "publish_bootstrap E =
     handle (bootstrapClient E)
       (\<lambda>c.
          bind (bind (emit EvClientUpdate) (\<lambda>_. tuf_cmd (client_Update E))) (\<lambda>_.
          ret (False, None)))
       (\<lambda>err.
          if err = ErrMetaNotFound
          then handle (bootstrapRepo E)
                 (\<lambda>u.
                    bind get_Root (\<lambda>sr.
                    bind (lift (tuf_ToSigned E sr)) (\<lambda>root.
                    ret (True, Some root))))
                 (\<lambda>err'. fail ErrRepoNotInitialized)
          else fail err)"

text \<open>Second part: the changelist is opened and applied to the repository.\<close>

definition publish_changelist :: "ext \<Rightarrow> unit step" where
  "publish_changelist E =
     bind (NewFileChangelist E) (\<lambda>_. applyChangelist E)"

text \<open>
  Third part: root is signed again when it is near expiry or dirty, then targets and
  snapshot are signed, and the remote store is built.
\<close>

definition publish_sign_root ::
  "ext \<Rightarrow> error + string \<Rightarrow> bool \<Rightarrow> Signed option \<Rightarrow> (bool \<times> Signed option) step" where
  "publish_sign_root E getPass updateRoot root =
     bind get_Root (\<lambda>sr.
       if nearExpiry E sr \<or> sr_Dirty sr
       then
         bind (emit EvGetPass) (\<lambda>_.
         bind (lift getPass) (\<lambda>passphrase.
         bind (case root_Roles (sr_Signed sr) ''root'' of
                 None \<Rightarrow> panic ''nil pointer dereference: Roles[root]''
               | Some role \<Rightarrow>
                   (case KeyIDs role of
                      [] \<Rightarrow> panic ''index out of range: KeyIDs[0]''
                    | k # _ \<Rightarrow> ret k)) (\<lambda>rootKeyID.
         bind (GetRootSigner E rootKeyID passphrase) (\<lambda>rootSigner.
         bind (SignRoot E (us_signer rootSigner)) (\<lambda>root'.
         ret (True, Some root'))))))
       else ret (updateRoot, root))"

definition publish_sign ::
  "ext \<Rightarrow> error + string \<Rightarrow> bool \<Rightarrow> Signed option
     \<Rightarrow> (bool \<times> Signed option \<times> Signed \<times> Signed) step" where
  "publish_sign E getPass updateRoot0 root0 =
     bind (publish_sign_root E getPass updateRoot0 root0) (\<lambda>(updateRoot, root).
     bind (SignTargets E ''targets'') (\<lambda>targets.
     bind (SignSnapshot E) (\<lambda>snapshot'.
     bind (getRemoteStore E) (\<lambda>_.
     ret (updateRoot, root, targets, snapshot')))))"

text \<open>Fourth part: marshalling and the writes to the remote.\<close>

definition publish_upload ::
  "ext \<Rightarrow> bool \<Rightarrow> Signed option \<Rightarrow> Signed \<Rightarrow> Signed \<Rightarrow> unit step" where
  "publish_upload E updateRoot root targets snapshot' =
     bind (marshal E ''targets'' (Some targets)) (\<lambda>targetsJSON.
     bind (marshal E ''snapshot'' (Some snapshot')) (\<lambda>snapshotJSON.
     bind (if updateRoot
           then bind (marshal E ''root'' root) (\<lambda>rootJSON.
                remote_SetMeta_call E ''root'' rootJSON)
           else ret ()) (\<lambda>_.
     bind (remote_SetMeta_call E ''targets'' targetsJSON) (\<lambda>_.
     remote_SetMeta_call E ''snapshot'' snapshotJSON))))"

text \<open>The first two parts together: everything up to the applied changelist.\<close>

definition publish_load :: "ext \<Rightarrow> (bool \<times> Signed option) step" where
  "publish_load E =
     bind (publish_bootstrap E) (\<lambda>(updateRoot, root).
     bind (publish_changelist E) (\<lambda>_.
     ret (updateRoot, root)))"

definition Publish :: "ext \<Rightarrow> error + string \<Rightarrow> unit step" where
  "Publish E getPass =
     bind (publish_load E) (\<lambda>(updateRoot0, root0).
     bind (publish_sign E getPass updateRoot0 root0) (\<lambda>(updateRoot, root, targets, snapshot').
     publish_upload E updateRoot root targets snapshot'))"

section \<open>Invariants of the certificate file store\<close>

text \<open>
  Every entry of the certificate map sits under its own fingerprint and carries the
  overwritten \<open>SubjectKeyId\<close>; the keys are distinct.
\<close>

definition entries_ok :: "x509prims \<Rightarrow> (string \<times> Certificate) list \<Rightarrow> bool" where
  "entries_ok P al \<longleftrightarrow>
     (\<forall>fp c. map_of al fp = Some c \<longrightarrow>
        fingerprintCert P c = fp \<and> SubjectKeyId c = Some (sha256_Sum256 P (Raw c)))"

definition store_inv :: "x509prims \<Rightarrow> X509FileStore \<Rightarrow> bool" where
  "store_inv P s \<longleftrightarrow>
     distinct (map fst (fingerprintMap s)) \<and> entries_ok P (fingerprintMap s)"

text \<open>
  The clock readings of a history, and the invariant that every certificate held was
  admitted by the validator at one of them.
\<close>

fun op_clock :: "store_op \<Rightarrow> int list" where
  "op_clock (OpAddCert now c) = [now]"
| "op_clock (OpAddNamedCert now c f) = [now]"
| "op_clock (OpRemoveCert c) = []"

definition clock_readings :: "store_op list \<Rightarrow> int list" where
  "clock_readings ops = concat (map op_clock ops)"

definition admitted_under ::
  "x509prims \<Rightarrow> (int \<Rightarrow> Certificate \<Rightarrow> bool) \<Rightarrow> int list \<Rightarrow> X509FileStore \<Rightarrow> bool" where
  "admitted_under P V ts s \<longleftrightarrow>
     validate s = V \<and>
     (\<forall>c \<in> set (GetCertificates s). \<exists>c0 now.
        now \<in> set ts \<and> V now c0 \<and> c = c0\<lparr> SubjectKeyId := Some (sha256_Sum256 P (Raw c0)) \<rparr>)"

text \<open>Concrete primitives and certificates for evaluating the store.\<close>

definition demo_prims :: x509prims where
  "demo_prims =
     \<lparr> sha256_Sum256 = (\<lambda>b. ''sha256:'' @ b), content_hash = (\<lambda>b. ''id:'' @ b),
       certExtension = ''.crt'', path_Join = (\<lambda>a b. a @ ''/'' @ b),
       write_result = (\<lambda>f. None), remove_result = (\<lambda>f. None),
       stat_result = (\<lambda>f. None) \<rparr>"

definition demo_leaf :: Certificate where
  "demo_leaf =
     \<lparr> Raw = ''leaf'', RawSubject = ''CN=example.com/app'', SubjectKeyId = None,
       IsCA = False, BasicConstraintsValid = False, NotAfter = 100,
       SigAlgorithm = SHA256WithRSA, CommonName = ''example.com/app'' \<rparr>"

definition demo_ca :: Certificate where
  "demo_ca =
     \<lparr> Raw = ''ca'', RawSubject = ''CN=ca'', SubjectKeyId = Some ''skid'',
       IsCA = True, BasicConstraintsValid = True, NotAfter = 100,
       SigAlgorithm = ECDSAWithSHA256, CommonName = ''ca'' \<rparr>"

section \<open>Frames and traces of a step\<close>

text \<open>
  A step stays within a set of events when, from every world, it leaves the changelist
  and the local metadata cache as they were and adds to the trace only events of the set.
\<close>

definition frames :: "event set \<Rightarrow> 'a step \<Rightarrow> bool" where
  "frames A m \<longleftrightarrow>
     (\<forall>w. changelist (snd (m w)) = changelist w \<and>
          local_meta (snd (m w)) = local_meta w \<and>
          (\<exists>evs. trace (snd (m w)) = trace w @ evs \<and> set evs \<subseteq> A))"

fun is_put :: "event \<Rightarrow> bool" where
  "is_put (EvRemoteSetMeta role b) = True"
| "is_put e = False"

fun is_marshal :: "event \<Rightarrow> bool" where
  "is_marshal (EvMarshal role) = True"
| "is_marshal e = False"

definition is_upload :: "event \<Rightarrow> bool" where
  "is_upload e \<longleftrightarrow> is_marshal e \<or> is_put e"

text \<open>The events of the last part of \<open>Publish\<close> when nothing fails, in order.\<close>

definition marshalled :: "ext \<Rightarrow> Signed option \<Rightarrow> bytes" where
  "marshalled E x = (case json_Marshal_Signed E x of Inl e \<Rightarrow> [] | Inr b \<Rightarrow> b)"

definition upload_events :: "ext \<Rightarrow> bool \<Rightarrow> Signed option \<Rightarrow> Signed \<Rightarrow> Signed \<Rightarrow> event list" where
  "upload_events E updateRoot root targets snapshot' =
     [EvMarshal ''targets'', EvMarshal ''snapshot''] @
     (if updateRoot
      then [EvMarshal ''root'', EvRemoteSetMeta ''root'' (marshalled E root)]
      else []) @
     [EvRemoteSetMeta ''targets'' (marshalled E (Some targets)),
      EvRemoteSetMeta ''snapshot'' (marshalled E (Some snapshot'))]"

text \<open>The roles written to the remote by a list of events, in order.\<close>

fun put_role :: "event \<Rightarrow> string list" where
  "put_role (EvRemoteSetMeta role b) = [role]"
| "put_role e = []"

definition put_roles :: "event list \<Rightarrow> string list" where
  "put_roles evs = concat (map put_role evs)"

section \<open>The root verifier's acceptance rule\<close>

text \<open>
  The leaf of a root key: the first certificate decoded from its public material, when
  there is one. A key for which the loop of \<open>validateRoot\<close> panics has no entry, is not
  PEM, or decodes to no certificate.
\<close>

definition key_leaf :: "ext \<Rightarrow> RootBody \<Rightarrow> string \<Rightarrow> Certificate option" where
  "key_leaf E rootSigned fp =
     (case root_Keys rootSigned fp of
        None \<Rightarrow> None
      | Some key \<Rightarrow>
          (case pem_Decode E (kpublic key) of
             None \<Rightarrow> None
           | Some kBytes \<Rightarrow>
               (case x509_ParseCertificates E kBytes of
                  Inl err \<Rightarrow> None
                | Inr decodedCerts \<Rightarrow>
                    (case decodedCerts of [] \<Rightarrow> None | leafCert # _ \<Rightarrow> Some leafCert))))"

definition key_panics :: "ext \<Rightarrow> RootBody \<Rightarrow> string \<Rightarrow> bool" where
  "key_panics E rootSigned fp \<longleftrightarrow>
     (case root_Keys rootSigned fp of
        None \<Rightarrow> True
      | Some key \<Rightarrow>
          (case pem_Decode E (kpublic key) of
             None \<Rightarrow> True
           | Some kBytes \<Rightarrow> x509_ParseCertificates E kBytes = Inr []))"

definition pinned :: "ext \<Rightarrow> NotaryRepository \<Rightarrow> Certificate \<Rightarrow> bool" where
  "pinned E r leaf \<longleftrightarrow>
     map_of (fingerprintMap (certificateStore r)) (fingerprintCert (prims E) leaf) \<noteq> None \<and>
     CommonName leaf = gun r"

definition chained :: "ext \<Rightarrow> NotaryRepository \<Rightarrow> Certificate \<Rightarrow> bool" where
  "chained E r leaf \<longleftrightarrow> chain_verifies E (GetCertificates (caStore r)) (gun r) leaf"

definition accepted_key :: "ext \<Rightarrow> NotaryRepository \<Rightarrow> RootBody \<Rightarrow> string \<Rightarrow> bool" where
  "accepted_key E r rootSigned fp \<longleftrightarrow>
     (case key_leaf E rootSigned fp of
        None \<Rightarrow> False
      | Some leaf \<Rightarrow> pinned E r leaf \<or> chained E r leaf)"

section \<open>Concrete inputs\<close>

text \<open>
  A small world for evaluating the client: GUN \<open>example.com/app\<close>, one pinned leaf
  certificate, one root key \<open>k1\<close>, collaborators that succeed. Variations are record
  updates of these.
\<close>

definition demo_root_key :: TUFKey where
  "demo_root_key = \<lparr> kid = ''k1'', kcipher = ''RSA'', kpublic = ''pem:leaf'', kprivate = [] \<rparr>"

definition demo_root_body :: RootBody where
  "demo_root_body =
     \<lparr> root_Keys = [''k1'' \<mapsto> demo_root_key],
       root_Roles = [''root'' \<mapsto> \<lparr> role_Name = ''root'', Threshold = 1, KeyIDs = [''k1''] \<rparr>],
       root_Expires = 1000 \<rparr>"

definition demo_signed :: "bytes \<Rightarrow> Signed" where
  "demo_signed b = \<lparr> Signed_bytes = b, Signatures = [] \<rparr>"

definition demo_ext :: ext where
  "demo_ext =
     \<lparr> prims = demo_prims,
       clock = 10,
       near_expiry_window = 50,
       getRemoteStore_result = None,
       remote_GetMeta = (\<lambda>role. Inr (role @ ''.json'')),
       remote_GetKey = (\<lambda>role. Inr (role @ ''.key'')),
       remote_SetMeta = (\<lambda>role b. None),
       json_Marshal_Signed =
         (\<lambda>x. case x of None \<Rightarrow> Inr ''null'' | Some sg \<Rightarrow> Inr (''json:'' @ Signed_bytes sg)),
       json_Unmarshal_Signed = (\<lambda>b. Inr (demo_signed b)),
       json_Unmarshal_Root = (\<lambda>b. Inr demo_root_body),
       json_Unmarshal_TUFKey =
         (\<lambda>b. Inr \<lparr> kid = ''ts'', kcipher = ''RSA'', kpublic = b, kprivate = [] \<rparr>),
       json_Marshal_Hashes = (\<lambda>h. Inr ''{\"sha256\":\"MDA=\"}''),
       json_Unmarshal_FileMeta = (\<lambda>b. Inr \<lparr> Length = 1024, Hashes = [] \<rparr>),
       pem_Decode = (\<lambda>b. Some b),
       x509_ParseCertificates = (\<lambda>b. Inr [demo_leaf]),
       chain_verifies = (\<lambda>cas g leaf. False),
       signed_VerifyRoot = (\<lambda>root minVersion ks threshold. None),
       key_ID = (\<lambda>cipher public. ''id:'' @ public),
       CertToPEM = Raw,
       data_NewRole_result = (\<lambda>name threshold ks. None),
       kdb_AddRole_result = (\<lambda>db role. None),
       tuf_SetRoot =
         (\<lambda>t sg. (None, t\<lparr> Root := Some \<lparr> sr_Signed = demo_root_body, sr_Dirty = False \<rparr> \<rparr>)),
       tuf_SetTargets =
         (\<lambda>t role sg. (None, t\<lparr> Targets :=
            AList.update role \<lparr> st_Targets = [], st_Dirty = False \<rparr> (Targets t) \<rparr>)),
       tuf_SetSnapshot = (\<lambda>t sg. (None, t\<lparr> Snapshot := Some [] \<rparr>)),
       tuf_InitRepo =
         (\<lambda>t. (None, t\<lparr> Root := Some \<lparr> sr_Signed =
                              \<lparr> root_Keys = map_of (db_keys (keysDB t)),
                                root_Roles = map_of (db_roles (keysDB t)),
                                root_Expires = 1000 \<rparr>,
                            sr_Dirty = True \<rparr>,
                        Targets := [(''targets'', \<lparr> st_Targets = [], st_Dirty = True \<rparr>)],
                        Snapshot := Some [] \<rparr>)),
       tuf_ToSigned = (\<lambda>sr. Inr (demo_signed ''root'')),
       tuf_SignRoot = (\<lambda>t sg. (Inr (demo_signed ''root''), t)),
       tuf_SignTargets = (\<lambda>t role. (Inr (demo_signed role), t)),
       tuf_SignSnapshot = (\<lambda>t. (Inr (demo_signed ''snapshot''), t)),
       client_Update = (\<lambda>t. (None, t)),
       signer_Create =
         (\<lambda>role. Inr \<lparr> kid = ''key:'' @ role, kcipher = ''RSA'', kpublic = role, kprivate = [] \<rparr>),
       GenerateRSAKey =
         (\<lambda>n. Inr \<lparr> kid = ''rootkey'', kcipher = ''RSA'', kpublic = ''pub'', kprivate = ''priv'' \<rparr>),
       x509_ParsePKCS1PrivateKey = (\<lambda>b. None),
       NewCertificate_result = (\<lambda>g. None),
       x509_CreateCertificate = (\<lambda>g k. Inr ''der''),
       x509_ParseCertificate = (\<lambda>b. Inr demo_leaf),
       NewFilesystemStore_result = None,
       fs_GetMeta_error = (\<lambda>name. None),
       fs_SetMeta_result = (\<lambda>name b. None),
       NewX509FilteredFileStore_result = (\<lambda>n. None),
       NewKeyFileStore_result = (\<lambda>dir. None),
       NewFileChangelist_result = None,
       cl_Add_result = (\<lambda>c. None),
       cl_Close_result = None,
       ks_write_result = (\<lambda>name. None) \<rparr>"

definition demo_change :: Change where
  "demo_change = NewTufChange ActionCreate ''targets'' ''target'' ''linux-amd64'' ''meta''"

definition demo_repo :: NotaryRepository where
  "demo_repo =
     \<lparr> gun = ''example.com/app'',
       baseURL = ''https://notary.example'',
       tufRepoPath = ''tuf/example.com/app'',
       caStore = emptyStore ''trust'' caStore_filter,
       certificateStore =
         fst (snd (AddCert demo_prims 0 (emptyStore ''trust'' certificateStore_filter) {}
                     (Some demo_leaf))),
       signer = \<lparr> cs_gun = ''example.com/app'', cs_passphrase = [] \<rparr>,
       tufRepo = None,
       rootKeyStore = \<lparr> ks_keys = [(''k1'', (demo_root_key, ''secret''))], ks_links = [] \<rparr> \<rparr>"

definition demo_world :: world where
  "demo_world =
     \<lparr> repo = demo_repo, trust_files = {}, changelist = [demo_change],
       local_meta = [], remote_meta = [], trace = [] \<rparr>"

text \<open>
  Variations: a remote that is unavailable, a remote that has never seen the collection,
  the same with cached files that do not parse, a clock close to the root's expiry, a
  remote that rejects every write, and a world whose local cache holds the three roles.
\<close>

definition demo_ext_unavailable :: ext where
  "demo_ext_unavailable = demo_ext\<lparr> remote_GetMeta := (\<lambda>role. Inl (ErrExternal ''503'')) \<rparr>"

definition demo_ext_notfound :: ext where
  "demo_ext_notfound = demo_ext\<lparr> remote_GetMeta := (\<lambda>role. Inl ErrMetaNotFound) \<rparr>"

definition demo_ext_malformed :: ext where
  "demo_ext_malformed =
     demo_ext_notfound\<lparr> json_Unmarshal_Signed := (\<lambda>b. Inl (ErrExternal ''malformed'')) \<rparr>"

definition demo_ext_expiring :: ext where
  "demo_ext_expiring = demo_ext\<lparr> clock := 990 \<rparr>"

definition demo_world_cached :: world where
  "demo_world_cached =
     demo_world\<lparr> local_meta := [(''root'', ''r''), (''targets'', ''t''), (''snapshot'', ''s'')] \<rparr>"

definition demo_target :: Target where
  "demo_target = \<lparr> Name = ''linux-amd64'', t_Hashes = [(''sha256'', ''00'')], t_Length = 1024 \<rparr>"

text \<open>
  Inputs on which the code leaves its documented behaviour: a root whose key is not PEM,
  a key store that rejects writes, a local cache that rejects the targets file.
\<close>

definition demo_ext_not_pem :: ext where
  "demo_ext_not_pem = demo_ext\<lparr> pem_Decode := (\<lambda>b. None) \<rparr>"

definition demo_ext_keystore_readonly :: ext where
  "demo_ext_keystore_readonly =
     demo_ext\<lparr> ks_write_result := (\<lambda>name. Some (ErrExternal ''EACCES'')) \<rparr>"

definition demo_ext_targets_unwritable :: ext where
  "demo_ext_targets_unwritable =
     demo_ext\<lparr> fs_SetMeta_result :=
       (\<lambda>name b. if name = ''targets'' then Some (ErrExternal ''EACCES'') else None) \<rparr>"

definition demo_signer :: UnlockedSigner where
  "demo_signer =
     \<lparr> us_privKey = \<lparr> kid = ''rootkey'', kcipher = ''RSA'', kpublic = ''pub'', kprivate = ''priv'' \<rparr>,
       us_signer = \<lparr> cs_gun = [], cs_passphrase = ''secret'' \<rparr> \<rparr>"

section \<open>Properties\<close>

subsection \<open>The certificate file store\<close>

lemma store_inv_empty: "store_inv P (emptyStore directory v)"
  by (simp add: store_inv_def emptyStore_def entries_ok_def)

lemma fingerprintCert_SubjectKeyId [simp]:
  "fingerprintCert P (c\<lparr> SubjectKeyId := k \<rparr>) = fingerprintCert P c"
  by (simp add: fingerprintCert_def)

lemma entries_ok_update:
  "entries_ok P al \<Longrightarrow>
   entries_ok P (AList.update (fingerprintCert P c)
      (c\<lparr> SubjectKeyId := Some (sha256_Sum256 P (Raw c)) \<rparr>) al)"
  by (simp add: entries_ok_def AList.update_conv')

lemma entries_ok_delete: "entries_ok P al \<Longrightarrow> entries_ok P (AList.delete k al)"
  by (simp add: entries_ok_def AList.delete_conv')

text \<open>What an add does to the map of certificates: nothing, or one validated entry.\<close>

lemma addNamedCert_fingerprintMap:
  "fingerprintMap (fst (snd (addNamedCert P now s d cert filename))) = fingerprintMap s \<or>
   (\<exists>c. cert = Some c \<and> map_of (fingerprintMap s) (fingerprintCert P c) = None \<and>
        validate s now c \<and>
        fingerprintMap (fst (snd (addNamedCert P now s d cert filename))) =
          AList.update (fingerprintCert P c)
            (c\<lparr> SubjectKeyId := Some (sha256_Sum256 P (Raw c)) \<rparr>) (fingerprintMap s))"
  by (simp add: addNamedCert_def Let_def saveCertificate_def
      split: option.splits prod.splits)

lemma addNamedCert_validate [simp]:
  "validate (fst (snd (addNamedCert P now s d cert filename))) = validate s"
  by (simp add: addNamedCert_def Let_def saveCertificate_def
      split: option.splits prod.splits)

lemma AddCert_validate [simp]:
  "validate (fst (snd (AddCert P now s d cert))) = validate s"
  by (simp add: AddCert_def Let_def split: option.splits)

lemma RemoveCert_validate [simp]:
  "validate (fst (snd (RemoveCert P s d cert))) = validate s"
  by (simp add: RemoveCert_def Let_def split: option.splits prod.splits)

lemma AddCert_fingerprintMap:
  "fingerprintMap (fst (snd (AddCert P now s d cert))) = fingerprintMap s \<or>
   (\<exists>c. cert = Some c \<and> map_of (fingerprintMap s) (fingerprintCert P c) = None \<and>
        validate s now c \<and>
        fingerprintMap (fst (snd (AddCert P now s d cert))) =
          AList.update (fingerprintCert P c)
            (c\<lparr> SubjectKeyId := Some (sha256_Sum256 P (Raw c)) \<rparr>) (fingerprintMap s))"
proof (cases cert)
  case None
  then show ?thesis by (simp add: AddCert_def)
next
  case (Some c)
  then show ?thesis
    using addNamedCert_fingerprintMap
      [of P now s d cert "path_Join P (baseDir s) (fingerprintCert P c @ certExtension P)"]
    by (simp add: AddCert_def Let_def)
qed

lemma RemoveCert_fingerprintMap:
  "fingerprintMap (fst (snd (RemoveCert P s d cert))) = fingerprintMap s \<or>
   (\<exists>c. cert = Some c \<and>
        fingerprintMap (fst (snd (RemoveCert P s d cert))) =
          AList.delete (fingerprintCert P c) (fingerprintMap s))"
  by (simp add: RemoveCert_def Let_def split: option.splits prod.splits)

lemma store_inv_addNamedCert:
  assumes "store_inv P s"
  shows "store_inv P (fst (snd (addNamedCert P now s d cert filename)))"
  using assms addNamedCert_fingerprintMap [of P now s d cert filename]
  unfolding store_inv_def
  by (auto simp: AList.distinct_update entries_ok_update)

lemma store_inv_AddCert:
  assumes "store_inv P s"
  shows "store_inv P (fst (snd (AddCert P now s d cert)))"
  using assms AddCert_fingerprintMap [of P now s d cert]
  unfolding store_inv_def
  by (auto simp: AList.distinct_update entries_ok_update)

lemma store_inv_RemoveCert:
  assumes "store_inv P s"
  shows "store_inv P (fst (snd (RemoveCert P s d cert)))"
  using assms RemoveCert_fingerprintMap [of P s d cert]
  unfolding store_inv_def
  by (auto simp: AList.distinct_delete entries_ok_delete)

lemma store_inv_apply_store_op:
  "store_inv P (fst sd) \<Longrightarrow> store_inv P (fst (apply_store_op P sd x))"
  by (cases sd; cases x)
     (simp_all add: store_inv_addNamedCert store_inv_AddCert store_inv_RemoveCert)

lemma store_inv_run_store_ops:
  "store_inv P (fst sd) \<Longrightarrow> store_inv P (fst (run_store_ops P sd ops))"
  unfolding run_store_ops_def
  by (induction ops arbitrary: sd) (simp_all add: store_inv_apply_store_op)

lemma store_inv_entries:
  assumes "store_inv P s" and "(fp, c) \<in> set (fingerprintMap s)"
  shows "fingerprintCert P c = fp" and "SubjectKeyId c = Some (sha256_Sum256 P (Raw c))"
  using assms by (auto simp: store_inv_def entries_ok_def)

lemma store_inv_fingerprints:
  assumes "store_inv P s"
  shows "map (fingerprintCert P) (GetCertificates s) = map fst (fingerprintMap s)"
  unfolding GetCertificates_def using store_inv_entries(1) [OF assms]
  by auto

lemma store_inv_SubjectKeyId:
  assumes "store_inv P s" and "c \<in> set (GetCertificates s)"
  shows "SubjectKeyId c = Some (sha256_Sum256 P (Raw c))"
  using assms store_inv_entries(2) [OF assms(1)]
  by (auto simp: GetCertificates_def)

lemma duplicate_rejected:
  assumes "store_inv P s"
    and "fingerprintCert P c \<in> set (map (fingerprintCert P) (GetCertificates s))"
  shows "addNamedCert P now s d (Some c) filename =
           (Some (ErrorsNew ''certificate already in the store''), s, d)"
    and "AddCert P now s d (Some c) =
           (Some (ErrorsNew ''certificate already in the store''), s, d)"
proof -
  have "fingerprintCert P c \<in> fst ` set (fingerprintMap s)"
    using assms(2) store_inv_fingerprints [OF assms(1)] by simp
  then have present: "map_of (fingerprintMap s) (fingerprintCert P c) \<noteq> None"
    by (simp add: map_of_eq_None_iff)
  then show "addNamedCert P now s d (Some c) filename =
           (Some (ErrorsNew ''certificate already in the store''), s, d)"
    by (simp add: addNamedCert_def Let_def)
  with present show "AddCert P now s d (Some c) =
           (Some (ErrorsNew ''certificate already in the store''), s, d)"
    by (simp add: AddCert_def addNamedCert_def Let_def)
qed

lemma nil_rejected:
  "addNamedCert P now s d None filename =
     (Some (ErrorsNew ''adding nil Certificate to X509Store''), s, d)"
  "AddCert P now s d None = (Some (ErrorsNew ''adding nil Certificate to X509Store''), s, d)"
  by (simp_all add: addNamedCert_def AddCert_def)

text \<open>Which certificates a store holds after an update or a delete of its map.\<close>

lemma snd_set_update: "snd ` set (AList.update k v al) \<subseteq> insert v (snd ` set al)"
  by (induction al) auto

lemma snd_set_delete: "snd ` set (AList.delete k al) \<subseteq> snd ` set al"
  by (induction al) auto

lemma admitted_under_mono:
  "admitted_under P V ts s \<Longrightarrow> set ts \<subseteq> set ts' \<Longrightarrow> admitted_under P V ts' s"
  unfolding admitted_under_def by blast

lemma admitted_under_step:
  assumes "admitted_under P V ts s"
    and "fingerprintMap s' = fingerprintMap s \<or>
         (\<exists>c. V now c \<and> fingerprintMap s' =
            AList.update k (c\<lparr> SubjectKeyId := Some (sha256_Sum256 P (Raw c)) \<rparr>) (fingerprintMap s))"
    and "validate s' = validate s"
  shows "admitted_under P V (ts @ [now]) s'"
proof -
  from assms(2) show ?thesis
  proof
    assume "fingerprintMap s' = fingerprintMap s"
    then have "GetCertificates s' = GetCertificates s"
      by (simp add: GetCertificates_def)
    then have "admitted_under P V ts s'"
      using assms(1,3) unfolding admitted_under_def by simp
    then show ?thesis by (rule admitted_under_mono) auto
  next
    assume "\<exists>c. V now c \<and> fingerprintMap s' =
            AList.update k (c\<lparr> SubjectKeyId := Some (sha256_Sum256 P (Raw c)) \<rparr>) (fingerprintMap s)"
    then obtain c where c: "V now c"
      and eq: "fingerprintMap s' =
            AList.update k (c\<lparr> SubjectKeyId := Some (sha256_Sum256 P (Raw c)) \<rparr>) (fingerprintMap s)"
      by blast
    have sub: "set (GetCertificates s') \<subseteq>
        insert (c\<lparr> SubjectKeyId := Some (sha256_Sum256 P (Raw c)) \<rparr>) (set (GetCertificates s))"
      unfolding GetCertificates_def eq using snd_set_update by (simp add: subset_iff)
    show ?thesis
      unfolding admitted_under_def
    proof (intro conjI ballI)
      show "validate s' = V" using assms(1,3) by (simp add: admitted_under_def)
    next
      fix x assume "x \<in> set (GetCertificates s')"
      with sub have "x = c\<lparr> SubjectKeyId := Some (sha256_Sum256 P (Raw c)) \<rparr>
          \<or> x \<in> set (GetCertificates s)" by blast
      then show "\<exists>c0 now'. now' \<in> set (ts @ [now]) \<and> V now' c0 \<and>
          x = c0\<lparr> SubjectKeyId := Some (sha256_Sum256 P (Raw c0)) \<rparr>"
      proof
        assume "x = c\<lparr> SubjectKeyId := Some (sha256_Sum256 P (Raw c)) \<rparr>"
        with c show ?thesis by auto
      next
        assume "x \<in> set (GetCertificates s)"
        with assms(1) obtain c0 t where "t \<in> set ts" "V t c0"
          "x = c0\<lparr> SubjectKeyId := Some (sha256_Sum256 P (Raw c0)) \<rparr>"
          unfolding admitted_under_def by blast
        then show ?thesis by auto
      qed
    qed
  qed
qed

lemma admitted_under_addNamedCert:
  assumes "admitted_under P V ts s"
  shows "admitted_under P V (ts @ [now]) (fst (snd (addNamedCert P now s d cert filename)))"
proof (rule admitted_under_step [OF assms, where k = "fingerprintCert P (the cert)"])
  show "validate (fst (snd (addNamedCert P now s d cert filename))) = validate s" by simp
  show "fingerprintMap (fst (snd (addNamedCert P now s d cert filename))) = fingerprintMap s \<or>
    (\<exists>c. V now c \<and> fingerprintMap (fst (snd (addNamedCert P now s d cert filename))) =
       AList.update (fingerprintCert P (the cert))
         (c\<lparr> SubjectKeyId := Some (sha256_Sum256 P (Raw c)) \<rparr>) (fingerprintMap s))"
    using addNamedCert_fingerprintMap [of P now s d cert filename] assms
    by (auto simp: admitted_under_def)
qed

lemma admitted_under_AddCert:
  assumes "admitted_under P V ts s"
  shows "admitted_under P V (ts @ [now]) (fst (snd (AddCert P now s d cert)))"
proof (rule admitted_under_step [OF assms, where k = "fingerprintCert P (the cert)"])
  show "validate (fst (snd (AddCert P now s d cert))) = validate s" by simp
  show "fingerprintMap (fst (snd (AddCert P now s d cert))) = fingerprintMap s \<or>
    (\<exists>c. V now c \<and> fingerprintMap (fst (snd (AddCert P now s d cert))) =
       AList.update (fingerprintCert P (the cert))
         (c\<lparr> SubjectKeyId := Some (sha256_Sum256 P (Raw c)) \<rparr>) (fingerprintMap s))"
    using AddCert_fingerprintMap [of P now s d cert] assms
    by (auto simp: admitted_under_def)
qed

lemma admitted_under_RemoveCert:
  assumes "admitted_under P V ts s"
  shows "admitted_under P V ts (fst (snd (RemoveCert P s d cert)))"
proof -
  have "set (GetCertificates (fst (snd (RemoveCert P s d cert)))) \<subseteq> set (GetCertificates s)"
    using RemoveCert_fingerprintMap [of P s d cert]
  proof
    assume "fingerprintMap (fst (snd (RemoveCert P s d cert))) = fingerprintMap s"
    then show ?thesis by (simp add: GetCertificates_def)
  next
    assume "\<exists>c. cert = Some c \<and>
        fingerprintMap (fst (snd (RemoveCert P s d cert))) =
          AList.delete (fingerprintCert P c) (fingerprintMap s)"
    then obtain c where
      "fingerprintMap (fst (snd (RemoveCert P s d cert))) =
          AList.delete (fingerprintCert P c) (fingerprintMap s)" by blast
    then show ?thesis
      using snd_set_delete [of "fingerprintCert P c" "fingerprintMap s"]
      by (simp add: GetCertificates_def)
  qed
  then show ?thesis
    using assms unfolding admitted_under_def by (simp add: subset_iff)
qed

lemma admitted_under_apply_store_op:
  "admitted_under P V ts (fst sd) \<Longrightarrow>
   admitted_under P V (ts @ op_clock x) (fst (apply_store_op P sd x))"
  by (cases sd; cases x)
     (simp_all add: admitted_under_addNamedCert admitted_under_AddCert
        admitted_under_RemoveCert)

lemma admitted_under_run_store_ops:
  "admitted_under P V ts (fst sd) \<Longrightarrow>
   admitted_under P V (ts @ clock_readings ops) (fst (run_store_ops P sd ops))"
  unfolding run_store_ops_def clock_readings_def
proof (induction ops arbitrary: sd ts)
  case Nil
  then show ?case by simp
next
  case (Cons x ops)
  from Cons.IH [OF admitted_under_apply_store_op [OF Cons.prems, of x]]
  show ?case by simp
qed

lemma admitted_under_empty: "admitted_under P V [] (emptyStore directory V)"
  by (simp add: admitted_under_def emptyStore_def GetCertificates_def)

lemma clock_readings_load:
  "clock_readings (map (\<lambda>(now, c, f). OpAddNamedCert now (Some c) f) found) = map fst found"
  unfolding clock_readings_def by (induction found) auto

lemma admitted_under_New:
  "admitted_under P V (map fst found)
     (fst (NewX509FilteredFileStore P directory V d found))"
proof -
  have "admitted_under P V [] (fst (emptyStore directory V, d))"
    by (simp add: admitted_under_empty)
  from admitted_under_run_store_ops
    [OF this, where ops = "map (\<lambda>(now, c, f). OpAddNamedCert now (Some c) f) found"]
  show ?thesis
    unfolding NewX509FilteredFileStore_def loadCertsFromDir_def
    by (simp add: clock_readings_load)
qed

lemma rejected_unchanged:
  assumes "\<not> validate s now c"
  shows "fst (addNamedCert P now s d (Some c) f) \<noteq> None"
    and "snd (addNamedCert P now s d (Some c) f) = (s, d)"
    and "fst (AddCert P now s d (Some c)) \<noteq> None"
    and "snd (AddCert P now s d (Some c)) = (s, d)"
  using assms by (simp_all add: addNamedCert_def AddCert_def Let_def)

text \<open>
  C10. The X509 certificate file store never holds two certificates with the same
  content-hash fingerprint, whatever sequence of adds and removes built it from the empty
  store; every certificate it holds has its \<open>SubjectKeyId\<close> overwritten with the SHA-256
  of its raw encoding; adding a certificate whose fingerprint is already present fails
  with an error and leaves store and disk unchanged; adding a nil certificate fails.
\<close>

theorem X509FileStore_fingerprints_unique:
  "let s = fst (run_store_ops P (emptyStore directory v, d0) ops) in
     distinct (map (fingerprintCert P) (GetCertificates s)) \<and>
     (\<forall>c \<in> set (GetCertificates s). SubjectKeyId c = Some (sha256_Sum256 P (Raw c))) \<and>
     (\<forall>c now d filename.
        fingerprintCert P c \<in> set (map (fingerprintCert P) (GetCertificates s)) \<longrightarrow>
          addNamedCert P now s d (Some c) filename =
            (Some (ErrorsNew ''certificate already in the store''), s, d) \<and>
          AddCert P now s d (Some c) =
            (Some (ErrorsNew ''certificate already in the store''), s, d)) \<and>
     (\<forall>now d filename.
        addNamedCert P now s d None filename =
          (Some (ErrorsNew ''adding nil Certificate to X509Store''), s, d) \<and>
        AddCert P now s d None =
          (Some (ErrorsNew ''adding nil Certificate to X509Store''), s, d))"
proof -
  define s where "s = fst (run_store_ops P (emptyStore directory v, d0) ops)"
  have inv: "store_inv P s"
    unfolding s_def by (rule store_inv_run_store_ops) (simp add: store_inv_empty)
  have "distinct (map (fingerprintCert P) (GetCertificates s))"
    using inv store_inv_fingerprints [OF inv] by (simp add: store_inv_def)
  moreover have "\<forall>c \<in> set (GetCertificates s). SubjectKeyId c = Some (sha256_Sum256 P (Raw c))"
    using store_inv_SubjectKeyId [OF inv] by blast
  moreover have "\<forall>c now d filename.
        fingerprintCert P c \<in> set (map (fingerprintCert P) (GetCertificates s)) \<longrightarrow>
          addNamedCert P now s d (Some c) filename =
            (Some (ErrorsNew ''certificate already in the store''), s, d) \<and>
          AddCert P now s d (Some c) =
            (Some (ErrorsNew ''certificate already in the store''), s, d)"
    using duplicate_rejected [OF inv] by blast
  moreover have "\<forall>now d filename.
        addNamedCert P now s d None filename =
          (Some (ErrorsNew ''adding nil Certificate to X509Store''), s, d) \<and>
        AddCert P now s d None =
          (Some (ErrorsNew ''adding nil Certificate to X509Store''), s, d)"
    by (simp add: nil_rejected)
  ultimately show ?thesis
    unfolding Let_def s_def [symmetric] by blast
qed

theorem X509FileStore_fingerprints_unique_witness:
  "let s = fst (run_store_ops demo_prims (emptyStore ''trust'' (\<lambda>now c. True), {})
                  [OpAddCert 0 (Some demo_leaf), OpAddNamedCert 5 (Some demo_leaf) ''copy.crt'',
                   OpAddCert 7 (Some demo_ca)]) in
     map (fingerprintCert demo_prims) (GetCertificates s) = [''id:leaf'', ''id:ca''] \<and>
     fingerprintCert demo_prims demo_leaf \<in> set (map (fingerprintCert demo_prims) (GetCertificates s)) \<and>
     AddCert demo_prims 9 s {} (Some demo_leaf) =
       (Some (ErrorsNew ''certificate already in the store''), s, {})"
proof -
  define s where "s = fst (run_store_ops demo_prims (emptyStore ''trust'' (\<lambda>now c. True), {})
                  [OpAddCert 0 (Some demo_leaf), OpAddNamedCert 5 (Some demo_leaf) ''copy.crt'',
                   OpAddCert 7 (Some demo_ca)])"
  have fps: "map (fingerprintCert demo_prims) (GetCertificates s) = [''id:leaf'', ''id:ca'']"
    unfolding s_def
    by (simp add: run_store_ops_def AddCert_def addNamedCert_def Let_def emptyStore_def
        fingerprintCert_def demo_prims_def demo_leaf_def demo_ca_def saveCertificate_def
        GetCertificates_def)
  then have present:
    "fingerprintCert demo_prims demo_leaf \<in> set (map (fingerprintCert demo_prims) (GetCertificates s))"
    by (simp add: fingerprintCert_def demo_prims_def demo_leaf_def)
  from X509FileStore_fingerprints_unique
    [of demo_prims "''trust''" "\<lambda>now c. True" "{}"
      "[OpAddCert 0 (Some demo_leaf), OpAddNamedCert 5 (Some demo_leaf) ''copy.crt'',
        OpAddCert 7 (Some demo_ca)]"]
  have "AddCert demo_prims 9 s {} (Some demo_leaf) =
       (Some (ErrorsNew ''certificate already in the store''), s, {})"
    using present unfolding Let_def s_def [symmetric] by blast
  with fps present show ?thesis
    unfolding Let_def s_def [symmetric] by blast
qed

text \<open>
  C9. After \<open>loadKeys\<close> has built the two stores, and after any further adds and removes,
  every certificate held by the CA store is a CA certificate, is not signed with SHA-1
  and was unexpired at the clock reading of its admission; every certificate held by the
  certificate store is not signed with SHA-1 and was unexpired at its admission. A
  certificate that fails these predicates is rejected by an add, which leaves the store
  and the disk as they were.
\<close>

theorem loadKeys_stores_filtered:
  assumes "loadKeys E trustDir rootKeysDir foundCA foundCerts foundKeys w = (Ok (), w')"
  shows
    "(let ca = fst (run_store_ops (prims E) (caStore (repo w'), d) ops);
          cs = fst (run_store_ops (prims E) (certificateStore (repo w'), d) ops) in
        (\<forall>c \<in> set (GetCertificates ca).
           IsCA c \<and> \<not> sha1_signed c \<and>
           (\<exists>now \<in> set (map fst foundCA @ clock_readings ops). now < NotAfter c)) \<and>
        (\<forall>c \<in> set (GetCertificates cs).
           \<not> sha1_signed c \<and>
           (\<exists>now \<in> set (map fst foundCerts @ clock_readings ops). now < NotAfter c)) \<and>
        (\<forall>now c f d'. \<not> (IsCA c \<and> now < NotAfter c \<and> \<not> sha1_signed c) \<longrightarrow>
           fst (addNamedCert (prims E) now ca d' (Some c) f) \<noteq> None \<and>
           snd (addNamedCert (prims E) now ca d' (Some c) f) = (ca, d') \<and>
           fst (AddCert (prims E) now ca d' (Some c)) \<noteq> None \<and>
           snd (AddCert (prims E) now ca d' (Some c)) = (ca, d')) \<and>
        (\<forall>now c f d'. \<not> (now < NotAfter c \<and> \<not> sha1_signed c) \<longrightarrow>
           fst (addNamedCert (prims E) now cs d' (Some c) f) \<noteq> None \<and>
           snd (addNamedCert (prims E) now cs d' (Some c) f) = (cs, d') \<and>
           fst (AddCert (prims E) now cs d' (Some c)) \<noteq> None \<and>
           snd (AddCert (prims E) now cs d' (Some c)) = (cs, d')))"
proof -
  define ca where "ca = fst (run_store_ops (prims E) (caStore (repo w'), d) ops)"
  define cs where "cs = fst (run_store_ops (prims E) (certificateStore (repo w'), d) ops)"
  define d1 where "d1 = snd (NewX509FilteredFileStore (prims E) trustDir caStore_filter
      (trust_files w) foundCA)"
  have ca0: "caStore (repo w') =
      fst (NewX509FilteredFileStore (prims E) trustDir caStore_filter (trust_files w) foundCA)"
    and cs0: "certificateStore (repo w') =
      fst (NewX509FilteredFileStore (prims E) trustDir certificateStore_filter d1 foundCerts)"
    using assms unfolding d1_def
    by (auto simp: loadKeys_def split: prod.splits option.splits)
  have "admitted_under (prims E) caStore_filter (map fst foundCA) (fst (caStore (repo w'), d))"
    unfolding ca0 by (simp add: admitted_under_New)
  from admitted_under_run_store_ops [OF this, of ops]
  have A: "admitted_under (prims E) caStore_filter (map fst foundCA @ clock_readings ops) ca"
    by (simp add: ca_def)
  have "admitted_under (prims E) certificateStore_filter (map fst foundCerts)
          (fst (certificateStore (repo w'), d))"
    unfolding cs0 by (simp add: admitted_under_New)
  from admitted_under_run_store_ops [OF this, of ops]
  have B: "admitted_under (prims E) certificateStore_filter
             (map fst foundCerts @ clock_readings ops) cs"
    by (simp add: cs_def)
  have 1: "\<forall>c \<in> set (GetCertificates ca).
           IsCA c \<and> \<not> sha1_signed c \<and>
           (\<exists>now \<in> set (map fst foundCA @ clock_readings ops). now < NotAfter c)"
    using A unfolding admitted_under_def caStore_filter_def sha1_signed_def
    by fastforce
  have 2: "\<forall>c \<in> set (GetCertificates cs).
           \<not> sha1_signed c \<and>
           (\<exists>now \<in> set (map fst foundCerts @ clock_readings ops). now < NotAfter c)"
    using B unfolding admitted_under_def certificateStore_filter_def sha1_signed_def
    by fastforce
  have va: "validate ca = caStore_filter" using A by (simp add: admitted_under_def)
  have vb: "validate cs = certificateStore_filter" using B by (simp add: admitted_under_def)
  have 3: "\<forall>now c f d'. \<not> (IsCA c \<and> now < NotAfter c \<and> \<not> sha1_signed c) \<longrightarrow>
           fst (addNamedCert (prims E) now ca d' (Some c) f) \<noteq> None \<and>
           snd (addNamedCert (prims E) now ca d' (Some c) f) = (ca, d') \<and>
           fst (AddCert (prims E) now ca d' (Some c)) \<noteq> None \<and>
           snd (AddCert (prims E) now ca d' (Some c)) = (ca, d')"
  proof (intro allI impI)
    fix now c f d'
    assume "\<not> (IsCA c \<and> now < NotAfter c \<and> \<not> sha1_signed c)"
    then have "\<not> validate ca now c"
      unfolding va caStore_filter_def sha1_signed_def by blast
    from rejected_unchanged [OF this]
    show "fst (addNamedCert (prims E) now ca d' (Some c) f) \<noteq> None \<and>
           snd (addNamedCert (prims E) now ca d' (Some c) f) = (ca, d') \<and>
           fst (AddCert (prims E) now ca d' (Some c)) \<noteq> None \<and>
           snd (AddCert (prims E) now ca d' (Some c)) = (ca, d')"
      by blast
  qed
  have 4: "\<forall>now c f d'. \<not> (now < NotAfter c \<and> \<not> sha1_signed c) \<longrightarrow>
           fst (addNamedCert (prims E) now cs d' (Some c) f) \<noteq> None \<and>
           snd (addNamedCert (prims E) now cs d' (Some c) f) = (cs, d') \<and>
           fst (AddCert (prims E) now cs d' (Some c)) \<noteq> None \<and>
           snd (AddCert (prims E) now cs d' (Some c)) = (cs, d')"
  proof (intro allI impI)
    fix now c f d'
    assume "\<not> (now < NotAfter c \<and> \<not> sha1_signed c)"
    then have "\<not> validate cs now c"
      unfolding vb certificateStore_filter_def sha1_signed_def by blast
    from rejected_unchanged [OF this]
    show "fst (addNamedCert (prims E) now cs d' (Some c) f) \<noteq> None \<and>
           snd (addNamedCert (prims E) now cs d' (Some c) f) = (cs, d') \<and>
           fst (AddCert (prims E) now cs d' (Some c)) \<noteq> None \<and>
           snd (AddCert (prims E) now cs d' (Some c)) = (cs, d')"
      by blast
  qed
  from 1 2 3 4 show ?thesis
    unfolding Let_def ca_def [symmetric] cs_def [symmetric] by blast
qed

theorem loadKeys_stores_filtered_witness:
  "\<exists>w'. loadKeys demo_ext ''trust'' ''root_keys''
            [(0, demo_ca, ''ca.crt''), (0, demo_leaf, ''leaf.crt'')]
            [(1, demo_ca, ''ca.crt''), (1, demo_leaf, ''leaf.crt'')]
            \<lparr> ks_keys = [], ks_links = [] \<rparr> demo_world = (Ok (), w') \<and>
         map Raw (GetCertificates (caStore (repo w'))) = [''ca''] \<and>
         map Raw (GetCertificates (certificateStore (repo w'))) = [''leaf''] \<and>
         list_all IsCA (GetCertificates (caStore (repo w'))) \<and>
         \<not> (IsCA demo_leaf \<and> 2 < NotAfter demo_leaf \<and> \<not> sha1_signed demo_leaf) \<and>
         fst (addNamedCert (prims demo_ext) 2 (caStore (repo w')) {} (Some demo_leaf) ''x.crt'')
           \<noteq> None"
proof -
  define res where "res = loadKeys demo_ext ''trust'' ''root_keys''
            [(0, demo_ca, ''ca.crt''), (0, demo_leaf, ''leaf.crt'')]
            [(1, demo_ca, ''ca.crt''), (1, demo_leaf, ''leaf.crt'')]
            \<lparr> ks_keys = [], ks_links = [] \<rparr> demo_world"
  have ok: "fst res = Ok ()"
    unfolding res_def
    by (simp add: loadKeys_def demo_ext_def split: prod.splits)
  have eq: "loadKeys demo_ext ''trust'' ''root_keys''
            [(0, demo_ca, ''ca.crt''), (0, demo_leaf, ''leaf.crt'')]
            [(1, demo_ca, ''ca.crt''), (1, demo_leaf, ''leaf.crt'')]
            \<lparr> ks_keys = [], ks_links = [] \<rparr> demo_world = (Ok (), snd res)"
    using ok unfolding res_def by (simp add: prod_eq_iff)
  have ca: "map Raw (GetCertificates (caStore (repo (snd res)))) = [''ca'']"
    unfolding res_def
    by (simp add: loadKeys_def NewX509FilteredFileStore_def loadCertsFromDir_def
        run_store_ops_def addNamedCert_def Let_def emptyStore_def caStore_filter_def
        certificateStore_filter_def demo_ext_def demo_prims_def demo_leaf_def demo_ca_def
        demo_world_def fingerprintCert_def saveCertificate_def GetCertificates_def
        split: prod.splits)
  have cs: "map Raw (GetCertificates (certificateStore (repo (snd res)))) = [''leaf'']"
    unfolding res_def
    by (simp add: loadKeys_def NewX509FilteredFileStore_def loadCertsFromDir_def
        run_store_ops_def addNamedCert_def Let_def emptyStore_def caStore_filter_def
        certificateStore_filter_def demo_ext_def demo_prims_def demo_leaf_def demo_ca_def
        demo_world_def fingerprintCert_def saveCertificate_def GetCertificates_def
        split: prod.splits)
  have leaf: "\<not> (IsCA demo_leaf \<and> 2 < NotAfter demo_leaf \<and> \<not> sha1_signed demo_leaf)"
    by (simp add: demo_leaf_def)
  from loadKeys_stores_filtered [OF eq, of "{}" "[]"]
  have held: "\<forall>c \<in> set (GetCertificates (caStore (repo (snd res)))). IsCA c"
    and rej: "\<forall>now c f d'. \<not> (IsCA c \<and> now < NotAfter c \<and> \<not> sha1_signed c) \<longrightarrow>
           fst (addNamedCert (prims demo_ext) now (caStore (repo (snd res))) d' (Some c) f) \<noteq> None"
    unfolding Let_def run_store_ops_def by simp_all
  from rej leaf
  have "fst (addNamedCert (prims demo_ext) 2 (caStore (repo (snd res))) {} (Some demo_leaf)
          ''x.crt'') \<noteq> None"
    by blast
  moreover from held have "list_all IsCA (GetCertificates (caStore (repo (snd res))))"
    by (simp add: list_all_iff)
  ultimately show ?thesis
    using eq ca cs leaf by (intro exI [of _ "snd res"] conjI)
qed

subsection \<open>Sequencing\<close>

lemma bind_cases:
  assumes "bind m f w = (res, w')"
  shows "(\<exists>e. m w = (Err e, w') \<and> res = Err e) \<or>
         (\<exists>p. m w = (Panic p, w') \<and> res = Panic p) \<or>
         (\<exists>a w1. m w = (Ok a, w1) \<and> f a w1 = (res, w'))"
  using assms by (auto simp: bind_def split: prod.splits result.splits)

lemma bind_Ok [simp]: "m w = (Ok a, w1) \<Longrightarrow> bind m f w = f a w1"
  by (simp add: bind_def)

lemma bind_Err [simp]: "m w = (Err e, w1) \<Longrightarrow> bind m f w = (Err e, w1)"
  by (simp add: bind_def)

lemma bind_Panic [simp]: "m w = (Panic p, w1) \<Longrightarrow> bind m f w = (Panic p, w1)"
  by (simp add: bind_def)

lemma handle_Ok [simp]: "m w = (Ok a, w1) \<Longrightarrow> handle m f h w = f a w1"
  by (simp add: handle_def)

lemma handle_Err [simp]: "m w = (Err e, w1) \<Longrightarrow> handle m f h w = h e w1"
  by (simp add: handle_def)

lemma handle_Panic [simp]: "m w = (Panic p, w1) \<Longrightarrow> handle m f h w = (Panic p, w1)"
  by (simp add: handle_def)

subsection \<open>Frames\<close>

named_theorems frames_intros

lemma frames_mono: "frames A m \<Longrightarrow> A \<subseteq> B \<Longrightarrow> frames B m"
  unfolding frames_def by (meson subset_trans)

lemma framesD:
  assumes "frames A m" and "m w = (res, w')"
  shows "changelist w' = changelist w"
    and "local_meta w' = local_meta w"
    and "\<exists>evs. trace w' = trace w @ evs \<and> set evs \<subseteq> A"
  using assms unfolding frames_def by (metis snd_conv)+

lemma frames_handle [frames_intros]:
  assumes "frames A m" and "\<And>a. frames A (f a)" and "\<And>e. frames A (h e)"
  shows "frames A (handle m f h)"
  unfolding frames_def
proof (intro allI)
  fix w
  obtain r w1 where mw: "m w = (r, w1)" by (cases "m w")
  note m1 = framesD [OF assms(1) mw]
  from m1(3) obtain evs1 where evs1: "trace w1 = trace w @ evs1" "set evs1 \<subseteq> A" by blast
  show "changelist (snd (handle m f h w)) = changelist w \<and>
        local_meta (snd (handle m f h w)) = local_meta w \<and>
        (\<exists>evs. trace (snd (handle m f h w)) = trace w @ evs \<and> set evs \<subseteq> A)"
  proof (cases r)
    case (Ok a)
    obtain r2 w2 where fw: "f a w1 = (r2, w2)" by (cases "f a w1")
    note f2 = framesD [OF assms(2) fw]
    from f2(3) obtain evs2 where "trace w2 = trace w1 @ evs2" "set evs2 \<subseteq> A" by blast
    with evs1 have "trace w2 = trace w @ (evs1 @ evs2) \<and> set (evs1 @ evs2) \<subseteq> A" by simp
    then have "\<exists>evs. trace w2 = trace w @ evs \<and> set evs \<subseteq> A" by blast
    with Ok mw fw m1 f2 show ?thesis by simp
  next
    case (Err e)
    obtain r2 w2 where hw: "h e w1 = (r2, w2)" by (cases "h e w1")
    note h2 = framesD [OF assms(3) hw]
    from h2(3) obtain evs2 where "trace w2 = trace w1 @ evs2" "set evs2 \<subseteq> A" by blast
    with evs1 have "trace w2 = trace w @ (evs1 @ evs2) \<and> set (evs1 @ evs2) \<subseteq> A" by simp
    then have "\<exists>evs. trace w2 = trace w @ evs \<and> set evs \<subseteq> A" by blast
    with Err mw hw m1 h2 show ?thesis by simp
  next
    case (Panic p)
    with mw m1 show ?thesis by simp
  qed
qed

lemma frames_ret [frames_intros]: "frames A (ret a)"
  by (simp add: frames_def ret_def)

lemma frames_fail [frames_intros]: "frames A (fail e)"
  by (simp add: frames_def fail_def)

lemma frames_panic [frames_intros]: "frames A (panic p)"
  by (simp add: frames_def panic_def)

lemma bind_handle: "bind m f = handle m f fail"
  by (rule ext) (simp add: bind_def handle_def fail_def split: prod.splits result.splits)

lemma frames_bind [frames_intros]:
  assumes "frames A m" and "\<And>a. frames A (f a)"
  shows "frames A (bind m f)"
  unfolding bind_handle using assms by (intro frames_handle frames_fail)

lemma frames_lift [frames_intros]: "frames A (lift x)"
  by (cases x) (simp_all add: lift_def frames_ret frames_fail)

lemma frames_check [frames_intros]: "frames A (check x)"
  by (cases x) (simp_all add: check_def frames_ret frames_fail)

lemma frames_emit [frames_intros]: "ev \<in> A \<Longrightarrow> frames A (emit ev)"
  by (simp add: frames_def emit_def)

lemma frames_ignore_error [frames_intros]: "frames A m \<Longrightarrow> frames A (ignore_error m)"
  unfolding ignore_error_def by (intro frames_handle frames_ret)

lemma frames_set_tufRepo [frames_intros]: "frames A (set_tufRepo t)"
  by (simp add: frames_def set_tufRepo_def)

lemma frames_get_tufRepo [frames_intros]: "frames A get_tufRepo"
  by (simp add: frames_def get_tufRepo_def split: option.splits)

lemma frames_get_repo [frames_intros]: "frames A get_repo"
  by (simp add: frames_def get_repo_def)

lemma frames_case_prod [frames_intros]:
  "(\<And>a b. frames A (f a b)) \<Longrightarrow> frames A (case p of (a, b) \<Rightarrow> f a b)"
  by (cases p) simp

lemma frames_case_option [frames_intros]:
  "frames A m \<Longrightarrow> (\<And>y. frames A (f y)) \<Longrightarrow> frames A (case x of None \<Rightarrow> m | Some y \<Rightarrow> f y)"
  by (cases x) simp_all

lemma frames_case_sum [frames_intros]:
  "(\<And>e. frames A (f e)) \<Longrightarrow> (\<And>y. frames A (g y)) \<Longrightarrow>
   frames A (case x of Inl e \<Rightarrow> f e | Inr y \<Rightarrow> g y)"
  by (cases x) simp_all

lemma frames_case_list [frames_intros]:
  "frames A m \<Longrightarrow> (\<And>y ys. frames A (f y ys)) \<Longrightarrow>
   frames A (case xs of [] \<Rightarrow> m | y # ys \<Rightarrow> f y ys)"
  by (cases xs) simp_all

lemma frames_if [frames_intros]:
  "frames A m \<Longrightarrow> frames A n \<Longrightarrow> frames A (if c then m else n)"
  by simp

lemma frames_tuf_op [frames_intros]: "frames A (tuf_op f)"
  unfolding tuf_op_def by (intro frames_intros)

lemma frames_tuf_cmd [frames_intros]: "frames A (tuf_cmd f)"
  unfolding tuf_cmd_def by (intro frames_intros)

lemma frames_getRemoteStore [frames_intros]: "frames A (getRemoteStore E)"
  unfolding getRemoteStore_def by (intro frames_intros)

lemma frames_remote_GetMeta_call [frames_intros]:
  "EvRemoteGetMeta role \<in> A \<Longrightarrow> frames A (remote_GetMeta_call E role)"
  unfolding remote_GetMeta_call_def by (intro frames_intros)

lemma frames_remote_store [frames_intros]: "frames A (remote_store role b)"
  by (simp add: frames_def remote_store_def)

lemma frames_remote_SetMeta_call [frames_intros]:
  "EvRemoteSetMeta role b \<in> A \<Longrightarrow> frames A (remote_SetMeta_call E role b)"
  unfolding remote_SetMeta_call_def by (intro frames_intros)

lemma frames_cache_GetMeta [frames_intros]: "frames A (cache_GetMeta E name)"
  by (simp add: frames_def cache_GetMeta_def split: option.splits)

lemma frames_marshal [frames_intros]: "EvMarshal role \<in> A \<Longrightarrow> frames A (marshal E role x)"
  unfolding marshal_def by (intro frames_intros)

lemma frames_NewFileChangelist [frames_intros]: "frames A (NewFileChangelist E)"
  unfolding NewFileChangelist_def by (intro frames_intros)

lemma frames_cl_List [frames_intros]: "frames A cl_List"
  by (simp add: frames_def cl_List_def)

lemma frames_validateRoot [frames_intros]: "frames A (\<lambda>w. (validateRoot E r root, w))"
  by (simp add: frames_def)

lemma frames_SignRoot [frames_intros]: "EvSignRoot \<in> A \<Longrightarrow> frames A (SignRoot E sg)"
  unfolding SignRoot_def by (intro frames_intros)

lemma frames_SignTargets [frames_intros]:
  "EvSignTargets role \<in> A \<Longrightarrow> frames A (SignTargets E role)"
  unfolding SignTargets_def by (intro frames_intros)

lemma frames_SignSnapshot [frames_intros]: "EvSignSnapshot \<in> A \<Longrightarrow> frames A (SignSnapshot E)"
  unfolding SignSnapshot_def by (intro frames_intros)

lemma frames_get_Root [frames_intros]: "frames A get_Root"
  unfolding get_Root_def by (intro frames_intros)

lemma frames_GetRootSigner [frames_intros]: "frames A (GetRootSigner E k p)"
  unfolding GetRootSigner_def by (intro frames_intros)

subsection \<open>The parts of Publish\<close>

lemma frames_bootstrapClient [frames_intros]:
  "EvRemoteGetMeta ''root'' \<in> A \<Longrightarrow> frames A (bootstrapClient E)"
  unfolding bootstrapClient_def by (intro frames_intros)

lemma frames_bootstrapRepo [frames_intros]: "frames A (bootstrapRepo E)"
  unfolding bootstrapRepo_def by (intro frames_intros)

lemma frames_publish_bootstrap [frames_intros]:
  "EvRemoteGetMeta ''root'' \<in> A \<Longrightarrow> EvClientUpdate \<in> A \<Longrightarrow> frames A (publish_bootstrap E)"
  unfolding publish_bootstrap_def by (intro frames_intros)

lemma frames_applyChangelist [frames_intros]: "frames A (applyChangelist E)"
  unfolding applyChangelist_def by (intro frames_intros)

lemma frames_publish_changelist [frames_intros]: "frames A (publish_changelist E)"
  unfolding publish_changelist_def by (intro frames_intros)

lemma frames_publish_load [frames_intros]:
  "EvRemoteGetMeta ''root'' \<in> A \<Longrightarrow> EvClientUpdate \<in> A \<Longrightarrow> frames A (publish_load E)"
  unfolding publish_load_def by (intro frames_intros)

lemma frames_publish_sign_root [frames_intros]:
  "EvGetPass \<in> A \<Longrightarrow> EvSignRoot \<in> A \<Longrightarrow> frames A (publish_sign_root E getPass ur root)"
  unfolding publish_sign_root_def by (intro frames_intros)

lemma frames_publish_sign [frames_intros]:
  "EvGetPass \<in> A \<Longrightarrow> EvSignRoot \<in> A \<Longrightarrow> EvSignTargets ''targets'' \<in> A \<Longrightarrow>
   EvSignSnapshot \<in> A \<Longrightarrow> frames A (publish_sign E getPass ur root)"
  unfolding publish_sign_def by (intro frames_intros)

lemma frames_publish_upload [frames_intros]:
  "(\<And>role. EvMarshal role \<in> A) \<Longrightarrow> (\<And>role b. EvRemoteSetMeta role b \<in> A) \<Longrightarrow>
   frames A (publish_upload E ur root targets snapshot')"
  unfolding publish_upload_def by (intro frames_intros)

lemma frames_Publish:
  "frames UNIV (Publish E getPass)"
  unfolding Publish_def by (intro frames_intros) simp_all

subsection \<open>Unfolding the client\<close>

lemmas step_defs =
  bind_def handle_def ret_def fail_def panic_def lift_def check_def emit_def ignore_error_def
  set_tufRepo_def get_tufRepo_def tuf_op_def tuf_cmd_def get_repo_def
  getRemoteStore_def remote_GetMeta_call_def remote_GetKey_call_def remote_store_def
  remote_SetMeta_call_def cache_GetMeta_def cache_store_def cache_SetMeta_def
  marshal_def marshal_dropping_def NewFileChangelist_def cl_append_def cl_Add_def
  cl_Close_def cl_List_def

lemmas publish_defs =
  Publish_def publish_load_def publish_bootstrap_def publish_changelist_def
  publish_sign_def publish_sign_root_def publish_upload_def bootstrapClient_def
  bootstrapRepo_def validateRoot_def applyChangelist_def applyTargetsChange_def
  targets_body_def nearExpiry_def get_Root_def SignRoot_def SignTargets_def SignSnapshot_def
  GetRootSigner_def NewTufRepo_def NewDB_def GetCertificateByFingerprint_def Verify_def
  ks_GetDecryptedKey_def

lemmas initialize_defs =
  Initialize_def initialize_keys_def initial_keyDB_def initialize_repo_def
  GenerateCertificate_def certificateStore_AddCert_def rootKeyStore_cmd_def ks_Link_def
  NewPublicKey_def AddKey_def NewRole_def AddRole_def NewTufRepo_def NewDB_def
  saveMetadata_def snapshot_def SignRoot_def SignTargets_def SignSnapshot_def

lemmas demo_defs =
  demo_ext_def demo_world_def demo_repo_def demo_change_def demo_root_body_def
  demo_root_key_def demo_signed_def demo_prims_def demo_leaf_def demo_ca_def
  NewTufChange_def AddCert_def addNamedCert_def emptyStore_def fingerprintCert_def
  saveCertificate_def certificateStore_filter_def caStore_filter_def

subsection \<open>Traces of the parts of Publish\<close>

lemma filter_none: "set evs \<subseteq> {e. \<not> P e} \<Longrightarrow> filter P evs = []"
  by (induction evs) auto

lemma put_roles_append [simp]: "put_roles (a @ b) = put_roles a @ put_roles b"
  by (simp add: put_roles_def)

lemma put_roles_Nil [simp]: "put_roles [] = []"
  by (simp add: put_roles_def)

lemma put_roles_Cons [simp]: "put_roles (e # evs) = put_role e @ put_roles evs"
  by (simp add: put_roles_def)

lemma put_role_not_put: "\<not> is_put e \<Longrightarrow> put_role e = []"
  by (cases e) simp_all

lemma put_roles_none: "set evs \<subseteq> {e. \<not> is_put e} \<Longrightarrow> put_roles evs = []"
  by (induction evs) (auto simp: put_role_not_put)

lemma put_roles_filter: "put_roles (filter is_upload evs) = put_roles evs"
proof (induction evs)
  case Nil
  then show ?case by simp
next
  case (Cons e evs)
  then show ?case by (cases e) (simp_all add: is_upload_def)
qed

lemma publish_load_quiet:
  "frames {e. \<not> is_upload e \<and> e \<noteq> EvGetPass} (publish_load E)"
  by (rule frames_publish_load) (simp_all add: is_upload_def)

lemma publish_sign_quiet:
  "frames {e. \<not> is_upload e} (publish_sign E getPass ur root)"
  by (rule frames_publish_sign) (simp_all add: is_upload_def)

lemma publish_upload_no_getPass:
  "frames {e. e \<noteq> EvGetPass} (publish_upload E ur root targets snapshot')"
  by (rule frames_publish_upload) simp_all

text \<open>The last part emits its events in the fixed order, up to the first failure.\<close>

lemma publish_upload_trace:
  assumes "publish_upload E ur root targets snapshot' w = (res, w')"
  shows "\<exists>evs. trace w' = trace w @ evs \<and>
           prefix evs (upload_events E ur root targets snapshot') \<and>
           (res = Ok () \<longrightarrow> evs = upload_events E ur root targets snapshot')"
  using assms
  by (auto simp: publish_upload_def step_defs upload_events_def marshalled_def
      split: sum.splits option.splits if_splits)

lemma upload_events_split:
  "\<exists>ms ps. upload_events E ur root targets snapshot' = ms @ ps \<and>
      (\<forall>e \<in> set ms. \<not> is_put e) \<and> (\<forall>e \<in> set ps. is_put e)"
proof (cases ur)
  case True
  have "upload_events E ur root targets snapshot' =
      [EvMarshal ''targets'', EvMarshal ''snapshot'', EvMarshal ''root''] @
      [EvRemoteSetMeta ''root'' (marshalled E root),
       EvRemoteSetMeta ''targets'' (marshalled E (Some targets)),
       EvRemoteSetMeta ''snapshot'' (marshalled E (Some snapshot'))]"
    using True by (simp add: upload_events_def)
  moreover have "\<forall>e \<in> set [EvMarshal ''targets'', EvMarshal ''snapshot'', EvMarshal ''root''].
      \<not> is_put e" by simp
  moreover have "\<forall>e \<in> set [EvRemoteSetMeta ''root'' (marshalled E root),
       EvRemoteSetMeta ''targets'' (marshalled E (Some targets)),
       EvRemoteSetMeta ''snapshot'' (marshalled E (Some snapshot'))]. is_put e" by simp
  ultimately show ?thesis by blast
next
  case False
  have "upload_events E ur root targets snapshot' =
      [EvMarshal ''targets'', EvMarshal ''snapshot''] @
      [EvRemoteSetMeta ''targets'' (marshalled E (Some targets)),
       EvRemoteSetMeta ''snapshot'' (marshalled E (Some snapshot'))]"
    using False by (simp add: upload_events_def)
  moreover have "\<forall>e \<in> set [EvMarshal ''targets'', EvMarshal ''snapshot'']. \<not> is_put e"
    by simp
  moreover have "\<forall>e \<in> set [EvRemoteSetMeta ''targets'' (marshalled E (Some targets)),
       EvRemoteSetMeta ''snapshot'' (marshalled E (Some snapshot'))]. is_put e" by simp
  ultimately show ?thesis by blast
qed

lemma prefix_split:
  assumes "prefix xs (ms @ ps)"
    and "\<forall>e \<in> set ms. \<not> P e" and "\<forall>e \<in> set ps. P e"
  shows "\<exists>a b. xs = a @ b \<and> (\<forall>e \<in> set a. \<not> P e) \<and> (\<forall>e \<in> set b. P e)"
proof -
  from assms(1) have "prefix xs ms \<or> (\<exists>us. xs = ms @ us \<and> prefix us ps)"
    by (simp add: prefix_append)
  then show ?thesis
  proof
    assume "prefix xs ms"
    then have "set xs \<subseteq> set ms" by (rule set_mono_prefix)
    with assms(2) have "xs = xs @ [] \<and> (\<forall>e \<in> set xs. \<not> P e) \<and> (\<forall>e \<in> set []. P e)"
      by auto
    then show ?thesis by blast
  next
    assume "\<exists>us. xs = ms @ us \<and> prefix us ps"
    then obtain us where us: "xs = ms @ us" "prefix us ps" by blast
    from us(2) have "set us \<subseteq> set ps" by (rule set_mono_prefix)
    with assms(2,3) us(1) show ?thesis by blast
  qed
qed

lemma upload_events_roles:
  "put_roles (upload_events E ur root targets snapshot') =
     (if ur then [''root''] else []) @ [''targets'', ''snapshot'']"
  by (simp add: upload_events_def)

lemma prefix_put_roles: "prefix xs ys \<Longrightarrow> prefix (put_roles xs) (put_roles ys)"
  by (auto simp: prefix_def)

subsection \<open>The events of a run of Publish\<close>

lemma Publish_events:
  assumes "Publish E getPass w = (res, w')"
  shows "\<exists>evs. trace w' = trace w @ evs \<and>
           (\<exists>pre post. evs = pre @ post \<and>
              (\<forall>e \<in> set pre. \<not> is_put e) \<and> (\<forall>e \<in> set post. is_put e)) \<and>
           ''timestamp'' \<notin> set (put_roles evs) \<and>
           (filter is_upload evs = [] \<and> res \<noteq> Ok () \<or>
            (\<exists>updateRoot0 root0 w1 updateRoot root targets snapshot' w2.
               publish_load E w = (Ok (updateRoot0, root0), w1) \<and>
               publish_sign E getPass updateRoot0 root0 w1 =
                 (Ok (updateRoot, root, targets, snapshot'), w2) \<and>
               prefix (filter is_upload evs) (upload_events E updateRoot root targets snapshot') \<and>
               prefix (put_roles evs)
                 ((if updateRoot then [''root''] else []) @ [''targets'', ''snapshot'']) \<and>
               (res = Ok () \<longrightarrow>
                  filter is_upload evs = upload_events E updateRoot root targets snapshot' \<and>
                  put_roles evs =
                    (if updateRoot then [''root''] else []) @ [''targets'', ''snapshot''])))"
proof -
  have quiet: "\<exists>pre post. evs = pre @ post \<and>
              (\<forall>e \<in> set pre. \<not> is_put e) \<and> (\<forall>e \<in> set post. is_put e)"
    if "set evs \<subseteq> {e. \<not> is_upload e}" for evs
  proof -
    from that have "evs = evs @ [] \<and> (\<forall>e \<in> set evs. \<not> is_put e) \<and> (\<forall>e \<in> set []. is_put e)"
      by (auto simp: is_upload_def)
    then show ?thesis by blast
  qed
  have noput: "put_roles evs = []" if "set evs \<subseteq> {e. \<not> is_upload e}" for evs
    using that by (intro put_roles_none) (auto simp: is_upload_def)
  from bind_cases [OF assms [unfolded Publish_def]]
  consider (load_err) e where "publish_load E w = (Err e, w')" "res = Err e"
    | (load_panic) p where "publish_load E w = (Panic p, w')" "res = Panic p"
    | (load_ok) x w1 where "publish_load E w = (Ok x, w1)"
        "(case x of (updateRoot0, root0) \<Rightarrow>
            bind (publish_sign E getPass updateRoot0 root0)
              (\<lambda>(updateRoot, root, targets, snapshot').
                 publish_upload E updateRoot root targets snapshot')) w1 = (res, w')"
    by blast
  then show ?thesis
  proof cases
    case load_err
    from framesD(3) [OF publish_load_quiet load_err(1)]
    obtain evs where evs: "trace w' = trace w @ evs" "set evs \<subseteq> {e. \<not> is_upload e}"
      by auto
    have "filter is_upload evs = []" using evs(2) by (rule filter_none)
    with evs quiet [OF evs(2)] noput [OF evs(2)] load_err(2) show ?thesis
      by (intro exI [of _ evs]) simp
  next
    case load_panic
    from framesD(3) [OF publish_load_quiet load_panic(1)]
    obtain evs where evs: "trace w' = trace w @ evs" "set evs \<subseteq> {e. \<not> is_upload e}"
      by auto
    have "filter is_upload evs = []" using evs(2) by (rule filter_none)
    with evs quiet [OF evs(2)] noput [OF evs(2)] load_panic(2) show ?thesis
      by (intro exI [of _ evs]) simp
  next
    case load_ok
    obtain updateRoot0 root0 where x: "x = (updateRoot0, root0)" by (cases x)
    from framesD(3) [OF publish_load_quiet load_ok(1)]
    obtain evs1 where evs1: "trace w1 = trace w @ evs1" "set evs1 \<subseteq> {e. \<not> is_upload e}"
      by auto
    from load_ok(2) x
    have rest: "bind (publish_sign E getPass updateRoot0 root0)
              (\<lambda>(updateRoot, root, targets, snapshot').
                 publish_upload E updateRoot root targets snapshot') w1 = (res, w')"
      by simp
    from bind_cases [OF rest]
    consider (sign_err) e where "publish_sign E getPass updateRoot0 root0 w1 = (Err e, w')"
          "res = Err e"
      | (sign_panic) p where "publish_sign E getPass updateRoot0 root0 w1 = (Panic p, w')"
          "res = Panic p"
      | (sign_ok) y w2 where "publish_sign E getPass updateRoot0 root0 w1 = (Ok y, w2)"
          "(case y of (updateRoot, root, targets, snapshot') \<Rightarrow>
              publish_upload E updateRoot root targets snapshot') w2 = (res, w')"
      by blast
    then show ?thesis
    proof cases
      case sign_err
      from framesD(3) [OF publish_sign_quiet sign_err(1)]
      obtain evs2 where evs2: "trace w' = trace w1 @ evs2" "set evs2 \<subseteq> {e. \<not> is_upload e}"
        by auto
      let ?evs = "evs1 @ evs2"
      have sub: "set ?evs \<subseteq> {e. \<not> is_upload e}" using evs1(2) evs2(2) by simp
      have "filter is_upload ?evs = []" using sub by (rule filter_none)
      moreover have "trace w' = trace w @ ?evs" using evs1(1) evs2(1) by simp
      ultimately show ?thesis
        using quiet [OF sub] noput [OF sub] sign_err(2)
        by (intro exI [of _ ?evs]) simp
    next
      case sign_panic
      from framesD(3) [OF publish_sign_quiet sign_panic(1)]
      obtain evs2 where evs2: "trace w' = trace w1 @ evs2" "set evs2 \<subseteq> {e. \<not> is_upload e}"
        by auto
      let ?evs = "evs1 @ evs2"
      have sub: "set ?evs \<subseteq> {e. \<not> is_upload e}" using evs1(2) evs2(2) by simp
      have "filter is_upload ?evs = []" using sub by (rule filter_none)
      moreover have "trace w' = trace w @ ?evs" using evs1(1) evs2(1) by simp
      ultimately show ?thesis
        using quiet [OF sub] noput [OF sub] sign_panic(2)
        by (intro exI [of _ ?evs]) simp
    next
      case sign_ok
      obtain updateRoot root targets snapshot' where
        y: "y = (updateRoot, root, targets, snapshot')" by (cases y)
      from framesD(3) [OF publish_sign_quiet sign_ok(1)]
      obtain evs2 where evs2: "trace w2 = trace w1 @ evs2" "set evs2 \<subseteq> {e. \<not> is_upload e}"
        by auto
      from sign_ok(2) y
      have up: "publish_upload E updateRoot root targets snapshot' w2 = (res, w')" by simp
      from publish_upload_trace [OF up]
      obtain evs3 where evs3: "trace w' = trace w2 @ evs3"
        "prefix evs3 (upload_events E updateRoot root targets snapshot')"
        "res = Ok () \<longrightarrow> evs3 = upload_events E updateRoot root targets snapshot'"
        by blast
      let ?evs = "(evs1 @ evs2) @ evs3"
      have sub: "set (evs1 @ evs2) \<subseteq> {e. \<not> is_upload e}" using evs1(2) evs2(2) by simp
      have tr: "trace w' = trace w @ ?evs" using evs1(1) evs2(1) evs3(1) by simp
      from upload_events_split [of E updateRoot root targets snapshot']
      obtain ms ps where split:
        "upload_events E updateRoot root targets snapshot' = ms @ ps"
        "\<forall>e \<in> set ms. \<not> is_put e" "\<forall>e \<in> set ps. is_put e" by blast
      have only_upload: "filter is_upload evs3 = evs3"
      proof -
        have "set evs3 \<subseteq> set (upload_events E updateRoot root targets snapshot')"
          using evs3(2) by (rule set_mono_prefix)
        also have "\<dots> \<subseteq> {e. is_upload e}"
          by (auto simp: upload_events_def is_upload_def)
        finally show ?thesis by (auto simp: filter_id_conv)
      qed
      have fil: "filter is_upload ?evs = evs3"
        using filter_none [OF sub] only_upload by simp
      have roles: "put_roles ?evs = put_roles evs3"
        using noput [OF sub] by simp
      from prefix_split [OF evs3(2) [unfolded split(1)] split(2,3)]
      obtain a b where ab: "evs3 = a @ b" "\<forall>e \<in> set a. \<not> is_put e" "\<forall>e \<in> set b. is_put e"
        by blast
      have "?evs = ((evs1 @ evs2) @ a) @ b \<and>
            (\<forall>e \<in> set ((evs1 @ evs2) @ a). \<not> is_put e) \<and> (\<forall>e \<in> set b. is_put e)"
        using ab sub by (auto simp: is_upload_def)
      then have order: "\<exists>pre post. ?evs = pre @ post \<and>
              (\<forall>e \<in> set pre. \<not> is_put e) \<and> (\<forall>e \<in> set post. is_put e)"
        by blast
      have pre_roles: "prefix (put_roles evs3)
          ((if updateRoot then [''root''] else []) @ [''targets'', ''snapshot''])"
        using prefix_put_roles [OF evs3(2)] by (simp only: upload_events_roles)
      then have "set (put_roles evs3) \<subseteq>
          set ((if updateRoot then [''root''] else []) @ [''targets'', ''snapshot''])"
        by (rule set_mono_prefix)
      then have nots: "''timestamp'' \<notin> set (put_roles ?evs)"
        unfolding roles by (auto split: if_splits)
      have full: "res = Ok () \<longrightarrow>
          filter is_upload ?evs = upload_events E updateRoot root targets snapshot' \<and>
          put_roles ?evs = (if updateRoot then [''root''] else []) @ [''targets'', ''snapshot'']"
        using evs3(3) fil roles by (auto simp only: upload_events_roles)
      have "\<exists>updateRoot0 root0 w1 updateRoot root targets snapshot' w2.
               publish_load E w = (Ok (updateRoot0, root0), w1) \<and>
               publish_sign E getPass updateRoot0 root0 w1 =
                 (Ok (updateRoot, root, targets, snapshot'), w2) \<and>
               prefix (filter is_upload ?evs) (upload_events E updateRoot root targets snapshot') \<and>
               prefix (put_roles ?evs)
                 ((if updateRoot then [''root''] else []) @ [''targets'', ''snapshot'']) \<and>
               (res = Ok () \<longrightarrow>
                  filter is_upload ?evs = upload_events E updateRoot root targets snapshot' \<and>
                  put_roles ?evs =
                    (if updateRoot then [''root''] else []) @ [''targets'', ''snapshot''])"
        using load_ok(1) [unfolded x] sign_ok(1) [unfolded y] evs3(2) pre_roles full
        unfolding fil roles by blast
      with tr order nots show ?thesis
        by (intro exI [of _ ?evs]) blast
    qed
  qed
qed


text \<open>
  C4. In every run of \<open>Publish\<close>, once the first write to the remote is issued nothing but
  writes to the remote follow, so every serialization is complete before the first write;
  a timestamp role is never written. Unless the run ends before its last part, the
  serializations and writes it issues are, up to the first failure, those of
  \<open>upload_events\<close> for the values \<open>updateRoot\<close>, \<open>root\<close>, \<open>targets\<close> and \<open>snapshot\<close>
  that the earlier parts produced: targets and snapshot are serialized, then root is
  serialized and written iff \<open>updateRoot\<close> is set, then targets is written, then snapshot;
  a run that returns nil issued all of them.
\<close>

theorem Publish_upload_order:
  assumes "Publish E getPass w = (res, w')"
  shows "\<exists>evs. trace w' = trace w @ evs \<and>
           (\<exists>pre post. evs = pre @ post \<and>
              (\<forall>e \<in> set pre. \<not> is_put e) \<and> (\<forall>e \<in> set post. is_put e)) \<and>
           ''timestamp'' \<notin> set (put_roles evs) \<and>
           (filter is_upload evs = [] \<and> res \<noteq> Ok () \<or>
            (\<exists>updateRoot0 root0 w1 updateRoot root targets snapshot' w2.
               publish_load E w = (Ok (updateRoot0, root0), w1) \<and>
               publish_sign E getPass updateRoot0 root0 w1 =
                 (Ok (updateRoot, root, targets, snapshot'), w2) \<and>
               prefix (filter is_upload evs) (upload_events E updateRoot root targets snapshot') \<and>
               prefix (put_roles evs)
                 ((if updateRoot then [''root''] else []) @ [''targets'', ''snapshot'']) \<and>
               (res = Ok () \<longrightarrow>
                  filter is_upload evs = upload_events E updateRoot root targets snapshot' \<and>
                  put_roles evs =
                    (if updateRoot then [''root''] else []) @ [''targets'', ''snapshot''])))"
  using assms by (rule Publish_events)

theorem Publish_upload_order_witness:
  "fst (Publish demo_ext (Inr ''secret'') demo_world) = Ok () \<and>
   trace (snd (Publish demo_ext (Inr ''secret'') demo_world)) =
     [EvRemoteGetMeta ''root'', EvClientUpdate, EvSignTargets ''targets'', EvSignSnapshot,
      EvMarshal ''targets'', EvMarshal ''snapshot'',
      EvRemoteSetMeta ''targets'' ''json:targets'',
      EvRemoteSetMeta ''snapshot'' ''json:snapshot''] \<and>
   ''timestamp'' \<notin> set (put_roles (trace (snd (Publish demo_ext (Inr ''secret'') demo_world))))"
proof -
  define w' where "w' = snd (Publish demo_ext (Inr ''secret'') demo_world)"
  have ok: "fst (Publish demo_ext (Inr ''secret'') demo_world) = Ok ()"
    by (simp add: publish_defs step_defs demo_defs Let_def)
  then have run: "Publish demo_ext (Inr ''secret'') demo_world = (Ok (), w')"
    unfolding w'_def by (simp add: prod_eq_iff)
  have tr: "trace w' =
     [EvRemoteGetMeta ''root'', EvClientUpdate, EvSignTargets ''targets'', EvSignSnapshot,
      EvMarshal ''targets'', EvMarshal ''snapshot'',
      EvRemoteSetMeta ''targets'' ''json:targets'',
      EvRemoteSetMeta ''snapshot'' ''json:snapshot'']"
    unfolding w'_def by (simp add: publish_defs step_defs demo_defs Let_def)
  from Publish_upload_order [OF run]
  obtain evs where "trace w' = trace demo_world @ evs" "''timestamp'' \<notin> set (put_roles evs)"
    by blast
  then have "''timestamp'' \<notin> set (put_roles (trace w'))"
    by (simp add: demo_world_def)
  with ok tr show ?thesis unfolding w'_def by simp
qed

text \<open>
  C1, as the claim states it, fails: a run of \<open>Publish\<close> that returns nil leaves a
  non-empty changelist non-empty. Here the remote holds the collection, the changelist
  holds one staged target, and every collaborator succeeds.
\<close>

theorem Publish_success_keeps_entries:
  "fst (Publish demo_ext (Inr ''secret'') demo_world) = Ok () \<and>
   changelist demo_world = [demo_change] \<and>
   changelist (snd (Publish demo_ext (Inr ''secret'') demo_world)) = [demo_change] \<and>
   changelist (snd (Publish demo_ext (Inr ''secret'') demo_world)) \<noteq> []"
proof -
  have "fst (Publish demo_ext (Inr ''secret'') demo_world) = Ok ()"
    by (simp add: publish_defs step_defs demo_defs Let_def)
  moreover have "changelist (snd (Publish demo_ext (Inr ''secret'') demo_world)) =
      changelist demo_world"
    using frames_Publish [of demo_ext "Inr ''secret''"] by (simp add: frames_def)
  moreover have "changelist demo_world = [demo_change]"
    by (simp add: demo_world_def)
  ultimately show ?thesis by simp
qed

text \<open>
  C1, amended. \<open>Publish\<close> never changes the changelist: in every run, whether it returns
  nil, returns an error or panics, the changelist contents at the end are exactly what
  they were when \<open>Publish\<close> was called.
\<close>

theorem Publish_changelist_unchanged:
  "changelist (snd (Publish E getPass w)) = changelist w"
  using frames_Publish [of E getPass] by (simp add: frames_def)

theorem Publish_changelist_unchanged_witness:
  "changelist (snd (Publish (demo_ext\<lparr> remote_SetMeta := (\<lambda>role b. Some (ErrExternal ''409'')) \<rparr>)
      (Inr ''secret'') demo_world)) = [demo_change] \<and>
   fst (Publish (demo_ext\<lparr> remote_SetMeta := (\<lambda>role b. Some (ErrExternal ''409'')) \<rparr>)
      (Inr ''secret'') demo_world) = Err (ErrExternal ''409'')"
proof -
  have "fst (Publish (demo_ext\<lparr> remote_SetMeta := (\<lambda>role b. Some (ErrExternal ''409'')) \<rparr>)
      (Inr ''secret'') demo_world) = Err (ErrExternal ''409'')"
    by (simp add: publish_defs step_defs demo_defs Let_def)
  moreover have "changelist demo_world = [demo_change]"
    by (simp add: demo_world_def)
  ultimately show ?thesis
    using Publish_changelist_unchanged
      [of "demo_ext\<lparr> remote_SetMeta := (\<lambda>role b. Some (ErrExternal ''409'')) \<rparr>"
        "Inr ''secret''" demo_world]
    by simp
qed

subsection \<open>The bootstrap of Publish\<close>

lemma publish_sign_root_updateRoot:
  assumes "publish_sign_root E getPass True r0 w = (Ok (ur, r), w')"
  shows "ur"
  using assms
  by (auto simp: publish_sign_root_def get_Root_def SignRoot_def GetRootSigner_def step_defs
      split: option.splits sum.splits list.splits if_splits prod.splits)

lemma publish_sign_updateRoot:
  assumes "publish_sign E getPass True r0 w = (Ok (ur, r, t, s), w')"
  shows "ur"
proof -
  from bind_cases [OF assms [unfolded publish_sign_def]]
  obtain x w1 where x: "publish_sign_root E getPass True r0 w = (Ok x, w1)"
    and rest: "(case x of (updateRoot, root) \<Rightarrow>
           bind (SignTargets E ''targets'') (\<lambda>targets.
           bind (SignSnapshot E) (\<lambda>snapshot'.
           bind (getRemoteStore E) (\<lambda>_.
           ret (updateRoot, root, targets, snapshot'))))) w1 = (Ok (ur, r, t, s), w')"
    by auto
  obtain ur1 r1 where x1: "x = (ur1, r1)" by (cases x)
  from x x1 have "publish_sign_root E getPass True r0 w = (Ok (ur1, r1), w1)" by simp
  then have "ur1" by (rule publish_sign_root_updateRoot)
  moreover from rest x1 have "ur = ur1"
    by (auto simp: SignTargets_def SignSnapshot_def step_defs
        split: option.splits sum.splits prod.splits)
  ultimately show ?thesis by simp
qed

lemma publish_bootstrap_notfound:
  assumes "bootstrapClient E w = (Err ErrMetaNotFound, w1)"
    and "publish_bootstrap E w = (Ok x, w3)"
  shows "fst x \<and> snd x \<noteq> None"
  using assms
  by (auto simp: publish_bootstrap_def get_Root_def handle_def bind_def ret_def fail_def
      panic_def lift_def get_tufRepo_def
      split: prod.splits result.splits option.splits sum.splits)

lemma publish_load_notfound:
  assumes "bootstrapClient E w = (Err ErrMetaNotFound, w1)"
    and "publish_load E w = (Ok x, w3)"
  shows "fst x"
proof -
  from bind_cases [OF assms(2) [unfolded publish_load_def]]
  obtain y w2 where y: "publish_bootstrap E w = (Ok y, w2)"
    and rest: "(case y of (updateRoot, root) \<Rightarrow>
        bind (publish_changelist E) (\<lambda>_. ret (updateRoot, root))) w2 = (Ok x, w3)"
    by auto
  from publish_bootstrap_notfound [OF assms(1) y] have "fst y" by simp
  moreover from rest have "x = y"
    by (cases y) (auto simp: bind_def ret_def split: prod.splits result.splits)
  ultimately show ?thesis by simp
qed

lemma bootstrapRepo_no_root:
  assumes "map_of (local_meta w) ''root'' = None"
  shows "\<exists>e w'. bootstrapRepo E w = (Err e, w')"
  using assms
  by (auto simp: bootstrapRepo_def check_def bind_def fail_def ret_def cache_GetMeta_def
      split: option.splits)

lemma Publish_bootstrap_other_error:
  assumes "bootstrapClient E w = (Err e, w1)" and "e \<noteq> ErrMetaNotFound"
  shows "Publish E getPass w = (Err e, w1)"
  using assms by (simp add: Publish_def publish_load_def publish_bootstrap_def fail_def)

lemma Publish_not_initialized:
  assumes "bootstrapClient E w = (Err ErrMetaNotFound, w1)"
    and "bootstrapRepo E w1 = (Err e', w2)"
  shows "Publish E getPass w = (Err ErrRepoNotInitialized, w2)"
  using assms by (simp add: Publish_def publish_load_def publish_bootstrap_def fail_def)

lemma Publish_first_publish_roles:
  assumes "bootstrapClient E w = (Err ErrMetaNotFound, w1)"
    and "Publish E getPass w = (Ok (), w')"
  shows "\<exists>evs. trace w' = trace w @ evs \<and> put_roles evs = [''root'', ''targets'', ''snapshot'']"
proof -
  from Publish_events [OF assms(2)]
  obtain evs updateRoot0 root0 w2 updateRoot root targets snapshot' w3 where
    tr: "trace w' = trace w @ evs"
    and load: "publish_load E w = (Ok (updateRoot0, root0), w2)"
    and sign: "publish_sign E getPass updateRoot0 root0 w2 =
                 (Ok (updateRoot, root, targets, snapshot'), w3)"
    and roles: "put_roles evs =
                  (if updateRoot then [''root''] else []) @ [''targets'', ''snapshot'']"
    by auto
  from publish_load_notfound [OF assms(1) load] have "updateRoot0 = True" by simp
  with sign have "publish_sign E getPass True root0 w2 =
                 (Ok (updateRoot, root, targets, snapshot'), w3)" by simp
  then have "updateRoot" by (rule publish_sign_updateRoot)
  with tr roles show ?thesis by auto
qed

lemma bootstrapRepo_Ok:
  assumes "bootstrapRepo E w1 = (Ok u, w2)"
  shows "\<exists>rootJSON targetsJSON snapshotJSON root targets snapshot'.
           map_of (local_meta w1) ''root'' = Some rootJSON \<and>
           map_of (local_meta w1) ''targets'' = Some targetsJSON \<and>
           map_of (local_meta w1) ''snapshot'' = Some snapshotJSON \<and>
           json_Unmarshal_Signed E rootJSON = Inr root \<and>
           json_Unmarshal_Signed E targetsJSON = Inr targets \<and>
           json_Unmarshal_Signed E snapshotJSON = Inr snapshot' \<and>
           w2 = w1\<lparr> repo := (repo w1)\<lparr> tufRepo := Some
                  (snd (tuf_SetSnapshot E
                    (snd (tuf_SetTargets E
                      (snd (tuf_SetRoot E (NewTufRepo NewDB) root)) ''targets'' targets))
                    snapshot')) \<rparr> \<rparr>"
  using assms
  by (auto simp: bootstrapRepo_def cache_GetMeta_def check_def lift_def bind_def ret_def
      fail_def set_tufRepo_def split: option.splits sum.splits)

lemma bootstrapRepo_no_panic: "bootstrapRepo E w1 \<noteq> (Panic p, w2)"
  by (auto simp: bootstrapRepo_def cache_GetMeta_def check_def lift_def bind_def ret_def
      fail_def set_tufRepo_def split: option.splits sum.splits)

lemma bootstrapRepo_Err:
  assumes "\<And>u w2. bootstrapRepo E w1 \<noteq> (Ok u, w2)"
  shows "\<exists>e w2. bootstrapRepo E w1 = (Err e, w2)"
proof -
  obtain res w2 where r: "bootstrapRepo E w1 = (res, w2)" by (cases "bootstrapRepo E w1")
  with assms bootstrapRepo_no_panic [of E w1] show ?thesis by (cases res) auto
qed

lemma bootstrapRepo_missing:
  assumes "name \<in> {''root'', ''targets'', ''snapshot''}"
    and "map_of (local_meta w1) name = None"
  shows "\<exists>e w2. bootstrapRepo E w1 = (Err e, w2)"
proof (rule bootstrapRepo_Err)
  fix u w2
  show "bootstrapRepo E w1 \<noteq> (Ok u, w2)"
  proof
    assume "bootstrapRepo E w1 = (Ok u, w2)"
    from bootstrapRepo_Ok [OF this] assms show False by auto
  qed
qed

lemma bootstrapRepo_malformed:
  assumes "name \<in> {''root'', ''targets'', ''snapshot''}"
    and "map_of (local_meta w1) name = Some b"
    and "json_Unmarshal_Signed E b = Inl e"
  shows "\<exists>e' w2. bootstrapRepo E w1 = (Err e', w2)"
proof (rule bootstrapRepo_Err)
  fix u w2
  show "bootstrapRepo E w1 \<noteq> (Ok u, w2)"
  proof
    assume "bootstrapRepo E w1 = (Ok u, w2)"
    from bootstrapRepo_Ok [OF this] assms show False by auto
  qed
qed

lemma bootstrapClient_local_meta:
  assumes "bootstrapClient E w = (res, w1)"
  shows "local_meta w1 = local_meta w"
  using framesD(2) [OF frames_bootstrapClient [of UNIV E] assms] by simp

lemma publish_bootstrap_fallback:
  assumes "bootstrapClient E w = (Err ErrMetaNotFound, w1)"
    and "publish_bootstrap E w = (Ok x, w3)"
  shows "\<exists>u t sr r. bootstrapRepo E w1 = (Ok u, w3) \<and> tufRepo (repo w3) = Some t \<and>
           Root t = Some sr \<and> tuf_ToSigned E sr = Inr r \<and> x = (True, Some r)"
  using assms
  by (auto simp: publish_bootstrap_def get_Root_def handle_def bind_def ret_def fail_def
      panic_def lift_def get_tufRepo_def
      split: prod.splits result.splits option.splits sum.splits)

lemma Publish_ToSigned_error:
  assumes "bootstrapClient E w = (Err ErrMetaNotFound, w1)"
    and "bootstrapRepo E w1 = (Ok u, w2)"
    and "tufRepo (repo w2) = Some t" and "Root t = Some sr"
    and "tuf_ToSigned E sr = Inl e"
  shows "Publish E getPass w = (Err e, w2)"
  using assms
  by (simp add: Publish_def publish_load_def publish_bootstrap_def get_Root_def handle_def
      bind_def ret_def fail_def lift_def get_tufRepo_def)

lemma Publish_update_error:
  assumes "bootstrapClient E w = (Ok u, w1)"
    and "tufRepo (repo w1) = Some t" and "fst (client_Update E t) = Some e"
  shows "fst (Publish E getPass w) = Err e"
proof -
  from assms(3) obtain t' where "client_Update E t = (Some e, t')"
    by (cases "client_Update E t") auto
  with assms(1,2) show ?thesis
    by (simp add: Publish_def publish_load_def publish_bootstrap_def handle_def bind_def
        emit_def tuf_cmd_def get_tufRepo_def set_tufRepo_def check_def fail_def)
qed




subsection \<open>The passphrase callback\<close>

lemma publish_sign_root_trace:
  assumes "publish_sign_root E getPass ur0 r0 w = (res, w')"
  shows "\<exists>evs. trace w' = trace w @ evs \<and> count_list evs EvGetPass \<le> 1 \<and>
           set evs \<subseteq> {EvGetPass, EvSignRoot} \<and>
           (EvGetPass \<in> set evs \<longrightarrow> root_needs_signing E w) \<and>
           (\<forall>e. EvGetPass \<in> set evs \<and> getPass = Inl e \<longrightarrow> res = Err e)"
  using assms
  by (auto simp: publish_sign_root_def get_Root_def SignRoot_def GetRootSigner_def
      root_needs_signing_def step_defs
      split: option.splits sum.splits list.splits if_splits prod.splits)

lemma publish_sign_rest_quiet:
  "frames {EvSignTargets ''targets'', EvSignSnapshot}
     (bind (SignTargets E ''targets'') (\<lambda>targets.
      bind (SignSnapshot E) (\<lambda>snapshot'.
      bind (getRemoteStore E) (\<lambda>_.
      ret (updateRoot, root, targets, snapshot')))))"
  by (intro frames_intros) simp_all

lemma sign_root_events: "{EvGetPass, EvSignRoot} \<subseteq> {e. \<not> is_put e}"
  by simp

lemma publish_sign_trace:
  assumes "publish_sign E getPass ur0 r0 w = (res, w')"
  shows "\<exists>evs. trace w' = trace w @ evs \<and> count_list evs EvGetPass \<le> 1 \<and>
           set evs \<subseteq> {e. \<not> is_put e} \<and>
           (EvGetPass \<in> set evs \<longrightarrow> root_needs_signing E w) \<and>
           (\<forall>e. EvGetPass \<in> set evs \<and> getPass = Inl e \<longrightarrow> res = Err e)"
proof -
  from bind_cases [OF assms [unfolded publish_sign_def]]
  consider (err) e where "publish_sign_root E getPass ur0 r0 w = (Err e, w')" "res = Err e"
    | (pan) p where "publish_sign_root E getPass ur0 r0 w = (Panic p, w')" "res = Panic p"
    | (ok) x w1 where "publish_sign_root E getPass ur0 r0 w = (Ok x, w1)"
        "(case x of (updateRoot, root) \<Rightarrow>
           bind (SignTargets E ''targets'') (\<lambda>targets.
           bind (SignSnapshot E) (\<lambda>snapshot'.
           bind (getRemoteStore E) (\<lambda>_.
           ret (updateRoot, root, targets, snapshot'))))) w1 = (res, w')"
    by blast
  then show ?thesis
  proof cases
    case err
    from publish_sign_root_trace [OF err(1)]
    obtain evs where evs: "trace w' = trace w @ evs" "count_list evs EvGetPass \<le> 1"
      "set evs \<subseteq> {EvGetPass, EvSignRoot}"
      "EvGetPass \<in> set evs \<longrightarrow> root_needs_signing E w"
      "\<forall>e'. EvGetPass \<in> set evs \<and> getPass = Inl e' \<longrightarrow> Err e = Err e'"
      by blast
    from evs(3) sign_root_events have "set evs \<subseteq> {e. \<not> is_put e}" by (rule subset_trans)
    with evs err(2) show ?thesis by (intro exI [of _ evs]) simp
  next
    case pan
    from publish_sign_root_trace [OF pan(1)]
    obtain evs where evs: "trace w' = trace w @ evs" "count_list evs EvGetPass \<le> 1"
      "set evs \<subseteq> {EvGetPass, EvSignRoot}"
      "EvGetPass \<in> set evs \<longrightarrow> root_needs_signing E w"
      "\<forall>e'. EvGetPass \<in> set evs \<and> getPass = Inl e' \<longrightarrow> Panic p = Err e'"
      by blast
    from evs(3) sign_root_events have "set evs \<subseteq> {e. \<not> is_put e}" by (rule subset_trans)
    with evs pan(2) show ?thesis by (intro exI [of _ evs]) simp
  next
    case ok
    obtain updateRoot root where x: "x = (updateRoot, root)" by (cases x)
    from publish_sign_root_trace [OF ok(1)]
    obtain evs1 where evs1: "trace w1 = trace w @ evs1" "count_list evs1 EvGetPass \<le> 1"
      "set evs1 \<subseteq> {EvGetPass, EvSignRoot}"
      "EvGetPass \<in> set evs1 \<longrightarrow> root_needs_signing E w"
      "\<forall>e. EvGetPass \<in> set evs1 \<and> getPass = Inl e \<longrightarrow> Ok x = Err e"
      by blast
    from ok(2) x
    have rest: "bind (SignTargets E ''targets'') (\<lambda>targets.
           bind (SignSnapshot E) (\<lambda>snapshot'.
           bind (getRemoteStore E) (\<lambda>_.
           ret (updateRoot, root, targets, snapshot')))) w1 = (res, w')"
      by simp
    from framesD(3) [OF publish_sign_rest_quiet rest]
    obtain evs2 where evs2: "trace w' = trace w1 @ evs2"
      "set evs2 \<subseteq> {EvSignTargets ''targets'', EvSignSnapshot}"
      by blast
    have no: "EvGetPass \<notin> set evs2" using evs2(2) by auto
    then have c2: "count_list evs2 EvGetPass = 0" by simp
    have "trace w' = trace w @ (evs1 @ evs2)" using evs1(1) evs2(1) by simp
    moreover have "count_list (evs1 @ evs2) EvGetPass \<le> 1" using evs1(2) c2 by simp
    moreover have "set (evs1 @ evs2) \<subseteq> {e. \<not> is_put e}"
      using evs1(3) evs2(2) by auto
    moreover have "EvGetPass \<in> set (evs1 @ evs2) \<longrightarrow> root_needs_signing E w"
      using evs1(4) no by simp
    moreover have "\<forall>e. EvGetPass \<in> set (evs1 @ evs2) \<and> getPass = Inl e \<longrightarrow> res = Err e"
      using evs1(5) no by auto
    ultimately show ?thesis by blast
  qed
qed

text \<open>
  C5. In every run of \<open>Publish\<close> the passphrase callback is called at most once, and only
  when, after the changelist was applied, root is near expiry or dirty. If the callback
  is called and returns an error, \<open>Publish\<close> returns that error, has issued no write to
  the remote, and the changelist is as it was.
\<close>

theorem Publish_passphrase_callback:
  assumes "Publish E getPass w = (res, w')"
  shows "\<exists>evs. trace w' = trace w @ evs \<and>
           count_list evs EvGetPass \<le> 1 \<and>
           (EvGetPass \<in> set evs \<longrightarrow>
              (\<exists>updateRoot0 root0 w1.
                 publish_load E w = (Ok (updateRoot0, root0), w1) \<and> root_needs_signing E w1)) \<and>
           (\<forall>e. EvGetPass \<in> set evs \<and> getPass = Inl e \<longrightarrow>
              res = Err e \<and> (\<forall>ev \<in> set evs. \<not> is_put ev) \<and> put_roles evs = [] \<and>
              changelist w' = changelist w)"
proof -
  have cl: "changelist w' = changelist w"
    using framesD(1) [OF frames_Publish assms] .
  have load_sub: "{e. \<not> is_upload e \<and> e \<noteq> EvGetPass} \<subseteq> {e. \<not> is_put e \<and> e \<noteq> EvGetPass}"
    by (auto simp: is_upload_def)
  from bind_cases [OF assms [unfolded Publish_def]]
  consider (load_fail) r where "publish_load E w = (r, w')" "\<forall>x. r \<noteq> Ok x"
    | (load_ok) x w1 where "publish_load E w = (Ok x, w1)"
        "(case x of (updateRoot0, root0) \<Rightarrow>
            bind (publish_sign E getPass updateRoot0 root0)
              (\<lambda>(updateRoot, root, targets, snapshot').
                 publish_upload E updateRoot root targets snapshot')) w1 = (res, w')"
    by auto
  then show ?thesis
  proof cases
    case load_fail
    from framesD(3) [OF publish_load_quiet load_fail(1)]
    obtain evs where evs: "trace w' = trace w @ evs"
      "set evs \<subseteq> {e. \<not> is_upload e \<and> e \<noteq> EvGetPass}" by blast
    then have "EvGetPass \<notin> set evs" by auto
    then show ?thesis using evs(1) by (intro exI [of _ evs]) simp
  next
    case load_ok
    obtain updateRoot0 root0 where x: "x = (updateRoot0, root0)" by (cases x)
    from framesD(3) [OF publish_load_quiet load_ok(1)]
    obtain evs0 where evs0: "trace w1 = trace w @ evs0"
      "set evs0 \<subseteq> {e. \<not> is_upload e \<and> e \<noteq> EvGetPass}" by blast
    have no0: "EvGetPass \<notin> set evs0" and np0: "\<forall>ev \<in> set evs0. \<not> is_put ev"
      using evs0(2) load_sub by auto
    from load_ok(2) x
    have rest: "bind (publish_sign E getPass updateRoot0 root0)
              (\<lambda>(updateRoot, root, targets, snapshot').
                 publish_upload E updateRoot root targets snapshot') w1 = (res, w')"
      by simp
    from bind_cases [OF rest]
    consider (sign_fail) r where "publish_sign E getPass updateRoot0 root0 w1 = (r, w')"
        "\<forall>y. r \<noteq> Ok y" "(\<exists>e. r = Err e \<and> res = Err e) \<or> (\<exists>p. r = Panic p \<and> res = Panic p)"
      | (sign_ok) y w2 where "publish_sign E getPass updateRoot0 root0 w1 = (Ok y, w2)"
          "(case y of (updateRoot, root, targets, snapshot') \<Rightarrow>
              publish_upload E updateRoot root targets snapshot') w2 = (res, w')"
      by auto
    then show ?thesis
    proof cases
      case sign_fail
      from publish_sign_trace [OF sign_fail(1)]
      obtain evs1 where evs1: "trace w' = trace w1 @ evs1" "count_list evs1 EvGetPass \<le> 1"
        "set evs1 \<subseteq> {e. \<not> is_put e}"
        "EvGetPass \<in> set evs1 \<longrightarrow> root_needs_signing E w1"
        and r: "\<forall>e. EvGetPass \<in> set evs1 \<and> getPass = Inl e \<longrightarrow> r = Err e"
        by blast
      from r sign_fail(3)
      have "\<forall>e. EvGetPass \<in> set evs1 \<and> getPass = Inl e \<longrightarrow> res = Err e"
        by auto
      note evs1 = evs1 this
      let ?evs = "evs0 @ evs1"
      have c0: "count_list evs0 EvGetPass = 0" using no0 by simp
      have np: "\<forall>ev \<in> set ?evs. \<not> is_put ev" using np0 evs1(3) by auto
      then have pr: "put_roles ?evs = []" by (intro put_roles_none) auto
      have "trace w' = trace w @ ?evs" using evs0(1) evs1(1) by simp
      moreover have "count_list ?evs EvGetPass \<le> 1" using c0 evs1(2) by simp
      moreover have "EvGetPass \<in> set ?evs \<longrightarrow>
              (\<exists>updateRoot0 root0 w1.
                 publish_load E w = (Ok (updateRoot0, root0), w1) \<and> root_needs_signing E w1)"
        using no0 evs1(4) load_ok(1) x by auto
      moreover have "\<forall>e. EvGetPass \<in> set ?evs \<and> getPass = Inl e \<longrightarrow>
              res = Err e \<and> (\<forall>ev \<in> set ?evs. \<not> is_put ev) \<and> put_roles ?evs = [] \<and>
              changelist w' = changelist w"
        using no0 evs1(5) np pr cl by auto
      ultimately show ?thesis by blast
    next
      case sign_ok
      obtain updateRoot root targets snapshot' where
        y: "y = (updateRoot, root, targets, snapshot')" by (cases y)
      from publish_sign_trace [OF sign_ok(1)]
      obtain evs1 where evs1: "trace w2 = trace w1 @ evs1" "count_list evs1 EvGetPass \<le> 1"
        "EvGetPass \<in> set evs1 \<longrightarrow> root_needs_signing E w1"
        "\<forall>e. EvGetPass \<in> set evs1 \<and> getPass = Inl e \<longrightarrow> Ok y = Err e"
        by blast
      from sign_ok(2) y
      have up: "publish_upload E updateRoot root targets snapshot' w2 = (res, w')" by simp
      from framesD(3) [OF publish_upload_no_getPass up]
      obtain evs2 where evs2: "trace w' = trace w2 @ evs2" "set evs2 \<subseteq> {e. e \<noteq> EvGetPass}"
        by blast
      have no2: "EvGetPass \<notin> set evs2" using evs2(2) by auto
      let ?evs = "evs0 @ evs1 @ evs2"
      have "trace w' = trace w @ ?evs" using evs0(1) evs1(1) evs2(1) by simp
      moreover have "count_list ?evs EvGetPass \<le> 1" using no0 no2 evs1(2) by simp
      moreover have "EvGetPass \<in> set ?evs \<longrightarrow>
              (\<exists>updateRoot0 root0 w1.
                 publish_load E w = (Ok (updateRoot0, root0), w1) \<and> root_needs_signing E w1)"
        using no0 no2 evs1(3) load_ok(1) x by auto
      moreover have "\<forall>e. EvGetPass \<in> set ?evs \<and> getPass = Inl e \<longrightarrow>
              res = Err e \<and> (\<forall>ev \<in> set ?evs. \<not> is_put ev) \<and> put_roles ?evs = [] \<and>
              changelist w' = changelist w"
        using no0 no2 evs1(4) by auto
      ultimately show ?thesis by blast
    qed
  qed
qed

theorem Publish_passphrase_callback_witness:
  "fst (Publish demo_ext_expiring (Inl (ErrExternal ''cancelled'')) demo_world) =
     Err (ErrExternal ''cancelled'') \<and>
   trace (snd (Publish demo_ext_expiring (Inl (ErrExternal ''cancelled'')) demo_world)) =
     [EvRemoteGetMeta ''root'', EvClientUpdate, EvGetPass] \<and>
   changelist (snd (Publish demo_ext_expiring (Inl (ErrExternal ''cancelled'')) demo_world)) =
     [demo_change]"
proof -
  define w' where "w' = snd (Publish demo_ext_expiring (Inl (ErrExternal ''cancelled'')) demo_world)"
  have r: "fst (Publish demo_ext_expiring (Inl (ErrExternal ''cancelled'')) demo_world) =
      Err (ErrExternal ''cancelled'')"
    by (simp add: demo_ext_expiring_def publish_defs step_defs demo_defs Let_def)
  then have run: "Publish demo_ext_expiring (Inl (ErrExternal ''cancelled'')) demo_world =
      (Err (ErrExternal ''cancelled''), w')"
    unfolding w'_def by (simp add: prod_eq_iff)
  have tr: "trace w' = [EvRemoteGetMeta ''root'', EvClientUpdate, EvGetPass]"
    unfolding w'_def
    by (simp add: demo_ext_expiring_def publish_defs step_defs demo_defs Let_def)
  have start: "trace demo_world = []" "changelist demo_world = [demo_change]"
    by (simp_all add: demo_world_def)
  from Publish_passphrase_callback [OF run]
  obtain evs where evs: "trace w' = trace demo_world @ evs"
    and err: "\<forall>e. EvGetPass \<in> set evs \<and> Inl (ErrExternal ''cancelled'') = (Inl e :: error + string)
             \<longrightarrow> changelist w' = changelist demo_world"
    by blast
  from evs tr start have "evs = [EvRemoteGetMeta ''root'', EvClientUpdate, EvGetPass]" by simp
  then have "EvGetPass \<in> set evs" by simp
  with err have "changelist w' = changelist demo_world" by blast
  with r tr start show ?thesis unfolding w'_def by simp
qed

subsection \<open>AddTarget\<close>

lemma sort_key_length_hashes:
  "sort_key fst [(''length'', a), (''hashes'', h)] = [(''hashes'', h), (''length'', a)]"
  by (simp add: less_eq_char_def less_char_def)

lemma canonical_json_object_FileMeta:
  "canonical_json_object [(''length'', a), (''hashes'', h)] =
     json_object [(''hashes'', h), (''length'', a)]"
  by (simp only: canonical_json_object_def sort_key_length_hashes)

lemma json_object_FileMeta_not_canonical:
  "json_object [(''length'', a), (''hashes'', h)] \<noteq> json_object [(''hashes'', h), (''length'', a)]"
  by (simp add: json_object_def json_member_def)

lemma decimal_1024: "decimal 1024 = ''1024''"
  by (simp add: decimal.simps [of 1024] decimal.simps [of 102] decimal.simps [of 10]
      decimal.simps [of "Suc 0"])

text \<open>
  C8, as the claim states it, fails: the payload that \<open>AddTarget\<close> stages for a target of
  length 1024 with one hash is the text that \<open>encoding/json\<close> writes, with \<open>length\<close> before
  \<open>hashes\<close>, and the canonical form of the same value has \<open>hashes\<close> before \<open>length\<close>.
\<close>

theorem AddTarget_payload_not_canonical:
  "AddTarget demo_ext (Some demo_target) demo_world =
     (Ok (), demo_world\<lparr> changelist := [demo_change,
        \<lparr> c_Action = ActionCreate, c_Scope = ''targets'', c_Type = ''target'',
          c_Path = ''linux-amd64'',
          c_Content = ''{\"length\":1024,\"hashes\":{\"sha256\":\"MDA=\"}}'' \<rparr>] \<rparr>) \<and>
   canonical_json_FileMeta demo_ext \<lparr> Length = 1024, Hashes = [(''sha256'', ''00'')] \<rparr> =
     Inr ''{\"hashes\":{\"sha256\":\"MDA=\"},\"length\":1024}''"
  by (simp add: AddTarget_def NewTufChange_def step_defs demo_ext_def demo_target_def
      demo_world_def json_Marshal_FileMeta_def canonical_json_FileMeta_def
      canonical_json_object_FileMeta json_object_def json_member_def json_int_def decimal_1024)

text \<open>
  C8. A successful \<open>AddTarget\<close> appends exactly one changelist entry, with action create,
  scope \<open>targets\<close>, type \<open>target\<close>, the target's name as key, and as payload the text that
  \<open>json.Marshal\<close> of \<open>encoding/json\<close> writes for the target's length and hashes: the
  object with the member \<open>length\<close> first and the member \<open>hashes\<close> second. That text is
  never the canonical form of the value, which has \<open>hashes\<close> first. In every run,
  successful or not, \<open>AddTarget\<close> changes nothing but the changelist: the trace, and with
  it every call to the remote and every signature, the repository value, the local cache
  and the remote are as they were.
\<close>

theorem AddTarget_appends_create_entry:
  "(\<forall>w'. AddTarget E (Some tg) w = (Ok (), w') \<longrightarrow>
      (\<exists>h metaJSON.
         json_Marshal_Hashes E (t_Hashes tg) = Inr h \<and>
         json_Marshal_FileMeta E \<lparr> Length = t_Length tg, Hashes = t_Hashes tg \<rparr> = Inr metaJSON \<and>
         metaJSON = json_object [(''length'', json_int (t_Length tg)), (''hashes'', h)] \<and>
         canonical_json_FileMeta E \<lparr> Length = t_Length tg, Hashes = t_Hashes tg \<rparr> =
           Inr (json_object [(''hashes'', h), (''length'', json_int (t_Length tg))]) \<and>
         canonical_json_FileMeta E \<lparr> Length = t_Length tg, Hashes = t_Hashes tg \<rparr> \<noteq>
           Inr metaJSON \<and>
         w' = w\<lparr> changelist := changelist w @
                 [\<lparr> c_Action = ActionCreate, c_Scope = ''targets'', c_Type = ''target'',
                    c_Path = Name tg, c_Content = metaJSON \<rparr>] \<rparr>)) \<and>
   (\<forall>res w'. AddTarget E target w = (res, w') \<longrightarrow>
      w'\<lparr> changelist := changelist w \<rparr> = w \<and> trace w' = trace w)"
proof (intro conjI allI impI)
  fix w'
  assume run: "AddTarget E (Some tg) w = (Ok (), w')"
  then obtain h where h: "json_Marshal_Hashes E (t_Hashes tg) = Inr h"
    by (cases "json_Marshal_Hashes E (t_Hashes tg)")
       (auto simp: AddTarget_def json_Marshal_FileMeta_def step_defs split: option.splits)
  let ?metaJSON = "json_object [(''length'', json_int (t_Length tg)), (''hashes'', h)]"
  from h have m: "json_Marshal_FileMeta E \<lparr> Length = t_Length tg, Hashes = t_Hashes tg \<rparr> =
      Inr ?metaJSON"
    by (simp add: json_Marshal_FileMeta_def)
  from h have c: "canonical_json_FileMeta E \<lparr> Length = t_Length tg, Hashes = t_Hashes tg \<rparr> =
      Inr (json_object [(''hashes'', h), (''length'', json_int (t_Length tg))])"
    by (simp add: canonical_json_FileMeta_def canonical_json_object_FileMeta)
  from c have n: "canonical_json_FileMeta E \<lparr> Length = t_Length tg, Hashes = t_Hashes tg \<rparr> \<noteq>
      Inr ?metaJSON"
    using json_object_FileMeta_not_canonical [of "json_int (t_Length tg)" h] by auto
  from run m have w': "w' = w\<lparr> changelist := changelist w @
                 [\<lparr> c_Action = ActionCreate, c_Scope = ''targets'', c_Type = ''target'',
                    c_Path = Name tg, c_Content = ?metaJSON \<rparr>] \<rparr>"
    by (auto simp: AddTarget_def NewTufChange_def step_defs split: option.splits)
  from h m c n w' show "\<exists>h metaJSON.
         json_Marshal_Hashes E (t_Hashes tg) = Inr h \<and>
         json_Marshal_FileMeta E \<lparr> Length = t_Length tg, Hashes = t_Hashes tg \<rparr> = Inr metaJSON \<and>
         metaJSON = json_object [(''length'', json_int (t_Length tg)), (''hashes'', h)] \<and>
         canonical_json_FileMeta E \<lparr> Length = t_Length tg, Hashes = t_Hashes tg \<rparr> =
           Inr (json_object [(''hashes'', h), (''length'', json_int (t_Length tg))]) \<and>
         canonical_json_FileMeta E \<lparr> Length = t_Length tg, Hashes = t_Hashes tg \<rparr> \<noteq>
           Inr metaJSON \<and>
         w' = w\<lparr> changelist := changelist w @
                 [\<lparr> c_Action = ActionCreate, c_Scope = ''targets'', c_Type = ''target'',
                    c_Path = Name tg, c_Content = metaJSON \<rparr>] \<rparr>"
    by blast
next
  fix res w'
  assume "AddTarget E target w = (res, w')"
  then show "w'\<lparr> changelist := changelist w \<rparr> = w"
    by (auto simp: AddTarget_def NewTufChange_def step_defs
        split: option.splits sum.splits)
next
  fix res w'
  assume "AddTarget E target w = (res, w')"
  then show "trace w' = trace w"
    by (auto simp: AddTarget_def NewTufChange_def step_defs
        split: option.splits sum.splits)
qed

theorem AddTarget_appends_create_entry_witness:
  "fst (AddTarget demo_ext (Some demo_target) demo_world) = Ok () \<and>
   map c_Content (changelist (snd (AddTarget demo_ext (Some demo_target) demo_world))) =
     [''meta'', ''{\"length\":1024,\"hashes\":{\"sha256\":\"MDA=\"}}''] \<and>
   trace (snd (AddTarget demo_ext (Some demo_target) demo_world)) = []"
proof -
  have h: "json_Marshal_Hashes demo_ext (t_Hashes demo_target) = Inr ''{\"sha256\":\"MDA=\"}''"
    by (simp add: demo_ext_def)
  have ok: "fst (AddTarget demo_ext (Some demo_target) demo_world) = Ok ()"
    by (simp add: AddTarget_def step_defs demo_ext_def json_Marshal_FileMeta_def)
  then have run: "AddTarget demo_ext (Some demo_target) demo_world =
      (Ok (), snd (AddTarget demo_ext (Some demo_target) demo_world))"
    by (simp add: prod_eq_iff)
  from AddTarget_appends_create_entry [of demo_ext demo_target demo_world "Some demo_target"]
    run h
  have "snd (AddTarget demo_ext (Some demo_target) demo_world) =
      demo_world\<lparr> changelist := changelist demo_world @
        [\<lparr> c_Action = ActionCreate, c_Scope = ''targets'', c_Type = ''target'',
           c_Path = Name demo_target,
           c_Content = json_object [(''length'', json_int (t_Length demo_target)),
             (''hashes'', ''{\"sha256\":\"MDA=\"}'')] \<rparr>] \<rparr>"
    by auto
  with ok show ?thesis
    by (simp add: demo_target_def demo_world_def demo_change_def NewTufChange_def
        json_object_def json_member_def json_int_def decimal_1024)
qed

subsection \<open>Initialize\<close>

text \<open>When a step returns a value: what that says about its parts.\<close>

lemma bind_Ok_iff:
  "bind m f w = (Ok b, w') \<longleftrightarrow> (\<exists>a w1. m w = (Ok a, w1) \<and> f a w1 = (Ok b, w'))"
  by (auto simp: bind_def split: prod.splits result.splits)

lemma ret_Ok_iff: "ret a w = (Ok b, w') \<longleftrightarrow> b = a \<and> w' = w"
  by (auto simp: ret_def)

lemma lift_Ok_iff: "lift x w = (Ok a, w') \<longleftrightarrow> x = Inr a \<and> w' = w"
  by (cases x) (auto simp: lift_def ret_def fail_def)

lemma check_Ok_iff: "check x w = (Ok a, w') \<longleftrightarrow> x = None \<and> w' = w"
  by (cases x) (auto simp: check_def ret_def fail_def)

lemma emit_Ok_iff: "emit ev w = (Ok a, w') \<longleftrightarrow> w' = w\<lparr> trace := trace w @ [ev] \<rparr>"
  by (auto simp: emit_def)

lemma panic_Ok_iff: "panic p w = (Ok a, w') \<longleftrightarrow> False"
  by (simp add: panic_def)

lemma get_repo_Ok_iff: "get_repo w = (Ok r, w') \<longleftrightarrow> r = repo w \<and> w' = w"
  by (auto simp: get_repo_def)

lemma ignore_error_Ok_iff:
  "ignore_error m w = (Ok a, w') \<longleftrightarrow> (\<exists>x. m w = (Ok x, w')) \<or> (\<exists>e. m w = (Err e, w'))"
  by (auto simp: ignore_error_def handle_def ret_def split: prod.splits result.splits)

lemmas Ok_iffs =
  bind_Ok_iff ret_Ok_iff lift_Ok_iff check_Ok_iff emit_Ok_iff panic_Ok_iff get_repo_Ok_iff
  ignore_error_Ok_iff

lemma certificateStore_AddCert_frame:
  assumes "certificateStore_AddCert E c w = (res, w')"
  shows "trace w' = trace w \<and> local_meta w' = local_meta w"
  using assms
  by (auto simp: certificateStore_AddCert_def check_def ret_def fail_def
      split: prod.splits option.splits)

lemma rootKeyStore_cmd_frame:
  assumes "rootKeyStore_cmd f w = (res, w')"
  shows "trace w' = trace w \<and> local_meta w' = local_meta w"
  using assms
  by (auto simp: rootKeyStore_cmd_def check_def ret_def fail_def
      split: prod.splits option.splits)

text \<open>What the first part has done when it returns its four keys.\<close>

lemma initialize_keys_Ok:
  assumes "initialize_keys E uSigner w = (Ok (rootKey, targetsKey, snapshotKey, timestampKey), w1)"
  shows "trace w1 = trace w @
           [EvRemoteGetKey ''timestamp'', EvCreateKey ''targets'', EvCreateKey ''snapshot''] \<and>
         local_meta w1 = local_meta w \<and>
         signer_Create E ''targets'' = Inr targetsKey \<and>
         signer_Create E ''snapshot'' = Inr snapshotKey \<and>
         (\<exists>raw parsed. remote_GetKey E ''timestamp'' = Inr raw \<and>
           json_Unmarshal_TUFKey E raw = Inr parsed \<and>
           timestampKey = NewPublicKey E (kcipher parsed) (kpublic parsed))"
  using assms unfolding initialize_keys_def
  by (auto simp: Ok_iffs remote_GetKey_call_def
      dest!: certificateStore_AddCert_frame rootKeyStore_cmd_frame
      split: option.splits)

text \<open>The four roles of the key database: one key each, threshold 1.\<close>

lemma initial_keyDB_roles:
  assumes "initial_keyDB E rootKey targetsKey snapshotKey timestampKey = Inr kdb"
  shows "db_roles kdb =
           [(''root'', \<lparr> role_Name = ''root'', Threshold = 1, KeyIDs = [kid rootKey] \<rparr>),
            (''targets'', \<lparr> role_Name = ''targets'', Threshold = 1, KeyIDs = [kid targetsKey] \<rparr>),
            (''snapshot'', \<lparr> role_Name = ''snapshot'', Threshold = 1, KeyIDs = [kid snapshotKey] \<rparr>),
            (''timestamp'', \<lparr> role_Name = ''timestamp'', Threshold = 1,
                               KeyIDs = [kid timestampKey] \<rparr>)]"
  using assms
  by (auto simp: initial_keyDB_def NewRole_def AddRole_def AddKey_def NewDB_def Let_def
      split: option.splits sum.splits)

lemma saveMetadata_Ok:
  assumes "saveMetadata E sg w = (Ok (), w')"
  shows "\<exists>b. trace w' = trace w @ [EvSignRoot, EvMarshal ''root'', EvCacheSetMeta ''root'' b] \<and>
           local_meta w' = AList.update ''root'' b (local_meta w)"
  using assms
  by (auto simp: saveMetadata_def SignRoot_def step_defs
      split: option.splits sum.splits prod.splits result.splits)

text \<open>
  The loop of \<open>snapshot\<close> only adds: events to the trace, files to the cache. When it
  ends without error it has signed every target role and issued a write for each, whose
  outcome it has not looked at.
\<close>

lemma snapshot_targets_grows:
  assumes "snapshot_targets E ts w = (res, w')"
  shows "\<exists>evs. trace w' = trace w @ evs \<and>
           fst ` set (local_meta w) \<subseteq> fst ` set (local_meta w') \<and>
           (res = Ok () \<longrightarrow>
              (\<forall>t \<in> set ts. EvSignTargets t \<in> set evs \<and> (\<exists>b. EvCacheSetMeta t b \<in> set evs)))"
  using assms
proof (induction ts arbitrary: w)
  case Nil
  then show ?case by (simp add: ret_def)
next
  case (Cons t ts)
  show ?case
  proof (cases "fst (SignTargets E t w)")
    case (Ok signedTargets)
    define b where "b = (case json_Marshal_Signed E (Some signedTargets) of
        Inl e \<Rightarrow> [] | Inr x \<Rightarrow> x)"
    define w0 where "w0 = snd (SignTargets E t w)"
    have s1: "SignTargets E t w = (Ok signedTargets, w0)"
      using Ok by (simp add: w0_def prod_eq_iff)
    have t0: "trace w0 = trace w @ [EvSignTargets t]" "local_meta w0 = local_meta w"
      using s1
      by (auto simp: SignTargets_def step_defs
          split: option.splits sum.splits prod.splits result.splits)
    obtain w1 where
      w1: "bind (marshal_dropping E t (Some signedTargets)) (\<lambda>targetsJSON.
             ignore_error (cache_SetMeta E t targetsJSON)) w0 = (Ok (), w1)"
        "trace w1 = trace w0 @ [EvMarshal t, EvCacheSetMeta t b]"
        "fst ` set (local_meta w0) \<subseteq> fst ` set (local_meta w1)"
      by (cases "fs_SetMeta_result E t b")
         (auto simp: step_defs b_def AList.dom_update)
    have "snapshot_targets E (t # ts) w = snapshot_targets E ts w1"
      using s1 w1(1)
      by (auto simp: bind_def split: prod.splits result.splits)
    with Cons.prems have rest: "snapshot_targets E ts w1 = (res, w')" by simp
    from Cons.IH [OF rest]
    obtain evs where evs: "trace w' = trace w1 @ evs"
      "fst ` set (local_meta w1) \<subseteq> fst ` set (local_meta w')"
      "res = Ok () \<longrightarrow>
         (\<forall>t \<in> set ts. EvSignTargets t \<in> set evs \<and> (\<exists>b. EvCacheSetMeta t b \<in> set evs))"
      by blast
    let ?evs = "[EvSignTargets t, EvMarshal t, EvCacheSetMeta t b] @ evs"
    have "trace w' = trace w @ ?evs" using evs(1) w1(2) t0(1) by simp
    moreover have "fst ` set (local_meta w) \<subseteq> fst ` set (local_meta w')"
      using evs(2) w1(3) t0(2) by auto
    moreover have "res = Ok () \<longrightarrow>
         (\<forall>u \<in> set (t # ts). EvSignTargets u \<in> set ?evs \<and> (\<exists>b. EvCacheSetMeta u b \<in> set ?evs))"
      using evs(3) by auto
    ultimately show ?thesis by blast
  next
    case (Err e)
    with Cons.prems have "res = Err e" "w' = snd (SignTargets E t w)"
      by (auto simp: bind_def split: prod.splits result.splits)
    moreover have "trace (snd (SignTargets E t w)) = trace w @ [EvSignTargets t]"
      "local_meta (snd (SignTargets E t w)) = local_meta w"
      by (auto simp: SignTargets_def step_defs
          split: option.splits sum.splits prod.splits result.splits)
    ultimately show ?thesis by auto
  next
    case (Panic p)
    with Cons.prems have "res = Panic p" "w' = snd (SignTargets E t w)"
      by (auto simp: bind_def split: prod.splits result.splits)
    moreover have "trace (snd (SignTargets E t w)) = trace w @ [EvSignTargets t]"
      "local_meta (snd (SignTargets E t w)) = local_meta w"
      by (auto simp: SignTargets_def step_defs
          split: option.splits sum.splits prod.splits result.splits)
    ultimately show ?thesis by auto
  qed
qed

lemma SignSnapshot_Ok:
  assumes "SignSnapshot E w = (Ok s, w')"
  shows "trace w' = trace w @ [EvSignSnapshot] \<and> local_meta w' = local_meta w"
  using assms
  by (auto simp: SignSnapshot_def step_defs
      split: option.splits sum.splits prod.splits result.splits)

lemma cache_SetMeta_Ok:
  assumes "cache_SetMeta E name b w = (Ok u, w')"
  shows "trace w' = trace w @ [EvCacheSetMeta name b] \<and>
         local_meta w' = AList.update name b (local_meta w)"
  using assms
  by (auto simp: cache_SetMeta_def step_defs split: option.splits)

lemma marshal_dropping_Ok:
  assumes "marshal_dropping E role x w = (Ok b, w')"
  shows "trace w' = trace w @ [EvMarshal role] \<and> local_meta w' = local_meta w"
  using assms by (auto simp: marshal_dropping_def step_defs)

lemma snapshot_Ok:
  assumes "snapshot E w = (Ok (), w')"
  shows "\<exists>evs t. trace w' = trace w @ evs \<and> tufRepo (repo w) = Some t \<and>
           (\<forall>role \<in> set (map fst (Targets t)).
              EvSignTargets role \<in> set evs \<and> (\<exists>b. EvCacheSetMeta role b \<in> set evs)) \<and>
           EvSignSnapshot \<in> set evs \<and> (\<exists>b. EvCacheSetMeta ''snapshot'' b \<in> set evs) \<and>
           map_of (local_meta w') ''snapshot'' \<noteq> None \<and>
           fst ` set (local_meta w) \<subseteq> fst ` set (local_meta w')"
proof -
  from assms obtain t w1 w2 w3 s b where
    t: "tufRepo (repo w) = Some t"
    and loop: "snapshot_targets E (map fst (Targets t)) w = (Ok (), w1)"
    and sign: "SignSnapshot E w1 = (Ok s, w2)"
    and mar: "marshal_dropping E ''snapshot'' (Some s) w2 = (Ok b, w3)"
    and put: "cache_SetMeta E ''snapshot'' b w3 = (Ok (), w')"
    unfolding snapshot_def
    by (auto simp: bind_Ok_iff get_tufRepo_def split: option.splits)
  from snapshot_targets_grows [OF loop]
  obtain evs1 where evs1: "trace w1 = trace w @ evs1"
    "fst ` set (local_meta w) \<subseteq> fst ` set (local_meta w1)"
    "\<forall>role \<in> set (map fst (Targets t)).
        EvSignTargets role \<in> set evs1 \<and> (\<exists>b. EvCacheSetMeta role b \<in> set evs1)"
    by auto
  note s2 = SignSnapshot_Ok [OF sign]
  note s3 = marshal_dropping_Ok [OF mar]
  note s4 = cache_SetMeta_Ok [OF put]
  let ?evs = "evs1 @ [EvSignSnapshot, EvMarshal ''snapshot'', EvCacheSetMeta ''snapshot'' b]"
  have "trace w' = trace w @ ?evs" using evs1(1) s2 s3 s4 by simp
  moreover have "\<forall>role \<in> set (map fst (Targets t)).
        EvSignTargets role \<in> set ?evs \<and> (\<exists>b. EvCacheSetMeta role b \<in> set ?evs)"
    using evs1(3) by auto
  moreover have "EvSignSnapshot \<in> set ?evs" by simp
  moreover have "\<exists>b. EvCacheSetMeta ''snapshot'' b \<in> set ?evs" by auto
  moreover have "map_of (local_meta w') ''snapshot'' \<noteq> None"
    using s4 by (simp add: AList.update_conv')
  moreover have "fst ` set (local_meta w) \<subseteq> fst ` set (local_meta w')"
    using evs1(2) s2 s3 s4 by (auto simp: AList.dom_update)
  ultimately show ?thesis using t by blast
qed

text \<open>
  A successful run of \<open>Initialize\<close>: the timestamp key was fetched from the remote, the
  targets and snapshot keys were created, the key database has the four roles with one
  key and threshold 1 each, root and snapshot were signed and are in the local cache,
  and every target role of the repository was signed and a write was issued for it.
\<close>

lemma Initialize_success:
  assumes "Initialize E uSigner w = (Ok (), w')"
  shows "\<exists>evs rootKey targetsKey snapshotKey timestampKey kdb.
           trace w' = trace w @ evs \<and>
           EvRemoteGetKey ''timestamp'' \<in> set evs \<and>
           EvCreateKey ''targets'' \<in> set evs \<and> EvCreateKey ''snapshot'' \<in> set evs \<and>
           initial_keyDB E rootKey targetsKey snapshotKey timestampKey = Inr kdb \<and>
           db_roles kdb =
             [(''root'', \<lparr> role_Name = ''root'', Threshold = 1, KeyIDs = [kid rootKey] \<rparr>),
              (''targets'', \<lparr> role_Name = ''targets'', Threshold = 1, KeyIDs = [kid targetsKey] \<rparr>),
              (''snapshot'', \<lparr> role_Name = ''snapshot'', Threshold = 1, KeyIDs = [kid snapshotKey] \<rparr>),
              (''timestamp'', \<lparr> role_Name = ''timestamp'', Threshold = 1,
                                 KeyIDs = [kid timestampKey] \<rparr>)] \<and>
           EvSignRoot \<in> set evs \<and> EvSignSnapshot \<in> set evs \<and>
           map_of (local_meta w') ''root'' \<noteq> None \<and>
           map_of (local_meta w') ''snapshot'' \<noteq> None"
proof -
  from assms obtain rootKey targetsKey snapshotKey timestampKey w1 kdb where
    keys: "initialize_keys E uSigner w =
             (Ok (rootKey, targetsKey, snapshotKey, timestampKey), w1)"
    and db: "initial_keyDB E rootKey targetsKey snapshotKey timestampKey = Inr kdb"
    and rest: "initialize_repo E uSigner kdb w1 = (Ok (), w')"
    unfolding Initialize_def
    by (auto simp: bind_Ok_iff lift_Ok_iff)
  from rest obtain wa wb w2 w3 where
    a: "set_tufRepo (NewTufRepo kdb) w1 = (Ok (), wa)"
    and b: "check (NewFilesystemStore_result E) wa = (Ok (), wb)"
    and c: "tuf_cmd (tuf_InitRepo E) wb = (Ok (), w2)"
    and save: "saveMetadata E (us_signer uSigner) w2 = (Ok (), w3)"
    and snap: "snapshot E w3 = (Ok (), w')"
    unfolding initialize_repo_def
    by (auto simp: bind_Ok_iff)
  have "trace wa = trace w1 \<and> local_meta wa = local_meta w1"
    using a by (auto simp: set_tufRepo_def)
  moreover have "wb = wa" using b by (simp add: check_Ok_iff)
  moreover have "trace w2 = trace wb \<and> local_meta w2 = local_meta wb"
    using framesD(2,3) [OF frames_tuf_cmd [of "{}"] c] by auto
  ultimately have pre: "trace w2 = trace w1 \<and> local_meta w2 = local_meta w1"
    by simp
  note k = initialize_keys_Ok [OF keys]
  from saveMetadata_Ok [OF save] obtain b where
    sv: "trace w3 = trace w2 @ [EvSignRoot, EvMarshal ''root'', EvCacheSetMeta ''root'' b]"
      "local_meta w3 = AList.update ''root'' b (local_meta w2)" by blast
  from snapshot_Ok [OF snap] obtain evs3 where
    sn: "trace w' = trace w3 @ evs3" "EvSignSnapshot \<in> set evs3"
      "map_of (local_meta w') ''snapshot'' \<noteq> None"
      "fst ` set (local_meta w3) \<subseteq> fst ` set (local_meta w')" by blast
  let ?evs = "[EvRemoteGetKey ''timestamp'', EvCreateKey ''targets'', EvCreateKey ''snapshot'']
      @ [EvSignRoot, EvMarshal ''root'', EvCacheSetMeta ''root'' b] @ evs3"
  have tr: "trace w' = trace w @ ?evs" using k pre sv(1) sn(1) by simp
  have "''root'' \<in> fst ` set (local_meta w3)"
    using sv(2) by (simp add: AList.dom_update)
  with sn(4) have "''root'' \<in> fst ` set (local_meta w')" by blast
  then have root: "map_of (local_meta w') ''root'' \<noteq> None"
    by (simp add: map_of_eq_None_iff)
  have "EvRemoteGetKey ''timestamp'' \<in> set ?evs" "EvCreateKey ''targets'' \<in> set ?evs"
    "EvCreateKey ''snapshot'' \<in> set ?evs" "EvSignRoot \<in> set ?evs" "EvSignSnapshot \<in> set ?evs"
    using sn(2) by simp_all
  with tr db initial_keyDB_roles [OF db] root sn(3) show ?thesis by blast
qed

text \<open>
  \<open>Initialize\<close> returns an error when the fetch of the timestamp key or the creation of
  the targets or snapshot key fails, provided the remote store itself could be built.
\<close>

lemma bind_Panic_iff:
  "bind m f w = (Panic p, w') \<longleftrightarrow>
     m w = (Panic p, w') \<or> (\<exists>a w1. m w = (Ok a, w1) \<and> f a w1 = (Panic p, w'))"
  by (auto simp: bind_def split: prod.splits result.splits)

lemma initialize_keys_no_panic:
  assumes "getRemoteStore_result E = None"
  shows "initialize_keys E uSigner w \<noteq> (Panic p, w')"
  using assms unfolding initialize_keys_def
  by (auto simp: bind_Panic_iff get_repo_def lift_def ret_def fail_def emit_def check_def
      ignore_error_def handle_def certificateStore_AddCert_def rootKeyStore_cmd_def
      remote_GetKey_call_def
      split: sum.splits option.splits prod.splits result.splits)

lemma Initialize_key_errors:
  assumes "getRemoteStore_result E = None"
    and "remote_GetKey E ''timestamp'' = Inl e \<or> signer_Create E ''targets'' = Inl e \<or>
         signer_Create E ''snapshot'' = Inl e"
  shows "\<exists>e'. fst (Initialize E uSigner w) = Err e'"
proof -
  obtain r w1 where run: "initialize_keys E uSigner w = (r, w1)"
    by (cases "initialize_keys E uSigner w")
  have "\<exists>e'. r = Err e'"
  proof (cases r)
    case (Ok x)
    obtain rk tk sk tsk where "x = (rk, tk, sk, tsk)" by (cases x)
    with run Ok initialize_keys_Ok [of E uSigner w rk tk sk tsk w1] assms(2)
    show ?thesis by auto
  next
    case (Err e')
    then show ?thesis by simp
  next
    case (Panic p)
    with run initialize_keys_no_panic [OF assms(1)] show ?thesis by blast
  qed
  then obtain e' where "initialize_keys E uSigner w = (Err e', w1)" using run by blast
  then have "Initialize E uSigner w = (Err e', w1)"
    by (simp add: Initialize_def)
  then show ?thesis by simp
qed

subsection \<open>The root verifier\<close>

text \<open>
  Where no key of the root role makes the loop panic, the loop ends with exactly the
  accepted keys in \<open>certs\<close>, each with its entry of \<open>Keys\<close>.
\<close>

lemma validateRoot_loop_accepts:
  assumes "\<forall>fp \<in> set ks. \<not> key_panics E rootSigned fp"
  shows "\<exists>certs. validateRoot_loop E r rootSigned ks acc = Ok certs \<and>
           (\<forall>fp. map_of certs fp =
              (if fp \<in> set ks \<and> accepted_key E r rootSigned fp
               then root_Keys rootSigned fp else map_of acc fp))"
  using assms
proof (induction ks arbitrary: acc)
  case Nil
  then show ?case by simp
next
  case (Cons fingerprint rest)
  from Cons.prems have np: "\<not> key_panics E rootSigned fingerprint"
    and rest_ok: "\<forall>fp \<in> set rest. \<not> key_panics E rootSigned fp" by simp_all
  from np obtain key kBytes where key: "root_Keys rootSigned fingerprint = Some key"
    and pem: "pem_Decode E (kpublic key) = Some kBytes"
    and parse: "x509_ParseCertificates E kBytes \<noteq> Inr []"
    by (auto simp: key_panics_def split: option.splits)
  show ?case
  proof (cases "x509_ParseCertificates E kBytes")
    case (Inl err)
    then have none: "\<not> accepted_key E r rootSigned fingerprint"
      using key pem by (simp add: accepted_key_def key_leaf_def)
    from Cons.IH [OF rest_ok, of acc]
    obtain certs where certs: "validateRoot_loop E r rootSigned rest acc = Ok certs"
      "\<forall>fp. map_of certs fp =
              (if fp \<in> set rest \<and> accepted_key E r rootSigned fp
               then root_Keys rootSigned fp else map_of acc fp)" by blast
    have "validateRoot_loop E r rootSigned (fingerprint # rest) acc = Ok certs"
      using key pem Inl certs(1) by simp
    moreover have "\<forall>fp. map_of certs fp =
              (if fp \<in> set (fingerprint # rest) \<and> accepted_key E r rootSigned fp
               then root_Keys rootSigned fp else map_of acc fp)"
      using certs(2) none by auto
    ultimately show ?thesis by blast
  next
    case (Inr decodedCerts)
    with parse obtain leafCert more where dc: "decodedCerts = leafCert # more"
      by (cases decodedCerts) auto
    have leaf: "key_leaf E rootSigned fingerprint = Some leafCert"
      using key pem Inr dc by (simp add: key_leaf_def)
    define acc' where "acc' =
      (if accepted_key E r rootSigned fingerprint then AList.update fingerprint key acc else acc)"
    have step: "validateRoot_loop E r rootSigned (fingerprint # rest) acc =
        validateRoot_loop E r rootSigned rest acc'"
      using key pem Inr dc leaf
      by (auto simp: acc'_def accepted_key_def pinned_def chained_def Verify_def Let_def
          GetCertificateByFingerprint_def split: option.splits)
    from Cons.IH [OF rest_ok, of acc']
    obtain certs where certs: "validateRoot_loop E r rootSigned rest acc' = Ok certs"
      "\<forall>fp. map_of certs fp =
              (if fp \<in> set rest \<and> accepted_key E r rootSigned fp
               then root_Keys rootSigned fp else map_of acc' fp)" by blast
    have "\<forall>fp. map_of certs fp =
              (if fp \<in> set (fingerprint # rest) \<and> accepted_key E r rootSigned fp
               then root_Keys rootSigned fp else map_of acc fp)"
      using certs(2) key by (auto simp: acc'_def AList.update_conv')
    with step certs(1) show ?thesis by simp
  qed
qed

lemma validateRoot_loop_panics:
  assumes "\<exists>fp \<in> set ks. key_panics E rootSigned fp"
  shows "\<exists>p. validateRoot_loop E r rootSigned ks acc = Panic p"
  using assms
proof (induction ks arbitrary: acc)
  case Nil
  then show ?case by simp
next
  case (Cons fingerprint rest)
  show ?case
  proof (cases "key_panics E rootSigned fingerprint")
    case True
    then show ?thesis
      by (auto simp: key_panics_def split: option.splits)
  next
    case False
    with Cons.prems have "\<exists>fp \<in> set rest. key_panics E rootSigned fp" by simp
    from Cons.IH [OF this] False show ?thesis
      by (auto simp: key_panics_def Let_def split: option.splits sum.splits list.splits)
  qed
qed

text \<open>
  The verifier on a root whose body parses and has a root role: it panics iff some key of
  the root role has no entry, is not PEM or decodes to no certificate; otherwise it fails
  with the untrusted-root error when no key is accepted, and else returns what
  \<open>signed.VerifyRoot\<close> returns for threshold 1 and exactly the accepted keys.
\<close>

lemma validateRoot_accepts:
  assumes "json_Unmarshal_Root E (Signed_bytes root) = Inr rootSigned"
    and "root_Roles rootSigned ''root'' = Some role"
    and "\<forall>fp \<in> set (KeyIDs role). \<not> key_panics E rootSigned fp"
  shows "\<exists>certs.
           (\<forall>fp. map_of certs fp =
              (if fp \<in> set (KeyIDs role) \<and> accepted_key E r rootSigned fp
               then root_Keys rootSigned fp else None)) \<and>
           validateRoot E r root =
             (if \<not> (\<exists>fp \<in> set (KeyIDs role). accepted_key E r rootSigned fp)
              then Err (ErrorsNew ''could not validate the path to a trusted root'')
              else (case signed_VerifyRoot E root 0 certs 1 of
                      Some err \<Rightarrow> Err err
                    | None \<Rightarrow> Ok ()))"
proof -
  from validateRoot_loop_accepts [OF assms(3), of r "[]"]
  obtain certs where certs: "validateRoot_loop E r rootSigned (KeyIDs role) [] = Ok certs"
    and m: "\<forall>fp. map_of certs fp =
              (if fp \<in> set (KeyIDs role) \<and> accepted_key E r rootSigned fp
               then root_Keys rootSigned fp else None)" by auto
  have present: "root_Keys rootSigned fp \<noteq> None" if "fp \<in> set (KeyIDs role)" for fp
    using assms(3) that by (auto simp: key_panics_def split: option.splits)
  have "certs = [] \<longleftrightarrow> \<not> (\<exists>fp \<in> set (KeyIDs role). accepted_key E r rootSigned fp)"
  proof
    assume "certs = []"
    with m have "\<forall>fp. \<not> (fp \<in> set (KeyIDs role) \<and> accepted_key E r rootSigned fp)"
      using present by (metis map_of.simps(1))
    then show "\<not> (\<exists>fp \<in> set (KeyIDs role). accepted_key E r rootSigned fp)" by blast
  next
    assume none: "\<not> (\<exists>fp \<in> set (KeyIDs role). accepted_key E r rootSigned fp)"
    with m have "\<forall>fp. map_of certs fp = None" by auto
    then show "certs = []"
      by (cases certs) (auto split: if_splits)
  qed
  then have "length certs < 1 \<longleftrightarrow>
      \<not> (\<exists>fp \<in> set (KeyIDs role). accepted_key E r rootSigned fp)" by simp
  with certs assms(1,2) have "validateRoot E r root =
             (if \<not> (\<exists>fp \<in> set (KeyIDs role). accepted_key E r rootSigned fp)
              then Err (ErrorsNew ''could not validate the path to a trusted root'')
              else (case signed_VerifyRoot E root 0 certs 1 of
                      Some err \<Rightarrow> Err err
                    | None \<Rightarrow> Ok ()))"
    by (simp add: validateRoot_def)
  with m show ?thesis by blast
qed

text \<open>
  C2 at a failing input. The root role lists the key \<open>k1\<close>, the local certificate store
  pins the leaf for the GUN, but the public material of \<open>k1\<close> is not PEM: no key is
  accepted, and the verifier does not fail with the untrusted-root error but panics, and
  \<open>Publish\<close> with it.
\<close>

theorem validateRoot_panics_on_non_PEM_key:
  "validateRoot demo_ext_not_pem demo_repo (demo_signed ''root.json'') =
     Panic ''nil pointer dereference: k.Bytes'' \<and>
   key_leaf demo_ext_not_pem demo_root_body ''k1'' = None \<and>
   \<not> accepted_key demo_ext_not_pem demo_repo demo_root_body ''k1'' \<and>
   fst (Publish demo_ext_not_pem (Inr ''secret'') demo_world) =
     Panic ''nil pointer dereference: k.Bytes''"
  by (simp add: demo_ext_not_pem_def accepted_key_def key_leaf_def publish_defs step_defs
      demo_defs)

subsection \<open>Errors that are dropped\<close>

text \<open>
  C7 at a failing input. The root key store rejects the write; \<open>AddEncryptedKey\<close> returns
  the error, and \<open>GenRootKey\<close> returns the key identifier with a nil error while the
  store holds no such key. A wrong passphrase reaches the caller of \<open>GetRootSigner\<close> as a
  fresh string error, not as the key store's error.
\<close>

theorem GenRootKey_drops_store_error:
  "fst (ks_AddEncryptedKey demo_ext_keystore_readonly (rootKeyStore demo_repo) ''rootkey''
          (us_privKey demo_signer) ''pw'') = Some (ErrExternal ''EACCES'') \<and>
   GenRootKey demo_ext_keystore_readonly ''pw'' demo_world = (Ok ''rootkey'', demo_world) \<and>
   map_of (ks_keys (rootKeyStore (repo demo_world))) ''rootkey'' = None \<and>
   fst (GetRootSigner demo_ext ''k1'' ''wrong'' demo_world) =
     Err (FmtErrorf ''could not get decrypted root key: %v'' (ErrExternal ''bad passphrase''))"
  by (simp add: demo_ext_keystore_readonly_def GenRootKey_def GetRootSigner_def
      ks_AddEncryptedKey_def ks_GetDecryptedKey_def rootKeyStore_cmd_def rsaRootKeySize_def
      demo_signer_def step_defs demo_defs)

text \<open>
  C6 at a failing input. The local cache rejects the targets file and accepts the others:
  \<open>Initialize\<close> returns nil, root and snapshot are in the cache, targets is not, though
  the write was issued. A \<open>Publish\<close> that then falls back to the cache finds no targets
  and reports the repository as not initialized.
\<close>

theorem Initialize_succeeds_without_targets:
  "fst (Initialize demo_ext_targets_unwritable demo_signer demo_world) = Ok () \<and>
   map fst (local_meta (snd (Initialize demo_ext_targets_unwritable demo_signer demo_world))) =
     [''root'', ''snapshot''] \<and>
   map_of (local_meta (snd (Initialize demo_ext_targets_unwritable demo_signer demo_world)))
     ''targets'' = None \<and>
   EvCacheSetMeta ''targets'' ''json:targets'' \<in>
     set (trace (snd (Initialize demo_ext_targets_unwritable demo_signer demo_world))) \<and>
   fst (Publish demo_ext_notfound (Inr ''secret'')
          (snd (Initialize demo_ext_targets_unwritable demo_signer demo_world))) =
     Err ErrRepoNotInitialized"
  by (simp add: demo_ext_targets_unwritable_def demo_ext_notfound_def initialize_defs
      demo_signer_def publish_defs step_defs demo_defs Let_def)

end
